(* ===== verification/Prelude.thy ===== *)
theory Prelude
  imports Complex_Main "HOL-Library.Multiset"
begin

text \<open>
  Shared vocabulary of the dashboard model: the Python exceptions the program can raise,
  an error-propagating bind for the sum type \<open>py_error + 'a\<close> (Python's exception
  propagation through straight-line code), and the list lemmas the component theories
  share. The collection \<open>model_simps\<close> gathers the evaluation rules of a script run
  (declared in \<open>Pages\<close>) so that proofs about the composed program unfold a run in
  one step.
\<close>

named_theorems model_simps "evaluation rules of the modelled operations"

type_synonym label = string

text \<open>The exceptions the program can raise, as far as the model distinguishes them.\<close>

datatype py_error =
    KeyError label          \<comment> \<open>\<open>df[c]\<close> or \<open>column_map[k]\<close> with an absent key\<close>
  | TypeError label         \<comment> \<open>arithmetic on a column whose dtype is \<open>object\<close> (text)\<close>
  | FileNotFoundError string \<comment> \<open>\<open>pd.read_csv\<close> on a missing file\<close>
  | AmbiguousLabel label    \<comment> \<open>a label held by two columns after a rename\<close>
  | ValueError label        \<comment> \<open>a plotly express argument naming no column of the frame\<close>
  | IndexError string       \<comment> \<open>a list index out of range, here \<open>page.split()[1]\<close>\<close>
  | ZeroDivisionError string \<comment> \<open>Python \<open>int\<close> division by zero\<close>
  | MediaFileStorageError string \<comment> \<open>\<open>st.image\<close> on a file that cannot be opened\<close>

type_synonym 'a result = "py_error + 'a"

definition ebind :: "'a result \<Rightarrow> ('a \<Rightarrow> 'b result) \<Rightarrow> 'b result" where
  "ebind r f = (case r of Inl e \<Rightarrow> Inl e | Inr x \<Rightarrow> f x)"

lemma ebind_Inl [simp]: "ebind (Inl e) f = Inl e"
  by (simp add: ebind_def)

lemma ebind_Inr [simp]: "ebind (Inr x) f = f x"
  by (simp add: ebind_def)

lemma ebind_eq_Inr_iff [simp]:
  "ebind r f = Inr y \<longleftrightarrow> (\<exists>x. r = Inr x \<and> f x = Inr y)"
  by (cases r) simp_all

lemma ebind_eq_Inl_iff:
  "ebind r f = Inl e \<longleftrightarrow> r = Inl e \<or> (\<exists>x. r = Inr x \<and> f x = Inl e)"
  by (cases r) simp_all

lemma ebind_cong [fundef_cong]:
  "r = r' \<Longrightarrow> (\<And>x. r' = Inr x \<Longrightarrow> f x = g x) \<Longrightarrow> ebind r f = ebind r' g"
  by (cases r') simp_all

text \<open>Mapping over the success value of a result.\<close>

definition emap :: "('a \<Rightarrow> 'b) \<Rightarrow> 'a result \<Rightarrow> 'b result" where
  "emap f r = ebind r (\<lambda>x. Inr (f x))"

lemma emap_simps [simp]: "emap f (Inl e) = Inl e" "emap f (Inr x) = Inr (f x)"
  by (simp_all add: emap_def)

end
