(* ===== verification/PyFloat.thy ===== *)
theory PyFloat
  imports Prelude
begin

text \<open>
  The numbers the dashboard computes with. \<open>df[c].sum()\<close> returns a NumPy scalar, and
  every later operation of \<open>src/app.py\<close> (subtraction, true division, \<open>* 100\<close>,
  \<open>round(_, 2)\<close>, comparison with 0) is a NumPy float64 operation. NumPy does not raise
  on a zero divisor: it returns \<open>inf\<close>, \<open>-inf\<close> or \<open>nan\<close> with a warning, and the
  values flow on. The model keeps exactly these four kinds of values: a finite value
  (an exact rational, so binary rounding error of float64 is not modelled), the two
  infinities and NaN, with IEEE 754 rules for each operation. Rounding to \<open>d\<close>
  decimals is NumPy's: scale by \<open>10^d\<close>, round half to even, scale back.
\<close>

datatype pyfloat = Fin rat | PosInf | NegInf | NaN

subsection \<open>Arithmetic with IEEE special values\<close>

fun fneg :: "pyfloat \<Rightarrow> pyfloat" where
  "fneg (Fin a) = Fin (- a)"
| "fneg PosInf = NegInf"
| "fneg NegInf = PosInf"
| "fneg NaN = NaN"

fun fabs :: "pyfloat \<Rightarrow> pyfloat" where
  "fabs (Fin a) = Fin \<bar>a\<bar>"
| "fabs NaN = NaN"
| "fabs _ = PosInf"

fun fadd :: "pyfloat \<Rightarrow> pyfloat \<Rightarrow> pyfloat" where
  "fadd (Fin a) (Fin b) = Fin (a + b)"
| "fadd NaN _ = NaN"
| "fadd _ NaN = NaN"
| "fadd PosInf NegInf = NaN"
| "fadd NegInf PosInf = NaN"
| "fadd PosInf _ = PosInf"
| "fadd _ PosInf = PosInf"
| "fadd NegInf _ = NegInf"
| "fadd _ NegInf = NegInf"

definition fsub :: "pyfloat \<Rightarrow> pyfloat \<Rightarrow> pyfloat" where
  "fsub a b = fadd a (fneg b)"

fun fmul :: "pyfloat \<Rightarrow> pyfloat \<Rightarrow> pyfloat" where
  "fmul (Fin a) (Fin b) = Fin (a * b)"
| "fmul NaN _ = NaN"
| "fmul _ NaN = NaN"
| "fmul (Fin a) y = (if a = 0 then NaN else if 0 < a then y else fneg y)"
| "fmul x (Fin b) = (if b = 0 then NaN else if 0 < b then x else fneg x)"
| "fmul x y = (if x = y then PosInf else NegInf)"

text \<open>
  True division. A finite value divided by zero is an infinity of the numerator's sign,
  and \<open>0 / 0\<close> is NaN (the denominator's zero is a positive zero: it is a sum).
\<close>

fun fdiv :: "pyfloat \<Rightarrow> pyfloat \<Rightarrow> pyfloat" where
  "fdiv (Fin a) (Fin b) =
     (if b \<noteq> 0 then Fin (a / b)
      else if 0 < a then PosInf else if a < 0 then NegInf else NaN)"
| "fdiv NaN _ = NaN"
| "fdiv _ NaN = NaN"
| "fdiv (Fin a) _ = Fin 0"
| "fdiv x (Fin b) = (if b < 0 then fneg x else x)"
| "fdiv _ _ = NaN"

text \<open>Python's \<open><\<close> on floats: every comparison with NaN is false.\<close>

fun fless :: "pyfloat \<Rightarrow> pyfloat \<Rightarrow> bool" where
  "fless NaN _ = False"
| "fless _ NaN = False"
| "fless (Fin a) (Fin b) = (a < b)"
| "fless NegInf y = (y \<noteq> NegInf)"
| "fless x PosInf = (x \<noteq> PosInf)"
| "fless _ _ = False"

subsection \<open>Rounding\<close>

text \<open>Round half to even (\<open>numpy.rint\<close>, also Python's \<open>round\<close> and format rule).\<close>

definition round_half_even :: "rat \<Rightarrow> int" where
  "round_half_even x =
     (let f = \<lfloor>x\<rfloor>; d = x - of_int f in
      if d < 1/2 then f
      else if 1/2 < d then f + 1
      else if even f then f else f + 1)"

text \<open>Rounding a finite value to \<open>d\<close> decimals: scale, round half to even, scale back.\<close>

definition round_to :: "nat \<Rightarrow> rat \<Rightarrow> rat" where
  "round_to d x = of_int (round_half_even (x * 10 ^ d)) / 10 ^ d"

text \<open>\<open>numpy.round(x, d)\<close> (also Python's \<open>round(x, d)\<close> on a NumPy scalar);
  \<open>inf\<close> and \<open>nan\<close> are returned unchanged.\<close>

fun np_round :: "nat \<Rightarrow> pyfloat \<Rightarrow> pyfloat" where
  "np_round d (Fin x) = Fin (round_to d x)"
| "np_round d v = v"

subsection \<open>Properties of rounding\<close>

lemma round_half_even_cases:
  "of_int (round_half_even x) = of_int \<lfloor>x\<rfloor> \<or> round_half_even x = \<lfloor>x\<rfloor> + 1"
  by (auto simp: round_half_even_def Let_def)

lemma round_half_even_bound: "\<bar>of_int (round_half_even x) - x\<bar> \<le> 1/2"
proof -
  let ?f = "\<lfloor>x\<rfloor>"
  have lo: "of_int ?f \<le> x" and hi: "x < of_int ?f + 1"
    using floor_correct [of x] by simp_all
  show ?thesis
    using lo hi by (auto simp: round_half_even_def Let_def abs_if; linarith)
qed

lemma round_half_even_of_int [simp]: "round_half_even (of_int k) = k"
  by (simp add: round_half_even_def)

lemma round_half_even_add_even:
  assumes "even k" shows "round_half_even (x + of_int k) = round_half_even x + k"
proof -
  have "\<lfloor>x + of_int k\<rfloor> = \<lfloor>x\<rfloor> + k" by simp
  moreover have "even (\<lfloor>x\<rfloor> + k) \<longleftrightarrow> (even \<lfloor>x\<rfloor> \<longleftrightarrow> even k)" by simp
  ultimately show ?thesis
    using \<open>even k\<close> by (auto simp: round_half_even_def Let_def)
qed

lemma round_half_even_mono:
  assumes "x \<le> y" shows "round_half_even x \<le> round_half_even y"
proof (cases "\<lfloor>x\<rfloor> < \<lfloor>y\<rfloor>")
  case True
  have "round_half_even x \<le> \<lfloor>x\<rfloor> + 1" "\<lfloor>y\<rfloor> \<le> round_half_even y"
    by (auto simp: round_half_even_def Let_def)
  with True show ?thesis by linarith
next
  case False
  with assms have "\<lfloor>x\<rfloor> = \<lfloor>y\<rfloor>" by (meson floor_mono not_less order_antisym)
  with assms show ?thesis
    by (auto simp: round_half_even_def Let_def)
qed

lemma round_half_even_neg: "round_half_even (- x) = - round_half_even x"
proof (cases "x \<in> \<int>")
  case True
  then obtain k where "x = of_int k" by (auto elim: Ints_cases)
  then show ?thesis using round_half_even_of_int [of "- k"] by simp
next
  case False
  have "of_int \<lfloor>x\<rfloor> \<noteq> x" using False by (metis Ints_of_int)
  then have lo: "of_int \<lfloor>x\<rfloor> < x" and hi: "x < of_int \<lfloor>x\<rfloor> + 1"
    using floor_correct [of x] by (simp_all add: order_less_le)
  then have fl: "\<lfloor>- x\<rfloor> = - \<lfloor>x\<rfloor> - 1"
    by (intro floor_unique) simp_all
  show ?thesis
    using fl lo by (auto simp: round_half_even_def Let_def; linarith)
qed

lemma round_to_idem [simp]: "round_to d (round_to d x) = round_to d x"
  by (simp add: round_to_def)

lemma np_round_idem: "np_round d (np_round d v) = np_round d v"
  by (cases v) simp_all

text \<open>\<open>round(x, d)\<close> moves a value by at most half a unit of the \<open>d\<close>-th decimal.\<close>

lemma round_to_bound: "\<bar>round_to d x - x\<bar> \<le> 1 / (2 * 10 ^ d)"
proof -
  let ?r = "round_to d x"
  have "\<bar>of_int (round_half_even (x * 10 ^ d)) - x * 10 ^ d\<bar> \<le> 1/2"
    by (rule round_half_even_bound)
  then have "\<bar>?r * 10 ^ d - x * 10 ^ d\<bar> \<le> 1/2" by (simp add: round_to_def)
  then have "\<bar>?r - x\<bar> * 10 ^ d \<le> 1/2" by (simp add: abs_mult left_diff_distrib[symmetric])
  then show ?thesis by (simp add: field_simps)
qed

lemma round_to_mono: "x \<le> y \<Longrightarrow> round_to d x \<le> round_to d y"
  by (simp add: round_to_def divide_right_mono round_half_even_mono)

lemma round_to_neg: "round_to d (- x) = - round_to d x"
  by (simp add: round_to_def round_half_even_neg)

lemma round_to_zero [simp]: "round_to d 0 = 0"
  using round_half_even_of_int [of 0] by (simp add: round_to_def)

subsection \<open>Special values\<close>

lemma fdiv_by_zero:
  "fdiv (Fin a) (Fin 0) = (if 0 < a then PosInf else if a < 0 then NegInf else NaN)"
  by simp

lemma fsub_Fin [simp]: "fsub (Fin a) (Fin b) = Fin (a - b)"
  by (simp add: fsub_def)

lemma fless_NaN [simp]: "\<not> fless NaN x" "\<not> fless x NaN"
  by (cases x; simp)+

lemma fadd_NaN [simp]: "fadd NaN x = NaN" "fadd x NaN = NaN"
  by (cases x; simp)+

lemma np_round_NaN_iff [simp]: "np_round d v = NaN \<longleftrightarrow> v = NaN"
  by (cases v) simp_all

lemma np_round_Fin_iff: "(\<exists>r. np_round d v = Fin r) \<longleftrightarrow> (\<exists>x. v = Fin x)"
  by (cases v) simp_all

end
