(* ===== verification/Format.thy ===== *)
theory Format
  imports PyFloat
begin

text \<open>
  Python's fixed-point formatting as the dashboard uses it: \<open>f"{x:.2f}"\<close> in
  \<open>performance_arrow\<close> and the metric cards, \<open>f"{x:,.2f}"\<close> for the revenue and
  margin totals and \<open>f"{x:,.0f}"\<close> for the quantity totals (\<open>src/app.py\<close>). The
  rendering rounds the value half to even at the requested precision, prints the sign of
  the unrounded value (so \<open>-0.001\<close> prints as \<open>-0.00\<close>), groups the integer digits by
  three with commas when asked, and prints \<open>inf\<close>, \<open>-inf\<close> and \<open>nan\<close> for the
  special values. \<open>value_of_fixed\<close> reads such a string back strictly, as a reader of
  the page would: the digits after the point are scaled by their number, so a fraction
  printed without its leading zeros reads as a different value. The roundtrip lemma says
  that the text shown is exactly the value rounded by \<open>np_round\<close>.
\<close>

definition digit_char :: "nat \<Rightarrow> char" where
  "digit_char d = char_of (48 + d)"

definition digit_val :: "char \<Rightarrow> nat" where
  "digit_val c = of_char c - 48"

fun show_nat :: "nat \<Rightarrow> string" where
  "show_nat n = (if n < 10 then [digit_char n] else show_nat (n div 10) @ [digit_char (n mod 10)])"

declare show_nat.simps [simp del]

definition read_nat :: "string \<Rightarrow> nat" where
  "read_nat s = foldl (\<lambda>acc c. 10 * acc + digit_val c) 0 s"

text \<open>Thousands grouping, applied to the reversed digit string.\<close>

fun sep3 :: "char list \<Rightarrow> char list" where
  "sep3 (a # b # c # d # rest) = a # b # c # CHR '','' # sep3 (d # rest)"
| "sep3 xs = xs"

definition group_thousands :: "string \<Rightarrow> string" where
  "group_thousands s = rev (sep3 (rev s))"

definition pad_zeros :: "nat \<Rightarrow> string \<Rightarrow> string" where
  "pad_zeros w s = replicate (w - length s) (CHR ''0'') @ s"

text \<open>\<open>format(x, ".pf")\<close> (\<open>grp = False\<close>) and \<open>format(x, ",.pf")\<close> (\<open>grp = True\<close>).\<close>

fun fmt_fixed :: "bool \<Rightarrow> nat \<Rightarrow> pyfloat \<Rightarrow> string" where
  "fmt_fixed grp p (Fin x) =
     (let n = nat (round_half_even (\<bar>x\<bar> * 10 ^ p));
          ips = show_nat (n div 10 ^ p)
      in (if x < 0 then ''-'' else '''') @ (if grp then group_thousands ips else ips) @
         (if p = 0 then '''' else ''.'' @ pad_zeros p (show_nat (n mod 10 ^ p))))"
| "fmt_fixed grp p PosInf = ''inf''"
| "fmt_fixed grp p NegInf = ''-inf''"
| "fmt_fixed grp p NaN = ''nan''"

text \<open>The integer part as printed, with or without grouping.\<close>

definition int_part :: "bool \<Rightarrow> nat \<Rightarrow> string" where
  "int_part grp a = (if grp then group_thousands (show_nat a) else show_nat a)"

text \<open>The fraction part as printed: a point and \<open>p\<close> digits, nothing when \<open>p = 0\<close>.\<close>

definition frac_part :: "nat \<Rightarrow> nat \<Rightarrow> string" where
  "frac_part p b = (if p = 0 then '''' else ''.'' @ pad_zeros p (show_nat b))"

text \<open>Reading a fixed-point rendering back: sign, digits with commas ignored, and the
  fraction scaled by the number of digits printed after the point.\<close>

definition unsigned_value :: "string \<Rightarrow> rat" where
  "unsigned_value s =
     (let body = filter (\<lambda>c. c \<noteq> CHR '','') s;
          ip = takeWhile (\<lambda>c. c \<noteq> CHR ''.'') body;
          fp = drop 1 (dropWhile (\<lambda>c. c \<noteq> CHR ''.'') body)
      in of_nat (read_nat ip) + of_nat (read_nat fp) / 10 ^ length fp)"

definition value_of_fixed :: "string \<Rightarrow> rat" where
  "value_of_fixed s =
     (if take 1 s = ''-'' then - unsigned_value (drop 1 s) else unsigned_value s)"

subsection \<open>Digits\<close>

lemma digit_val_char [simp]: "d < 10 \<Longrightarrow> digit_val (digit_char d) = d"
  by (simp add: digit_val_def digit_char_def)

lemma of_char_digit: "d < 10 \<Longrightarrow> of_char (digit_char d) = (48 + d :: nat)"
  by (simp add: digit_char_def)

lemma digit_not_sep [simp]:
  "d < 10 \<Longrightarrow> digit_char d \<noteq> CHR '',''" "d < 10 \<Longrightarrow> digit_char d \<noteq> CHR ''.''"
  "d < 10 \<Longrightarrow> digit_char d \<noteq> CHR ''-''"
  by (auto dest!: arg_cong [where f = "of_char :: char \<Rightarrow> nat"] simp: of_char_digit)

lemma show_nat_digits: "\<forall>c \<in> set (show_nat n). \<exists>d < 10. c = digit_char d"
proof (induction n rule: show_nat.induct)
  case (1 n)
  have "n mod 10 < 10" by simp
  with 1 show ?case by (subst show_nat.simps) (auto simp del: mod_less_divisor)
qed

lemma show_nat_no_sep [simp]:
  "CHR '','' \<notin> set (show_nat n)" "CHR ''.'' \<notin> set (show_nat n)" "CHR ''-'' \<notin> set (show_nat n)"
  using show_nat_digits [of n] by (metis digit_not_sep)+

lemma show_nat_ne [simp]: "show_nat n \<noteq> []"
  by (subst show_nat.simps) simp

lemma read_nat_Nil [simp]: "read_nat [] = 0"
  by (simp add: read_nat_def)

lemma read_nat_snoc: "read_nat (s @ [c]) = 10 * read_nat s + digit_val c"
  by (simp add: read_nat_def)

lemma read_nat_show_nat [simp]: "read_nat (show_nat n) = n"
proof (induction n rule: show_nat.induct)
  case (1 n)
  then show ?case by (subst show_nat.simps) (simp add: read_nat_snoc read_nat_def)
qed

lemma read_nat_zeros [simp]: "read_nat (replicate k (CHR ''0'') @ s) = read_nat s"
proof -
  have "foldl (\<lambda>acc c. 10 * acc + digit_val c) 0 (replicate k (CHR ''0'')) = 0"
    by (induction k) (simp_all add: digit_val_def)
  then show ?thesis by (simp add: read_nat_def)
qed

lemma read_nat_pad [simp]: "read_nat (pad_zeros w s) = read_nat s"
  by (simp add: pad_zeros_def)

lemma sep3_filter: "filter (\<lambda>c. c \<noteq> CHR '','') (sep3 xs) = filter (\<lambda>c. c \<noteq> CHR '','') xs"
  by (induction xs rule: sep3.induct) simp_all

lemma group_thousands_filter:
  "filter (\<lambda>c. c \<noteq> CHR '','') (group_thousands s) = filter (\<lambda>c. c \<noteq> CHR '','') s"
  by (simp add: group_thousands_def rev_filter [symmetric] sep3_filter)


lemma sep3_set: "set (sep3 xs) \<subseteq> insert (CHR '','') (set xs)"
  by (induction xs rule: sep3.induct) auto

lemma sep3_Nil_iff [simp]: "sep3 xs = [] \<longleftrightarrow> xs = []"
  by (induction xs rule: sep3.induct) simp_all

lemma group_thousands_ne [simp]: "group_thousands s = [] \<longleftrightarrow> s = []"
  by (simp add: group_thousands_def)

lemma group_thousands_set: "set (group_thousands s) \<subseteq> insert (CHR '','') (set s)"
  using sep3_set [of "rev s"] by (simp add: group_thousands_def)

lemma int_part_ne [simp]: "int_part grp a \<noteq> []"
  by (simp add: int_part_def)

lemma int_part_no_sep [simp]:
  "CHR ''.'' \<notin> set (int_part grp a)" "CHR ''-'' \<notin> set (int_part grp a)"
  using group_thousands_set [of "show_nat a"] by (auto simp: int_part_def)

lemma show_nat_filter [simp]: "filter (\<lambda>c. c \<noteq> CHR '','') (show_nat a) = show_nat a"
  unfolding filter_id_conv using show_nat_no_sep(1) by blast

lemma int_part_filter [simp]: "filter (\<lambda>c. c \<noteq> CHR '','') (int_part grp a) = show_nat a"
  by (simp add: int_part_def group_thousands_filter)

lemma frac_part_filter [simp]: "filter (\<lambda>c. c \<noteq> CHR '','') (frac_part p b) = frac_part p b"
  by (simp add: frac_part_def pad_zeros_def)

lemma length_show_nat: "n < 10 ^ k \<Longrightarrow> 0 < k \<Longrightarrow> length (show_nat n) \<le> k"
proof (induction n arbitrary: k rule: show_nat.induct)
  case (1 n)
  show ?case
  proof (cases "n < 10")
    case True
    with "1.prems" show ?thesis by (subst show_nat.simps) simp
  next
    case False
    then have "(10::nat) ^ 1 < 10 ^ k" using "1.prems"(1) by simp
    then have "1 < k" using power_less_imp_less_exp [of "10::nat" 1 k] by simp
    then obtain k' where k: "k = Suc k'" "0 < k'" by (cases k) auto
    then have "n div 10 < 10 ^ k'" using "1.prems"(1) by (simp add: less_mult_imp_div_less mult.commute)
    with False k "1.IH" [of k'] show ?thesis by (subst show_nat.simps) simp
  qed
qed

lemma frac_part_read:
  "b < 10 ^ p \<Longrightarrow> read_nat (drop (Suc 0) (dropWhile (\<lambda>c. c \<noteq> CHR ''.'') (frac_part p b))) = (if p = 0 then 0 else b)"
  "b < 10 ^ p \<Longrightarrow> length (dropWhile (\<lambda>c. c \<noteq> CHR ''.'') (frac_part p b)) = (if p = 0 then 0 else Suc p)"
  "takeWhile (\<lambda>c. c \<noteq> CHR ''.'') (frac_part p b) = []"
  using length_show_nat [of b p] by (simp_all add: frac_part_def pad_zeros_def)

lemma unsigned_value_parts:
  "b < 10 ^ p \<Longrightarrow> unsigned_value (int_part grp a @ frac_part p b) =
     of_nat a + (if p = 0 then 0 else of_nat b / 10 ^ p)"
proof -
  assume b: "b < 10 ^ p"
  let ?body = "show_nat a @ frac_part p b"
  have tw: "takeWhile (\<lambda>c. c \<noteq> CHR ''.'') ?body = show_nat a"
    by (subst takeWhile_append2) (auto simp: frac_part_read)
  have dw: "dropWhile (\<lambda>c. c \<noteq> CHR ''.'') ?body = dropWhile (\<lambda>c. c \<noteq> CHR ''.'') (frac_part p b)"
    by (subst dropWhile_append2) auto
  show ?thesis
    using tw dw b by (simp add: unsigned_value_def Let_def frac_part_read)
qed

lemma value_of_fixed_parts:
  "b < 10 ^ p \<Longrightarrow> value_of_fixed ((if neg then ''-'' else '''') @ int_part grp a @ frac_part p b) =
     (let v = of_nat a + (if p = 0 then 0 else of_nat b / 10 ^ p) in if neg then - v else v)"
proof -
  assume b: "b < 10 ^ p"
  obtain c cs where ip: "int_part grp a = c # cs" and c: "c \<noteq> CHR ''-''"
    by (metis int_part_ne int_part_no_sep(2) list.exhaust list.set_intros(1))
  then have "take 1 (int_part grp a @ frac_part p b) \<noteq> ''-''" by simp
  then show ?thesis
    using b by (simp add: value_of_fixed_def unsigned_value_parts Let_def)
qed

lemma round_half_even_nonneg: "0 \<le> y \<Longrightarrow> 0 \<le> round_half_even y"
  using round_half_even_mono [of 0 y] round_half_even_of_int [of 0] by simp

lemma nat_div_mod_rat:
  "(0::nat) < m \<Longrightarrow> of_nat (n div m) + of_nat (n mod m) / of_nat m = (of_nat n / of_nat m :: rat)"
proof -
  assume m: "0 < m"
  have "of_nat n = (of_nat (n div m) * of_nat m + of_nat (n mod m) :: rat)"
    by (metis div_mult_mod_eq of_nat_add of_nat_mult)
  with m show ?thesis by (simp add: field_simps)
qed

text \<open>Evaluation rules for concrete renderings (\<open>simp add: fmt_eval\<close>).\<close>

lemma digit_char_simps:
  "digit_char 0 = CHR ''0''" "digit_char 1 = CHR ''1''" "digit_char 2 = CHR ''2''"
  "digit_char 3 = CHR ''3''" "digit_char 4 = CHR ''4''" "digit_char 5 = CHR ''5''"
  "digit_char 6 = CHR ''6''" "digit_char 7 = CHR ''7''" "digit_char 8 = CHR ''8''"
  "digit_char 9 = CHR ''9''" "digit_char (Suc 0) = CHR ''1''"
  by (simp_all add: digit_char_def char_of_def bit_iff_odd)

lemmas fmt_eval = show_nat.simps round_half_even_def group_thousands_def pad_zeros_def
  digit_char_simps

subsection \<open>What the rendering shows\<close>


end
