(* ===== verification/Frame.thy ===== *)
theory Frame
  imports PyFloat
begin

text \<open>
  The part of pandas the dashboard relies on. A \<open>DataFrame\<close> read from a CSV file is a
  record of its column labels and, column by column, its cells. A cell is a number, a
  missing value (NaN) or text; \<open>pd.read_csv\<close> gives a column with any text cell the
  \<open>object\<close> dtype, and every numeric operation on such a column raises \<open>TypeError\<close>.
  A column without rows (a file holding only its header) is \<open>object\<close> too: its sum is
  the Python \<open>int\<close> 0 (\<open>int_sum\<close>), and \<open>object_column\<close> names both cases.
  Modelled operations: \<open>df[c]\<close> (\<open>get_column\<close>: \<open>KeyError\<close> for an absent label),
  \<open>df[c] = s\<close> (\<open>set_column\<close>), \<open>Series.sum\<close>, \<open>Series.mean\<close> and
  \<open>Series.round\<close> (all skip NaN, as pandas' default \<open>skipna=True\<close> does),
  \<open>DataFrame.rename(columns=...)\<close> and \<open>pd.read_csv\<close> over a file system given as a
  map from paths to frames. Parsing CSV text itself is not modelled.
\<close>

datatype cell = CNum rat | CNaN | CStr string

record frame =
  cols :: "label list"
  vals :: "cell list list"

text \<open>Every column has a label and all columns have the same number of rows.\<close>

definition wf_frame :: "frame \<Rightarrow> bool" where
  "wf_frame df \<longleftrightarrow> length (cols df) = length (vals df) \<and>
     (case vals df of [] \<Rightarrow> True | v # vs \<Rightarrow> list_all (\<lambda>w. length w = length v) vs)"

definition nrows :: "frame \<Rightarrow> nat" where
  "nrows df = (case vals df of [] \<Rightarrow> 0 | v # _ \<Rightarrow> length v)"

subsection \<open>Column access\<close>

text \<open>\<open>df[c]\<close>: the column labelled \<open>c\<close>; \<open>KeyError\<close> when there is none. A label held by
  two columns (possible after a rename) gives pandas a sub-frame rather than a series; the
  model reports it as an error of its own.\<close>

definition get_column :: "frame \<Rightarrow> label \<Rightarrow> cell list result" where
  "get_column df c =
     (case map snd (filter (\<lambda>(l, v). l = c) (zip (cols df) (vals df))) of
        [] \<Rightarrow> Inl (KeyError c)
      | [v] \<Rightarrow> Inr v
      | _ \<Rightarrow> Inl (AmbiguousLabel c))"

text \<open>\<open>df[c] = s\<close>: replaces the column labelled \<open>c\<close>, or appends a new column.\<close>

definition set_column :: "frame \<Rightarrow> label \<Rightarrow> cell list \<Rightarrow> frame" where
  "set_column df c s =
     (if c \<in> set (cols df)
      then df\<lparr>vals := map (\<lambda>(l, v). if l = c then s else v) (zip (cols df) (vals df))\<rparr>
      else df\<lparr>cols := cols df @ [c], vals := vals df @ [s]\<rparr>)"

subsection \<open>Series reductions\<close>

definition is_text :: "cell \<Rightarrow> bool" where
  "is_text x = (case x of CStr _ \<Rightarrow> True | _ \<Rightarrow> False)"

text \<open>The numbers of a column, NaN cells skipped.\<close>

fun nums :: "cell list \<Rightarrow> rat list" where
  "nums [] = []"
| "nums (CNum x # xs) = x # nums xs"
| "nums (_ # xs) = nums xs"

text \<open>\<open>s.sum()\<close>: the sum of the numbers (0 for an empty or all-NaN column).\<close>

definition series_sum :: "label \<Rightarrow> cell list \<Rightarrow> rat result" where
  "series_sum c s = (if list_ex is_text s then Inl (TypeError c) else Inr (sum_list (nums s)))"

text \<open>\<open>pd.read_csv\<close> gives a column without rows the dtype \<open>object\<close>, and the sum of an
  empty \<open>object\<close> column is the Python \<open>int\<close> 0, not a NumPy scalar: division by it
  follows Python's rules, not NumPy's.\<close>

definition int_sum :: "cell list \<Rightarrow> bool" where
  "int_sum s \<longleftrightarrow> s = []"

text \<open>The columns \<open>pd.read_csv\<close> gives the dtype \<open>object\<close>: those holding text and
  those without rows.\<close>

definition object_column :: "cell list \<Rightarrow> bool" where
  "object_column s \<longleftrightarrow> s = [] \<or> list_ex is_text s"

text \<open>\<open>s.mean()\<close>: the mean of the numbers, NaN when no number is left.\<close>

definition mean_of :: "rat list \<Rightarrow> pyfloat" where
  "mean_of xs = (if xs = [] then NaN else Fin (sum_list xs / of_nat (length xs)))"

definition series_mean :: "label \<Rightarrow> cell list \<Rightarrow> pyfloat result" where
  "series_mean c s = (if list_ex is_text s then Inl (TypeError c) else Inr (mean_of (nums s)))"

text \<open>\<open>s.round(d)\<close>: NumPy rounding of every number, NaN kept.\<close>

fun round_cell :: "nat \<Rightarrow> cell \<Rightarrow> cell" where
  "round_cell d (CNum x) = CNum (round_to d x)"
| "round_cell d x = x"

definition series_round :: "nat \<Rightarrow> label \<Rightarrow> cell list \<Rightarrow> cell list result" where
  "series_round d c s = (if list_ex is_text s then Inl (TypeError c) else Inr (map (round_cell d) s))"

subsection \<open>Renaming and loading\<close>

text \<open>\<open>df.rename(columns=m)\<close>: every label found in \<open>m\<close> is replaced, the others are
  kept, the cells are untouched.\<close>

definition rename_label :: "(label \<rightharpoonup> label) \<Rightarrow> label \<Rightarrow> label" where
  "rename_label m l = (case m l of Some l' \<Rightarrow> l' | None \<Rightarrow> l)"

definition rename_columns :: "(label \<rightharpoonup> label) \<Rightarrow> frame \<Rightarrow> frame" where
  "rename_columns m df = df\<lparr>cols := map (rename_label m) (cols df)\<rparr>"

type_synonym files = "string \<rightharpoonup> frame"

definition read_csv :: "files \<Rightarrow> string \<Rightarrow> frame result" where
  "read_csv fs p = (case fs p of None \<Rightarrow> Inl (FileNotFoundError p) | Some df \<Rightarrow> Inr df)"


subsection \<open>Lemmas on column access\<close>

abbreviation matches :: "frame \<Rightarrow> label \<Rightarrow> cell list list" where
  "matches df c \<equiv> map snd (filter (\<lambda>(l, v). l = c) (zip (cols df) (vals df)))"

lemma get_column_matches:
  "get_column df c = (case matches df c of [] \<Rightarrow> Inl (KeyError c) | [v] \<Rightarrow> Inr v
                      | _ \<Rightarrow> Inl (AmbiguousLabel c))"
  by (simp add: get_column_def)

lemma get_column_Inr_iff: "get_column df c = Inr v \<longleftrightarrow> matches df c = [v]"
  by (auto simp: get_column_def split: list.splits)

lemma filter_zip_distinct:
  "distinct xs \<Longrightarrow> length xs = length ys \<Longrightarrow> i < length xs \<Longrightarrow>
     filter (\<lambda>(l, v). l = xs ! i) (zip xs ys) = [(xs ! i, ys ! i)]"
proof (induction xs arbitrary: ys i)
  case Nil
  then show ?case by simp
next
  case (Cons x xs)
  then obtain y ys' where ys: "ys = y # ys'" by (cases ys) auto
  show ?case
  proof (cases i)
    case 0
    have "filter (\<lambda>(l, v). l = x) (zip xs ys') = []"
      using Cons.prems(1) by (auto simp: filter_empty_conv dest: set_zip_leftD)
    with 0 ys show ?thesis by simp
  next
    case (Suc j)
    with Cons.prems have "x \<noteq> xs ! j" by auto
    with Suc ys Cons.prems Cons.IH [of ys' j] show ?thesis by simp
  qed
qed

lemma filter_zip_absent:
  "c \<notin> set xs \<Longrightarrow> filter (\<lambda>(l, v). l = c) (zip xs ys) = []"
  by (auto simp: filter_empty_conv dest: set_zip_leftD)

lemma get_column_mem: "get_column df c = Inr v \<Longrightarrow> v \<in> set (vals df)"
proof -
  assume "get_column df c = Inr v"
  then have "v \<in> set (matches df c)" by (simp add: get_column_Inr_iff)
  then show ?thesis by (auto dest: set_zip_rightD)
qed

lemma wf_frame_column_length: "wf_frame df \<Longrightarrow> v \<in> set (vals df) \<Longrightarrow> length v = nrows df"
  by (auto simp: wf_frame_def nrows_def list_all_iff split: list.splits)

text \<open>Mapping every column (as \<open>take\<close>-like row selections do) commutes with the lookup.\<close>

lemma matches_map_vals:
  "map snd (filter (\<lambda>(l, v). l = c) (zip ls (map g vs))) =
     map g (map snd (filter (\<lambda>(l, v). l = c) (zip ls vs)))"
  by (induction ls arbitrary: vs) (auto simp: zip_Cons1 split: list.splits)

lemma get_column_map_vals:
  "get_column (df\<lparr>vals := map g (vals df)\<rparr>) c = emap g (get_column df c)"
proof -
  have m: "matches (df\<lparr>vals := map g (vals df)\<rparr>) c = map g (matches df c)"
    by (simp add: matches_map_vals del: map_map)
  show ?thesis
    unfolding get_column_matches m by (cases "matches df c" rule: remdups_adj.cases) simp_all
qed

lemma get_column_KeyError:
  "c \<notin> set (cols df) \<Longrightarrow> get_column df c = Inl (KeyError c)"
  by (simp add: get_column_def filter_zip_absent)

lemma get_column_unique:
  "distinct (cols df) \<Longrightarrow> length (cols df) = length (vals df) \<Longrightarrow> i < length (cols df) \<Longrightarrow>
     get_column df (cols df ! i) = Inr (vals df ! i)"
  by (simp add: get_column_def filter_zip_distinct)

lemma zip_update_column:
  "length xs = length ys \<Longrightarrow>
     zip xs (map (\<lambda>(l, v). if l = c then s else v) (zip xs ys)) =
     map (\<lambda>(l, v). (l, if l = c then s else v)) (zip xs ys)"
  by (induction xs ys rule: list_induct2) auto

lemma matches_set_column:
  assumes "length (cols df) = length (vals df)"
  shows "matches (set_column df c s) c' =
           (if c' = c then map (\<lambda>_. s) (matches df c) @ (if c \<in> set (cols df) then [] else [s])
            else matches df c')"
proof (cases "c \<in> set (cols df)")
  case True
  then show ?thesis
    using assms by (auto simp: set_column_def zip_update_column filter_map comp_def
                         intro!: filter_cong map_cong)
next
  case False
  then show ?thesis
    using assms by (simp add: set_column_def filter_zip_absent)
qed

lemma get_column_set_column_other:
  "length (cols df) = length (vals df) \<Longrightarrow> c' \<noteq> c \<Longrightarrow>
     get_column (set_column df c s) c' = get_column df c'"
  by (simp add: get_column_matches matches_set_column)

lemma get_column_set_column_same:
  "length (cols df) = length (vals df) \<Longrightarrow> get_column df c = Inr v \<Longrightarrow>
     get_column (set_column df c s) c = Inr s"
proof -
  assume len: "length (cols df) = length (vals df)" and v: "get_column df c = Inr v"
  then have "c \<in> set (cols df)" using get_column_KeyError by force
  with len v show ?thesis
    by (auto simp: get_column_matches matches_set_column split: list.splits)
qed

lemma set_column_lengths:
  "length (cols df) = length (vals df) \<Longrightarrow>
     length (cols (set_column df c s)) = length (vals (set_column df c s))"
  by (simp add: set_column_def)


subsection \<open>Lemmas on series\<close>

lemma series_sum_num: "\<not> list_ex is_text s \<Longrightarrow> series_sum c s = Inr (sum_list (nums s))"
  by (simp add: series_sum_def)

lemma series_sum_text: "list_ex is_text s \<Longrightarrow> series_sum c s = Inl (TypeError c)"
  by (simp add: series_sum_def)

lemma nums_round [simp]: "nums (map (round_cell d) s) = map (round_to d) (nums s)"
  by (induction s rule: nums.induct) simp_all

lemma is_text_round [simp]: "is_text (round_cell d x) = is_text x"
  by (cases x) (simp_all add: is_text_def)

lemma list_ex_round [simp]: "list_ex is_text (map (round_cell d) s) = list_ex is_text s"
  by (induction s) simp_all

lemma round_cell_idem [simp]: "round_cell d (round_cell d x) = round_cell d x"
  by (cases x) simp_all

lemma series_round_num:
  "\<not> list_ex is_text s \<Longrightarrow> series_round d c s = Inr (map (round_cell d) s)"
  by (simp add: series_round_def)

lemma series_mean_num: "\<not> list_ex is_text s \<Longrightarrow> series_mean c s = Inr (mean_of (nums s))"
  by (simp add: series_mean_def)

lemma set_column_same:
  assumes len: "length (cols df) = length (vals df)" and g: "get_column df c = Inr s"
  shows "set_column df c s = df"
proof -
  have c: "c \<in> set (cols df)" using g get_column_KeyError by force
  have m: "map snd (filter (\<lambda>(l, v). l = c) (zip (cols df) (vals df))) = [s]"
    using g by (simp add: get_column_Inr_iff)
  have key: "v = s" if "(l, v) \<in> set (zip (cols df) (vals df))" "l = c" for l v
  proof -
    have "(l, v) \<in> set (filter (\<lambda>(l, v). l = c) (zip (cols df) (vals df)))" using that by simp
    then have "v \<in> set (map snd (filter (\<lambda>(l, v). l = c) (zip (cols df) (vals df))))" by force
    then show ?thesis using m by simp
  qed
  have "map (\<lambda>(l, v). if l = c then s else v) (zip (cols df) (vals df)) = map snd (zip (cols df) (vals df))"
    using key by (fastforce intro!: map_cong)
  with len c show ?thesis by (simp add: set_column_def)
qed

subsection \<open>Lemmas on renaming\<close>

lemma rename_columns_simps [simp]:
  "vals (rename_columns m df) = vals df"
  "cols (rename_columns m df) = map (rename_label m) (cols df)"
  by (simp_all add: rename_columns_def)

lemma get_column_rename:
  assumes "distinct (map (rename_label m) (cols df))" "length (cols df) = length (vals df)"
    and "i < length (cols df)"
  shows "get_column (rename_columns m df) (rename_label m (cols df ! i)) = get_column df (cols df ! i)"
proof -
  have "distinct (cols df)" using assms(1) by (simp add: distinct_map)
  then have "get_column df (cols df ! i) = Inr (vals df ! i)"
    using assms by (simp add: get_column_unique)
  moreover have "get_column (rename_columns m df) (cols (rename_columns m df) ! i) = Inr (vals df ! i)"
    using assms get_column_unique [of "rename_columns m df" i] by simp
  ultimately show ?thesis using assms(3) by simp
qed

end
