(* ===== verification/Loader.thy ===== *)
theory Loader
  imports Frame
begin

text \<open>
  The Aggregate Loader, \<open>load_data\<close> of \<open>src/app.py\<close> (lines 51--69): it reads the
  three measure tables, renames their abbreviated year labels (\<open>"Test 25"\<close> to
  \<open>"Test 2025"\<close> and so on) and reads the per-product table. A missing file raises
  \<open>FileNotFoundError\<close>, which aborts the script; the first missing file in the order of
  the code is the one reported. \<open>@st.cache_data\<close> memoises the result: the model keeps
  the cache as an optional table set threaded through the script's reruns, and an
  exception is not cached.
\<close>

definition rename_cols :: "label \<rightharpoonup> label" where
  "rename_cols = [''Test 25'' \<mapsto> ''Test 2025'', ''Control 25'' \<mapsto> ''Control 2025'',
                  ''Test 24'' \<mapsto> ''Test 2024'', ''Control 24'' \<mapsto> ''Control 2024'']"

record tables =
  revenue_df :: frame
  margin_df :: frame
  quantity_df :: frame
  product_df :: frame

definition revenue_csv :: string where "revenue_csv = ''aggregated_revenue.csv''"
definition margin_csv :: string where "margin_csv = ''aggregated_margin.csv''"
definition quantity_csv :: string where "quantity_csv = ''aggregated_quantity.csv''"
definition product_csv :: string where
  "product_csv = ''Soprema_results__Feb24_Feb25(Results per product).csv''"

definition load_data :: "files \<Rightarrow> tables result" where
  "load_data fs =
     ebind (read_csv fs revenue_csv) (\<lambda>revenue.
     ebind (read_csv fs margin_csv) (\<lambda>margin.
     ebind (read_csv fs quantity_csv) (\<lambda>quantity.
     (let revenue = rename_columns rename_cols revenue;
          margin = rename_columns rename_cols margin;
          quantity = rename_columns rename_cols quantity
      in ebind (read_csv fs product_csv) (\<lambda>product.
         Inr \<lparr>revenue_df = revenue, margin_df = margin, quantity_df = quantity,
              product_df = product\<rparr>)))))"

text \<open>\<open>@st.cache_data\<close>: the first successful call fills the cache; later reruns of the
  script get the cached tables back without reading the files.\<close>

definition cached_load_data :: "tables option \<Rightarrow> files \<Rightarrow> tables result \<times> tables option" where
  "cached_load_data cache fs =
     (case cache of
        Some t \<Rightarrow> (Inr t, cache)
      | None \<Rightarrow> (case load_data fs of Inr t \<Rightarrow> (Inr t, Some t) | Inl e \<Rightarrow> (Inl e, None)))"

text \<open>A sequence of reruns, each seeing the file system of its moment.\<close>

fun rerun_loads :: "tables option \<Rightarrow> files list \<Rightarrow> tables result list" where
  "rerun_loads cache [] = []"
| "rerun_loads cache (fs # fss) =
     (let (r, cache') = cached_load_data cache fs in r # rerun_loads cache' fss)"


text \<open>The files in the order \<open>load_data\<close> reads them.\<close>

definition loader_paths :: "string list" where
  "loader_paths = [revenue_csv, margin_csv, quantity_csv, product_csv]"

subsection \<open>Lemmas on the loader\<close>

lemma read_csv_Some [simp]: "fs p = Some df \<Longrightarrow> read_csv fs p = Inr df"
  by (simp add: read_csv_def)

lemma read_csv_None [simp]: "fs p = None \<Longrightarrow> read_csv fs p = Inl (FileNotFoundError p)"
  by (simp add: read_csv_def)

text \<open>The labels the rename produces are never abbreviated ones, and a label that is not
  abbreviated is kept as it is.\<close>

lemma rename_cols_targets [simp]: "rename_cols (rename_label rename_cols l) = None"
  by (simp add: rename_label_def rename_cols_def split: option.splits)

lemma rename_label_other: "l \<notin> dom m \<Longrightarrow> rename_label m l = l"
  by (auto simp: rename_label_def split: option.splits)

lemma cached_load_data_Some [simp]: "cached_load_data (Some t) fs = (Inr t, Some t)"
  by (simp add: cached_load_data_def)

lemma rerun_loads_cached: "rerun_loads (Some t) fss = replicate (length fss) (Inr t)"
  by (induction fss) simp_all


subsection \<open>Properties of the loader\<close>

text \<open>C7: load_data succeeds exactly when all four files exist; it then returns the three
  measure tables with their labels renamed and the product table as read. Otherwise it
  raises FileNotFoundError for the first missing file in the order revenue, margin,
  quantity, product.\<close>

theorem load_data_spec:
  "load_data fs =
     (case find (\<lambda>p. fs p = None) loader_paths of
        Some p \<Rightarrow> Inl (FileNotFoundError p)
      | None \<Rightarrow> Inr \<lparr>revenue_df = rename_columns rename_cols (the (fs revenue_csv)),
                    margin_df = rename_columns rename_cols (the (fs margin_csv)),
                    quantity_df = rename_columns rename_cols (the (fs quantity_csv)),
                    product_df = the (fs product_csv)\<rparr>)"
  by (auto simp: load_data_def loader_paths_def Let_def split: option.splits)

text \<open>C8: The rename is total: after a successful load no column of the three measure
  tables still carries one of the abbreviated labels Test 25, Control 25, Test 24 or
  Control 24.\<close>

theorem load_data_labels:
  assumes "load_data fs = Inr t" and "df \<in> {revenue_df t, margin_df t, quantity_df t}"
  shows "set (cols df) \<inter> dom rename_cols = {}"
  using assms
  by (auto simp: load_data_def Let_def read_csv_def split: option.splits sum.splits)

text \<open>C9: The cache makes the load happen once: after a first successful load, every
  later rerun of the script returns the same tables, whatever the files hold by then.\<close>

theorem cache_loads_once:
  assumes "load_data fs = Inr t"
  shows "rerun_loads None (fs # fss) = replicate (Suc (length fss)) (Inr t)"
  using assms by (simp add: cached_load_data_def rerun_loads_cached)

end
