(* ===== verification/Comparator.thy ===== *)
theory Comparator
  imports Format Loader
begin

text \<open>
  The Metric Comparator: the module-level computation of \<open>src/app.py\<close> that runs once
  per script run after the tables are loaded (lines 71--98). For each measure table it
  computes the aggregate Test change \<open>compute_percentage_change\<close> (lines 74--79: NumPy
  division by a zero float total, Python division, which raises \<open>ZeroDivisionError\<close>,
  by the \<open>int\<close> 0 sums of a table without rows), rounds
  the two per-row change columns in place (lines 82--84), derives the performance
  difference against the mean Control change (lines 87--89) and classifies it with
  \<open>performance_arrow\<close> (lines 92--98). \<open>startup\<close> composes these steps in the order of
  the code over an explicit state record, so that an exception in any step stops the run
  there, as it stops the script.
\<close>

subsection \<open>Operations\<close>

text \<open>\<open>round(((df[c25].sum() - df[c24].sum()) / df[c24].sum()) * 100, 2)\<close>, with the
  column lookups and sums in Python's left-to-right evaluation order. The sums of
  columns with rows are NumPy scalars, whose division by zero yields inf or NaN; when the
  columns have no rows all three sums are the Python \<open>int\<close> 0 (\<open>int_sum\<close>), and
  Python's \<open>int\<close> division by zero raises \<open>ZeroDivisionError\<close>.\<close>

definition compute_percentage_change :: "frame \<Rightarrow> label \<Rightarrow> label \<Rightarrow> pyfloat result" where
  "compute_percentage_change df column_2025 column_2024 =
     ebind (get_column df column_2025) (\<lambda>s25. ebind (series_sum column_2025 s25) (\<lambda>sum25.
     ebind (get_column df column_2024) (\<lambda>s24. ebind (series_sum column_2024 s24) (\<lambda>sum24.
     ebind (get_column df column_2024) (\<lambda>s24'. ebind (series_sum column_2024 s24') (\<lambda>sum24'.
       if int_sum s25 \<and> int_sum s24 \<and> int_sum s24'
       then Inl (ZeroDivisionError ''division by zero'')
       else Inr (np_round 2 (fmul (fdiv (fsub (Fin sum25) (Fin sum24)) (Fin sum24')) (Fin 100)))))))))"

text \<open>One column of the rounding loop: \<open>df[c] = df[c].round(2)\<close>.\<close>

definition round_column :: "label \<Rightarrow> frame \<Rightarrow> frame result" where
  "round_column c df =
     ebind (get_column df c) (\<lambda>s. ebind (series_round 2 c s) (\<lambda>s'. Inr (set_column df c s')))"

text \<open>The body of \<open>for df in [...]\<close>: the Test column first, then the Control column.\<close>

definition round_change_columns :: "frame \<Rightarrow> frame result" where
  "round_change_columns df =
     ebind (round_column ''%Change Test'' df) (round_column ''%Change Control'')"

text \<open>\<open>round(test_pct - df["%Change Control"].mean(), 2)\<close>.\<close>

definition performance_difference :: "frame \<Rightarrow> pyfloat \<Rightarrow> pyfloat result" where
  "performance_difference df test_pct =
     ebind (get_column df ''%Change Control'') (\<lambda>s.
     ebind (series_mean ''%Change Control'' s) (\<lambda>m. Inr (np_round 2 (fsub test_pct m))))"

text \<open>The three verdicts of \<open>performance_arrow\<close>. The icons are the UTF-8 bytes of the
  source's emoji and arrows: U+1F7E2 U+25B2, U+1F534 U+25BC and U+2696 U+FE0F.\<close>

definition better_icon :: string where
  "better_icon = [CHR 0xF0, CHR 0x9F, CHR 0x9F, CHR 0xA2, CHR 0x20, CHR 0xE2, CHR 0x96, CHR 0xB2, CHR 0x20]"

definition worse_icon :: string where
  "worse_icon = [CHR 0xF0, CHR 0x9F, CHR 0x94, CHR 0xB4, CHR 0x20, CHR 0xE2, CHR 0x96, CHR 0xBC, CHR 0x20]"

definition balance_icon :: string where
  "balance_icon = [CHR 0xE2, CHR 0x9A, CHR 0x96, CHR 0xEF, CHR 0xB8, CHR 0x8F]"

definition performance_arrow :: "pyfloat \<Rightarrow> string" where
  "performance_arrow perf_diff =
     (if fless (Fin 0) perf_diff
      then better_icon @ fmt_fixed False 2 perf_diff @ ''% better than Control''
      else if fless perf_diff (Fin 0)
      then worse_icon @ fmt_fixed False 2 (fabs perf_diff) @ ''% worse than Control''
      else balance_icon @ '' No difference from Control'')"

subsection \<open>The startup computation\<close>

text \<open>The module-level variables the pages read after line 89.\<close>

record dashboard =
  data :: tables
  revenue_test_pct :: pyfloat
  margin_test_pct :: pyfloat
  quantity_test_pct :: pyfloat
  revenue_perf_diff :: pyfloat
  margin_perf_diff :: pyfloat
  quantity_perf_diff :: pyfloat

definition test_pct_of :: "frame \<Rightarrow> pyfloat result" where
  "test_pct_of df = compute_percentage_change df ''Test 2025'' ''Test 2024''"

text \<open>Lines 74--89 in order, on the loaded tables: three Test changes, the rounding loop
  over the three tables, three performance differences.\<close>

definition analyse :: "tables \<Rightarrow> dashboard result" where
  "analyse t =
     ebind (test_pct_of (revenue_df t)) (\<lambda>rev_pct.
     ebind (test_pct_of (margin_df t)) (\<lambda>mar_pct.
     ebind (test_pct_of (quantity_df t)) (\<lambda>qty_pct.
     ebind (round_change_columns (revenue_df t)) (\<lambda>rev.
     ebind (round_change_columns (margin_df t)) (\<lambda>mar.
     ebind (round_change_columns (quantity_df t)) (\<lambda>qty.
     ebind (performance_difference rev rev_pct) (\<lambda>rev_diff.
     ebind (performance_difference mar mar_pct) (\<lambda>mar_diff.
     ebind (performance_difference qty qty_pct) (\<lambda>qty_diff.
       Inr \<lparr>data = t\<lparr>revenue_df := rev, margin_df := mar, quantity_df := qty\<rparr>,
            revenue_test_pct = rev_pct, margin_test_pct = mar_pct, quantity_test_pct = qty_pct,
            revenue_perf_diff = rev_diff, margin_perf_diff = mar_diff,
            quantity_perf_diff = qty_diff\<rparr>)))))))))"

text \<open>Lines 71--89: load, then analyse.\<close>

definition startup :: "files \<Rightarrow> dashboard result" where
  "startup fs = ebind (load_data fs) analyse"


subsection \<open>Helper lemmas\<close>

lemma compute_percentage_change_once:
  "compute_percentage_change df c25 c24 =
     ebind (get_column df c25) (\<lambda>s25. ebind (series_sum c25 s25) (\<lambda>a.
     ebind (get_column df c24) (\<lambda>s24. ebind (series_sum c24 s24) (\<lambda>b.
       if s25 = [] \<and> s24 = [] then Inl (ZeroDivisionError ''division by zero'')
       else Inr (np_round 2 (fmul (fdiv (Fin (a - b)) (Fin b)) (Fin 100)))))))"
  unfolding compute_percentage_change_def int_sum_def
  by (cases "get_column df c25"; cases "get_column df c24"; simp add: ebind_def series_sum_def split: sum.splits)

lemma round_column_Inr:
  "get_column df c = Inr s \<Longrightarrow> \<not> list_ex is_text s \<Longrightarrow>
     round_column c df = Inr (set_column df c (map (round_cell 2) s))"
  by (simp add: round_column_def series_round_num)

lemma round_column_eq_Inr:
  "round_column c df = Inr df' \<longleftrightarrow>
     (\<exists>s. get_column df c = Inr s \<and> \<not> list_ex is_text s \<and> df' = set_column df c (map (round_cell 2) s))"
  by (auto simp: round_column_def series_round_def)

lemma round_column_lengths:
  "round_column c df = Inr df' \<Longrightarrow> length (cols df) = length (vals df) \<Longrightarrow>
     length (cols df') = length (vals df')"
  by (auto simp: round_column_eq_Inr set_column_lengths)

lemma get_column_round_column:
  assumes "round_column c df = Inr df'" "length (cols df) = length (vals df)"
  shows "get_column df' c' = (if c' = c then emap (map (round_cell 2)) (get_column df c) else get_column df c')"
  using assms by (auto simp: round_column_eq_Inr get_column_set_column_other get_column_set_column_same)

lemma round_change_columns_eq_Inr:
  "round_change_columns df = Inr df' \<longleftrightarrow>
     (\<exists>df1. round_column ''%Change Test'' df = Inr df1 \<and> round_column ''%Change Control'' df1 = Inr df')"
  unfolding round_change_columns_def by (rule ebind_eq_Inr_iff)

lemma get_column_round_change_columns:
  assumes "round_change_columns df = Inr df'" "length (cols df) = length (vals df)"
  shows "get_column df' c =
           (if c = ''%Change Test'' \<or> c = ''%Change Control''
            then emap (map (round_cell 2)) (get_column df c) else get_column df c)"
proof -
  obtain df1 where 1: "round_column ''%Change Test'' df = Inr df1"
    and 2: "round_column ''%Change Control'' df1 = Inr df'"
    using assms(1) by (auto simp: round_change_columns_eq_Inr)
  have len1: "length (cols df1) = length (vals df1)" using 1 assms(2) by (rule round_column_lengths)
  show ?thesis
    using get_column_round_column [OF 1 assms(2)] get_column_round_column [OF 2 len1]
    by auto
qed

subsection \<open>Properties of the comparator\<close>

text \<open>C1: For a measure table whose two year columns exist and hold numbers, and whose 2024 total is not zero, the aggregate Test change is the percentage change of the column totals, ((sum 2025 - sum 2024) / sum 2024) * 100, rounded half to even to two decimals; NaN cells are skipped by the sums.\<close>

theorem compute_percentage_change_value:
  assumes "get_column df c25 = Inr s25" "get_column df c24 = Inr s24"
    and "\<not> list_ex is_text s25" "\<not> list_ex is_text s24" "sum_list (nums s24) \<noteq> 0"
  shows "compute_percentage_change df c25 c24 =
           Inr (Fin (round_to 2 ((sum_list (nums s25) - sum_list (nums s24)) / sum_list (nums s24) * 100)))"
proof -
  have "s24 \<noteq> []" using assms(5) by auto
  then show ?thesis using assms by (simp add: compute_percentage_change_once series_sum_num)
qed

text \<open>C2: A zero 2024 total. On a table with rows the sums are NumPy scalars and nothing
  raises: the division yields +inf for a positive 2025 total, -inf for a negative one and
  NaN when both totals are zero, and that value becomes the Test change. On a table
  without rows (a CSV file holding only its header) the sums are the Python int 0 and the
  division raises ZeroDivisionError.\<close>

theorem compute_percentage_change_zero_base:
  assumes "get_column df c25 = Inr s25" "get_column df c24 = Inr s24"
    and "\<not> list_ex is_text s25" "\<not> list_ex is_text s24" "sum_list (nums s24) = 0"
  shows "compute_percentage_change df c25 c24 =
           (if s25 = [] \<and> s24 = [] then Inl (ZeroDivisionError ''division by zero'')
            else Inr (if 0 < sum_list (nums s25) then PosInf
                      else if sum_list (nums s25) < 0 then NegInf else NaN))"
  using assms by (simp add: compute_percentage_change_def int_sum_def series_sum_num)

text \<open>C3: performance_arrow shows the no-difference verdict exactly for a difference of zero or NaN: every comparison with NaN is false, so an undefined difference is reported as no difference from Control.\<close>

theorem performance_arrow_no_difference_iff:
  "performance_arrow v = balance_icon @ '' No difference from Control'' \<longleftrightarrow> v = NaN \<or> v = Fin 0"
  by (cases v) (auto simp: performance_arrow_def better_icon_def worse_icon_def balance_icon_def)

text \<open>C4: After the rounding loop, the performance difference of a table is the Test change minus the mean of the Control column as rounded to two decimals (not of the raw column), rounded again to two decimals; an empty or all-NaN Control column gives NaN.\<close>

theorem performance_difference_after_rounding:
  assumes "round_change_columns df = Inr df'" "length (cols df) = length (vals df)"
    and "get_column df ''%Change Control'' = Inr s" "\<not> list_ex is_text s"
  shows "performance_difference df' t = Inr (np_round 2 (fsub t (mean_of (map (round_to 2) (nums s)))))"
  using get_column_round_change_columns [OF assms(1,2), of "''%Change Control''"] assms(3,4)
  by (simp add: performance_difference_def series_mean_num)

text \<open>C5: On a table with distinct column labels, compute_percentage_change raises exactly
  when one of its two columns is missing (KeyError), one of them holds text (TypeError),
  or the table has no rows (ZeroDivisionError); a zero divisor on a table with rows never
  makes it raise.\<close>

theorem compute_percentage_change_fails_iff:
  assumes "distinct (cols df)" "length (cols df) = length (vals df)"
  shows "(\<exists>e. compute_percentage_change df c25 c24 = Inl e) \<longleftrightarrow>
     c25 \<notin> set (cols df) \<or> c24 \<notin> set (cols df) \<or>
     (\<exists>s. get_column df c25 = Inr s \<and> list_ex is_text s) \<or>
     (\<exists>s. get_column df c24 = Inr s \<and> list_ex is_text s) \<or>
     (get_column df c25 = Inr [] \<and> get_column df c24 = Inr [])"
proof -
  have present: "\<exists>s. get_column df c = Inr s" if "c \<in> set (cols df)" for c
    using that get_column_unique [OF assms] by (metis in_set_conv_nth)
  show ?thesis
  proof (cases "c25 \<in> set (cols df) \<and> c24 \<in> set (cols df)")
    case True
    then obtain s25 s24 where "get_column df c25 = Inr s25" "get_column df c24 = Inr s24"
      using present by blast
    then show ?thesis
      using True by (auto simp: compute_percentage_change_def int_sum_def series_sum_def)
  next
    case False
    then show ?thesis
      by (auto simp: compute_percentage_change_def get_column_KeyError ebind_def series_sum_def
               split: sum.splits)
  qed
qed

end
