(* ===== verification/Products.thy ===== *)
theory Products
  imports Frame
begin

text \<open>
  The data side of the per-product page (\<open>src/app.py\<close>, lines 240--256): the metric
  selector's options, the map \<open>column_map\<close> from a metric to its column, and
  \<open>product_df.nlargest(10, selected_column)\<close>. pandas' \<open>DataFrame.nlargest(n, c)\<close>
  with the default \<open>keep="first"\<close> raises \<open>KeyError\<close> for an absent column and
  \<open>TypeError\<close> for a column of dtype \<open>object\<close> (one holding text, or one without rows,
  which \<open>pd.read_csv\<close> reads as \<open>object\<close>); otherwise it orders the rows holding a
  number by decreasing value, equal values in row order (a stable sort), appends the rows
  holding NaN in row order, and keeps the first \<open>n\<close> rows. \<open>nlargest_index\<close> computes the
  positions of those rows; \<open>take_rows\<close> selects them from every column.
\<close>

subsection \<open>Definitions\<close>

text \<open>The options of \<open>st.selectbox\<close> (line 242) and the dict \<open>column_map\<close> (lines 246--250).\<close>

definition metric_options :: "string list" where
  "metric_options = [''Total Revenue'', ''Total Margin'', ''Quantity'']"

definition column_map :: "string \<rightharpoonup> label" where
  "column_map = [''Total Revenue'' \<mapsto> ''Total Revenue Test 25'',
                 ''Total Margin'' \<mapsto> ''Total Margin Test 25'',
                 ''Quantity'' \<mapsto> ''Quantity Test 25'']"

text \<open>\<open>d[k]\<close> on a Python dict: \<open>KeyError\<close> for an absent key.\<close>

definition dict_get :: "(string \<rightharpoonup> 'v) \<Rightarrow> string \<Rightarrow> 'v result" where
  "dict_get d k = (case d k of None \<Rightarrow> Inl (KeyError k) | Some v \<Rightarrow> Inr v)"

text \<open>The positions (counted from \<open>i\<close>) of the cells holding a number, with the number,
  and the positions of the NaN cells: pandas' \<open>dropna()\<close> and \<open>drop(dropped.index)\<close>.\<close>

fun keyed :: "nat \<Rightarrow> cell list \<Rightarrow> (nat \<times> rat) list" where
  "keyed i [] = []"
| "keyed i (CNum x # s) = (i, x) # keyed (Suc i) s"
| "keyed i (_ # s) = keyed (Suc i) s"

fun nan_rows :: "nat \<Rightarrow> cell list \<Rightarrow> nat list" where
  "nan_rows i [] = []"
| "nan_rows i (CNum x # s) = nan_rows (Suc i) s"
| "nan_rows i (_ # s) = i # nan_rows (Suc i) s"

text \<open>The rows \<open>nlargest(n, c)\<close> keeps, in the order it returns them: the numbers sorted
  by decreasing value with a stable sort, then the NaN rows, cut after \<open>n\<close> rows.\<close>

definition nlargest_index :: "nat \<Rightarrow> cell list \<Rightarrow> nat list" where
  "nlargest_index n s = take n (map fst (sort_key (\<lambda>p. - snd p) (keyed 0 s)) @ nan_rows 0 s)"

definition take_rows :: "nat list \<Rightarrow> frame \<Rightarrow> frame" where
  "take_rows is df = df\<lparr>vals := map (\<lambda>v. map (\<lambda>i. v ! i) is) (vals df)\<rparr>"

definition nlargest :: "nat \<Rightarrow> label \<Rightarrow> frame \<Rightarrow> frame result" where
  "nlargest n c df =
     ebind (get_column df c) (\<lambda>s.
       if object_column s then Inl (TypeError c) else Inr (take_rows (nlargest_index n s) df))"

text \<open>The orders the lemmas speak of: between ranked numbers, a larger value first and
  equal values in row order; between cells, a number before any NaN, a larger number first.\<close>

definition rank_before :: "nat \<times> rat \<Rightarrow> nat \<times> rat \<Rightarrow> bool" where
  "rank_before a b \<longleftrightarrow> snd b < snd a \<or> (snd a = snd b \<and> fst a < fst b)"

definition cell_geq :: "cell \<Rightarrow> cell \<Rightarrow> bool" where
  "cell_geq a b = (case b of CNum y \<Rightarrow> (case a of CNum x \<Rightarrow> y \<le> x | _ \<Rightarrow> False) | _ \<Rightarrow> True)"

subsection \<open>Positions of numbers and NaN cells\<close>

abbreviation ranked :: "cell list \<Rightarrow> (nat \<times> rat) list" where
  "ranked s \<equiv> sort_key (\<lambda>p. - snd p) (keyed 0 s)"

lemma keyed_ge: "(i, x) \<in> set (keyed k s) \<Longrightarrow> k \<le> i"
  by (induction k s rule: keyed.induct) fastforce+

lemma nan_rows_ge: "i \<in> set (nan_rows k s) \<Longrightarrow> k \<le> i"
  by (induction k s rule: nan_rows.induct) fastforce+

lemma keyed_mem:
  "(i, x) \<in> set (keyed k s) \<longleftrightarrow> k \<le> i \<and> i < k + length s \<and> s ! (i - k) = CNum x"
proof (induction s arbitrary: k)
  case (Cons a s)
  then show ?case using keyed_ge [of k x "Suc k" s]
    by (cases "i = k"; cases a) (auto simp: nth_Cons')
qed simp

lemma nan_rows_mem:
  "i \<in> set (nan_rows k s) \<longleftrightarrow> k \<le> i \<and> i < k + length s \<and> (\<forall>x. s ! (i - k) \<noteq> CNum x)"
proof (induction s arbitrary: k)
  case (Cons a s)
  then show ?case using nan_rows_ge [of k "Suc k" s]
    by (cases "i = k"; cases a) (auto simp: nth_Cons')
qed simp
lemma keyed_sorted: "sorted_wrt (<) (map fst (keyed k s))"
  by (induction k s rule: keyed.induct) (auto simp: keyed_mem)

lemma nan_rows_sorted: "sorted_wrt (<) (nan_rows k s)"
  by (induction k s rule: nan_rows.induct) (auto simp: nan_rows_mem)

lemma keyed_length: "length (keyed k s) + length (nan_rows k s) = length s"
  by (induction k s rule: keyed.induct) simp_all

lemma keyed_nums: "map snd (keyed k s) = nums s"
  by (induction k s rule: keyed.induct) simp_all

subsection \<open>The ranking: a stable sort by decreasing value\<close>

lemma insort_rank_before:
  assumes "sorted_wrt rank_before zs" "\<forall>b\<in>set zs. fst a < fst b"
  shows "sorted_wrt rank_before (insort_key (\<lambda>p. - snd p) a zs)"
  using assms
proof (induction zs)
  case (Cons b zs)
  show ?case
  proof (cases "snd b \<le> snd a")
    case True
    have "rank_before a c" if "c \<in> set (b # zs)" for c
    proof -
      have "snd c \<le> snd b" using that Cons.prems(1) by (auto simp: rank_before_def)
      then show ?thesis using True that Cons.prems(2) by (auto simp: rank_before_def)
    qed
    then show ?thesis using True Cons.prems(1) by simp
  next
    case False
    then have "rank_before b a" by (simp add: rank_before_def)
    then show ?thesis using False Cons by (auto simp: set_insort_key)
  qed
qed simp

lemma sorted_ranked_gen:
  "sorted_wrt (<) (map fst xs) \<Longrightarrow> sorted_wrt rank_before (sort_key (\<lambda>p. - snd p) xs)"
  by (induction xs) (auto intro!: insort_rank_before)

lemma sorted_ranked: "sorted_wrt rank_before (ranked s)"
  by (rule sorted_ranked_gen [OF keyed_sorted])

lemma distinct_ranked: "distinct (map fst (ranked s))"
proof -
  have "distinct (map fst (keyed 0 s))"
    using keyed_sorted strict_sorted_iff by blast
  then show ?thesis by (simp add: distinct_map inj_on_def)
qed

lemma keyed0_mem: "(i, x) \<in> set (keyed 0 s) \<longleftrightarrow> i < length s \<and> s ! i = CNum x"
  by (simp add: keyed_mem)

lemma take_append_full:
  "y \<in> set (take n (xs @ ys)) \<Longrightarrow> y \<notin> set xs \<Longrightarrow> take n (xs @ ys) = xs @ take (n - length xs) ys"
  by (cases "n \<le> length xs") (auto dest: in_set_takeD)

subsection \<open>Rows kept by \<open>nlargest\<close>\<close>

lemma get_column_take_rows:
  "get_column (take_rows is df) c = emap (\<lambda>v. map (\<lambda>i. v ! i) is) (get_column df c)"
  unfolding take_rows_def by (rule get_column_map_vals)

lemma distinct_nlargest_index: "distinct (nlargest_index n s)"
proof -
  have "set (map fst (ranked s)) \<inter> set (nan_rows 0 s) = {}"
    by (auto simp: keyed0_mem nan_rows_mem)
  moreover have "distinct (nan_rows 0 s)"
    using nan_rows_sorted strict_sorted_iff by blast
  ultimately show ?thesis
    unfolding nlargest_index_def using distinct_ranked by (intro distinct_take) simp
qed

lemma length_nlargest_index: "length (nlargest_index n s) = min n (length s)"
  using keyed_length [of 0 s] by (simp add: nlargest_index_def)

lemma nlargest_index_lt: "i \<in> set (nlargest_index n s) \<Longrightarrow> i < length s"
  by (auto simp: nlargest_index_def keyed0_mem nan_rows_mem dest!: in_set_takeD)

lemma ranked_cells: "map (\<lambda>i. s ! i) (map fst (ranked s)) = map (\<lambda>p. CNum (snd p)) (ranked s)"
  by (auto simp: keyed0_mem)

lemma nlargest_index_sorted: "sorted_wrt cell_geq (map (\<lambda>i. s ! i) (nlargest_index n s))"
proof -
  have nums: "sorted_wrt cell_geq (map (\<lambda>p. CNum (snd p)) (ranked s))"
    using sorted_ranked [of s]
    by (auto simp: sorted_wrt_map cell_geq_def rank_before_def elim!: sorted_wrt_mono_rel[rotated])
  have nan: "cell_geq a (s ! i)" if "i \<in> set (nan_rows 0 s)" for a i
    using that by (auto simp: nan_rows_mem cell_geq_def split: cell.splits)
  have "sorted_wrt cell_geq (map (\<lambda>i. s ! i) (map fst (ranked s) @ nan_rows 0 s))"
    unfolding map_append ranked_cells sorted_wrt_append using nums nan nan_rows_sorted [of 0 s]
    by (auto simp: sorted_wrt_map elim!: sorted_wrt_mono_rel[rotated])
  then show ?thesis
    unfolding nlargest_index_def take_map[symmetric] by (rule sorted_wrt_take)
qed

lemma nlargest_Inr:
  "nlargest n c df = Inr df' \<longleftrightarrow>
     (\<exists>s. get_column df c = Inr s \<and> s \<noteq> [] \<and> \<not> list_ex is_text s \<and> df' = take_rows (nlargest_index n s) df)"
  by (auto simp: nlargest_def object_column_def)

subsection \<open>Properties of \<open>nlargest\<close>\<close>

text \<open>C10: \<open>nlargest(n, c)\<close> keeps the rows with the largest values, ties going to the
  earlier row: every row it keeps holds a number that is larger than the number of any
  row it leaves out, or equal to it and earlier in the table.\<close>

theorem nlargest_index_top:
  assumes i: "i \<in> set (nlargest_index n s)"
    and j: "j < length s" "j \<notin> set (nlargest_index n s)" "s ! j = CNum y"
  shows "\<exists>x. s ! i = CNum x \<and> (y < x \<or> y = x \<and> i < j)"
proof -
  let ?ys = "ranked s"
  have jy: "(j, y) \<in> set ?ys" using j by (simp add: keyed0_mem)
  then have "j \<in> set (map fst ?ys)" by force
  have "\<not> length ?ys \<le> n"
  proof
    assume "length ?ys \<le> n"
    then have "set (map fst ?ys) \<subseteq> set (nlargest_index n s)"
      by (simp add: nlargest_index_def)
    with \<open>j \<in> set (map fst ?ys)\<close> j(2) show False by blast
  qed
  then have L: "nlargest_index n s = take n (map fst ?ys)"
    by (simp add: nlargest_index_def)
  with i have i_num: "i \<in> set (take n (map fst ?ys))" by simp
  then obtain a where a: "a \<in> set (take n ?ys)" "i = fst a" by (auto simp: take_map)
  have "(j, y) \<notin> set (take n ?ys)"
    using j(2) by (force simp: nlargest_index_def take_map)
  then have "(j, y) \<in> set (drop n ?ys)" using jy
    by (metis Un_iff append_take_drop_id set_append)
  then have "rank_before a (j, y)"
    using a(1) sorted_ranked [of s] sorted_wrt_append [of rank_before "take n ?ys" "drop n ?ys"]
    by simp
  moreover have "s ! i = CNum (snd a)"
  proof -
    have "a \<in> set (keyed 0 s)" using a(1) in_set_takeD by fastforce
    then show ?thesis using a(2) keyed0_mem [of "fst a" "snd a" s] by simp
  qed
  ultimately show ?thesis using a(2) by (auto simp: rank_before_def)
qed

text \<open>C11: The frame \<open>nlargest(n, c)\<close> returns has exactly \<open>min n (rows)\<close> rows, so the
  per-product chart never shows more than ten products.\<close>

theorem nlargest_nrows:
  assumes "wf_frame df" "nlargest n c df = Inr df'"
  shows "nrows df' = min n (nrows df)"
proof -
  obtain s where s: "get_column df c = Inr s" and df': "df' = take_rows (nlargest_index n s) df"
    using assms(2) by (auto simp: nlargest_def split: if_splits)
  have "s \<in> set (vals df)" using s by (rule get_column_mem)
  then have "length s = nrows df" "vals df \<noteq> []"
    using assms(1) wf_frame_column_length by auto
  then show ?thesis
    unfolding df' by (auto simp: take_rows_def nrows_def length_nlargest_index split: list.splits)
qed

text \<open>C12: The rows of the result are listed in the order the chart shows them: the
  selected column decreases, a number before any NaN.\<close>

theorem nlargest_sorted:
  assumes "nlargest n c df = Inr df'"
  shows "\<exists>s'. get_column df' c = Inr s' \<and> sorted_wrt cell_geq s'"
  using assms nlargest_index_sorted by (auto simp: nlargest_Inr get_column_take_rows)

text \<open>C13: When the column holds fewer than \<open>n\<close> numbers and the frame has at least
  \<open>n\<close> rows, the result contains a NaN row: pandas fills the top \<open>n\<close> with missing values
  instead of returning fewer rows.\<close>

theorem nlargest_index_nan:
  assumes "\<not> list_ex is_text s" "length (nums s) < n" "n \<le> length s"
  shows "\<exists>i\<in>set (nlargest_index n s). s ! i = CNaN"
proof -
  have len: "length (keyed 0 s) = length (nums s)"
    using keyed_nums [of 0 s] by (metis length_map)
  with assms(2,3) keyed_length [of 0 s] obtain i rest where nr: "nan_rows 0 s = i # rest"
    by (cases "nan_rows 0 s") auto
  have "i \<in> set (nlargest_index n s)"
    using assms(2) len nr by (simp add: nlargest_index_def take_Cons')
  moreover have "s ! i = CNaN"
  proof -
    have "i < length s" "\<forall>x. s ! i \<noteq> CNum x" using nr nan_rows_mem [of i 0 s] by auto
    moreover have "\<not> is_text (s ! i)"
      using assms(1) \<open>i < length s\<close> by (auto simp: list_ex_iff)
    ultimately show ?thesis by (cases "s ! i") (auto simp: is_text_def)
  qed
  ultimately show ?thesis by blast
qed

end
