(* ===== verification/Streamlit.thy ===== *)
theory Streamlit
  imports Frame
begin

text \<open>
  The part of Streamlit and plotly express the script drives. A script run writes a
  sequence of elements to the page; an exception stops the run, and the elements written
  before it stay on the page above the exception's trace. A run is therefore modelled as
  a pair of the elements written and the run's result (\<open>'a st\<close>), sequenced by
  \<open>sbind\<close>, which keeps the elements of the first part and stops at its exception.
  A \<open>with col:\<close> block nests the elements of its body in one column. Widgets
  (\<open>st.sidebar.radio\<close>, \<open>st.selectbox\<close>) are elements that carry their label, their
  options and the value they return; a widget's value survives to the next run only if
  the widget is rendered again (Streamlit drops the state of widgets a run does not
  render), which \<open>widgets_of\<close> records. \<open>px.bar\<close> and \<open>px.scatter\<close> raise
  \<open>ValueError\<close> when an argument names no column of the frame; otherwise they return a
  figure, recorded with the arguments it was built from (the drawing is not modelled).
\<close>

subsection \<open>Page elements and figures\<close>

datatype chart_kind = Bar | Scatter

text \<open>The \<open>text\<close> argument of a figure: none, a column name, or a series of cells
  converted by \<open>astype(str)\<close> with a suffix appended.\<close>

datatype chart_text = NoText | TextColumn label | TextSeries "cell list" string

record chart =
  kind :: chart_kind
  chart_frame :: frame
  chart_x :: label
  chart_y :: label
  chart_color :: "label option"
  chart_text :: chart_text
  chart_title :: string
  chart_hover :: "label list"

datatype elem =
    PageConfig string string        \<comment> \<open>\<open>st.set_page_config(layout, page_title)\<close>\<close>
  | Html string                     \<comment> \<open>\<open>st.markdown(s, unsafe_allow_html=True)\<close>\<close>
  | Markdown string                 \<comment> \<open>\<open>st.markdown(s)\<close>\<close>
  | Title string
  | Subheader string
  | Write string                    \<comment> \<open>\<open>st.write\<close> of a string\<close>
  | Describe frame                  \<comment> \<open>\<open>st.write(df.describe())\<close>\<close>
  | Metric string string            \<comment> \<open>\<open>st.metric(label, value)\<close>\<close>
  | SidebarTitle string
  | Radio string "string list" string     \<comment> \<open>label, options, value returned\<close>
  | Selectbox string "string list" string \<comment> \<open>label, options, value returned\<close>
  | Columns "rat list"              \<comment> \<open>\<open>st.columns(spec)\<close>\<close>
  | InColumn nat "elem list"        \<comment> \<open>the body of \<open>with col_i:\<close>\<close>
  | PlotlyChart chart               \<comment> \<open>\<open>st.plotly_chart(fig, use_container_width=True)\<close>\<close>
  | DataFrameView frame             \<comment> \<open>\<open>st.dataframe(df, use_container_width=True)\<close>\<close>
  | Image string nat                \<comment> \<open>\<open>st.image(path, width)\<close>\<close>

subsection \<open>Script runs: elements written, then a result\<close>

type_synonym 'a st = "elem list \<times> 'a result"

definition lift :: "'a result \<Rightarrow> 'a st" where
  "lift r = ([], r)"

definition emits :: "elem list \<Rightarrow> unit st" where
  "emits es = (es, Inr ())"

definition sbind :: "'a st \<Rightarrow> ('a \<Rightarrow> 'b st) \<Rightarrow> 'b st" where
  "sbind m f = (case snd m of Inl e \<Rightarrow> (fst m, Inl e) | Inr x \<Rightarrow> (fst m @ fst (f x), snd (f x)))"

definition sthen :: "unit st \<Rightarrow> 'b st \<Rightarrow> 'b st" where
  "sthen m k = sbind m (\<lambda>_. k)"

text \<open>\<open>with col_i:\<close> \<open>body\<close>: the body's elements land in column \<open>i\<close>.\<close>

definition in_column :: "nat \<Rightarrow> unit st \<Rightarrow> unit st" where
  "in_column i m = ([InColumn i (fst m)], snd m)"

subsection \<open>Widget state\<close>

type_synonym widget_state = "string \<rightharpoonup> string list \<times> string"

text \<open>The value a widget returns: the value kept from the previous run if the same
  widget (same label and options) was rendered there, else its first option.\<close>

definition widget_value :: "widget_state \<Rightarrow> string \<Rightarrow> string list \<Rightarrow> string" where
  "widget_value ws w opts = (case ws w of Some (opts', v) \<Rightarrow> if opts' = opts then v else hd opts
                             | None \<Rightarrow> hd opts)"

text \<open>The widgets a run rendered, with their options and values: the state kept for the
  next run.\<close>

fun widgets_of :: "elem list \<Rightarrow> widget_state" where
  "widgets_of [] = Map.empty"
| "widgets_of (Radio w opts v # es) = (widgets_of es)(w \<mapsto> (opts, v))"
| "widgets_of (Selectbox w opts v # es) = (widgets_of es)(w \<mapsto> (opts, v))"
| "widgets_of (_ # es) = widgets_of es"

subsection \<open>plotly express\<close>

definition text_columns :: "chart_text \<Rightarrow> label list" where
  "text_columns t = (case t of TextColumn c \<Rightarrow> [c] | _ \<Rightarrow> [])"

definition color_columns :: "label option \<Rightarrow> label list" where
  "color_columns c = (case c of Some l \<Rightarrow> [l] | None \<Rightarrow> [])"

text \<open>The first of the column arguments that names no column, if any.\<close>

definition missing_column :: "frame \<Rightarrow> label list \<Rightarrow> label option" where
  "missing_column df cs = find (\<lambda>c. c \<notin> set (cols df)) cs"

definition px_bar ::
  "frame \<Rightarrow> label \<Rightarrow> label \<Rightarrow> label option \<Rightarrow> chart_text \<Rightarrow> string \<Rightarrow> chart result" where
  "px_bar df x y color text title =
     (case missing_column df ([x, y] @ text_columns text @ color_columns color) of
        Some c \<Rightarrow> Inl (ValueError c)
      | None \<Rightarrow> Inr \<lparr>kind = Bar, chart_frame = df, chart_x = x, chart_y = y, chart_color = color,
                    chart_text = text, chart_title = title, chart_hover = []\<rparr>)"

definition px_scatter ::
  "frame \<Rightarrow> label \<Rightarrow> label \<Rightarrow> label option \<Rightarrow> string \<Rightarrow> label list \<Rightarrow> chart result" where
  "px_scatter df x y color title hover =
     (case missing_column df ([x, y] @ hover @ color_columns color) of
        Some c \<Rightarrow> Inl (ValueError c)
      | None \<Rightarrow> Inr \<lparr>kind = Scatter, chart_frame = df, chart_x = x, chart_y = y, chart_color = color,
                    chart_text = NoText, chart_title = title, chart_hover = hover\<rparr>)"


subsection \<open>Consistent widget state\<close>

text \<open>A widget is consistent when the value it returns is one of its options; the state
  a run keeps is consistent when every widget in it is.\<close>

fun widget_ok :: "elem \<Rightarrow> bool" where
  "widget_ok (Radio w opts v) \<longleftrightarrow> v \<in> set opts"
| "widget_ok (Selectbox w opts v) \<longleftrightarrow> v \<in> set opts"
| "widget_ok _ \<longleftrightarrow> True"

definition widget_inv :: "widget_state \<Rightarrow> bool" where
  "widget_inv ws \<longleftrightarrow> (\<forall>w opts v. ws w = Some (opts, v) \<longrightarrow> v \<in> set opts)"

text \<open>\<open>st.image(path)\<close> opens its file when it is called and raises
  \<open>MediaFileStorageError\<close> when the file cannot be opened. The script calls it at top level
  only, so a run over the image files \<open>imgs\<close> is the run as written cut at its first
  \<open>Image\<close> of a missing file, with that exception as its result.\<close>

fun image_ok :: "string set \<Rightarrow> elem \<Rightarrow> bool" where
  "image_ok imgs (Image p w) \<longleftrightarrow> p \<in> imgs"
| "image_ok imgs _ \<longleftrightarrow> True"

fun image_path :: "elem \<Rightarrow> string" where
  "image_path (Image p w) = p"
| "image_path _ = []"

definition run_images :: "string set \<Rightarrow> 'a st \<Rightarrow> 'a st" where
  "run_images imgs m =
     (if list_all (image_ok imgs) (fst m) then m
      else (takeWhile (image_ok imgs) (fst m),
            Inl (MediaFileStorageError (image_path (hd (dropWhile (image_ok imgs) (fst m)))))))"

text \<open>The widget state kept after a run. After a run that completes Streamlit drops the
  state of every widget the run did not render; after a run that raised it skips that
  clean-up, so the earlier state stays and the widgets the run rendered update it.\<close>

definition kept_widgets :: "widget_state \<Rightarrow> unit st \<Rightarrow> widget_state" where
  "kept_widgets ws out = (case snd out of Inr _ \<Rightarrow> widgets_of (fst out) | Inl _ \<Rightarrow> ws ++ widgets_of (fst out))"

text \<open>A run (or part of a run) that raises no exception.\<close>

definition completes :: "'a st \<Rightarrow> bool" where
  "completes m \<longleftrightarrow> (\<exists>x. snd m = Inr x)"

text \<open>A run that, when it completes, ends with the elements \<open>L\<close>.\<close>

definition ends_with :: "elem list \<Rightarrow> unit st \<Rightarrow> bool" where
  "ends_with L m \<longleftrightarrow> (snd m = Inr () \<longrightarrow> (\<exists>pre. fst m = pre @ L))"

subsection \<open>Lemmas on script runs\<close>

lemma sbind_simps [simp]:
  "sbind (lift (Inr x)) f = f x"
  "sbind (lift (Inl e)) f = ([], Inl e)"
  "sbind (es, Inr x) f = (es @ fst (f x), snd (f x))"
  "sbind (es, Inl e) f = (es, Inl e)"
  by (simp_all add: sbind_def lift_def)

lemma sthen_emits [simp]: "sthen (emits es) k = (es @ fst k, snd k)"
  by (simp add: sthen_def emits_def)

lemma sthen_emits_Nil: "sthen m (emits []) = m"
  by (cases m) (simp add: sthen_def sbind_def emits_def split: sum.split)

lemma in_column_simps [simp]:
  "fst (in_column i m) = [InColumn i (fst m)]" "snd (in_column i m) = snd m"
  by (simp_all add: in_column_def)

text \<open>The result of a sequenced run is the sequenced result: the elements do not
  change what the run computes.\<close>

lemma snd_sbind: "snd (sbind m f) = ebind (snd m) (\<lambda>x. snd (f x))"
  by (simp add: sbind_def split: sum.splits)

lemma snd_sthen: "snd (sthen m k) = ebind (snd m) (\<lambda>_. snd k)"
  by (simp add: sthen_def snd_sbind)

lemma fst_sbind:
  "fst (sbind m f) = fst m @ (case snd m of Inl e \<Rightarrow> [] | Inr x \<Rightarrow> fst (f x))"
  by (simp add: sbind_def split: sum.splits)

lemma widgets_of_append: "widgets_of (xs @ ys) = widgets_of ys ++ widgets_of xs"
  by (induction xs rule: widgets_of.induct) (auto simp: fun_eq_iff map_add_def split: option.splits)

text \<open>Properties of every element a run writes follow from the same property of
  each part of the run; \<open>run_elems\<close> collects the rules that split a run into its parts.\<close>

named_theorems run_elems "rules reducing a property of all elements of a run to its parts"

lemma list_all_sbind [run_elems]:
  "list_all P (fst m) \<Longrightarrow> (\<And>x. list_all P (fst (f x))) \<Longrightarrow> list_all P (fst (sbind m f))"
  by (simp add: fst_sbind split: sum.splits)

lemma list_all_sthen [run_elems]:
  "list_all P (fst m) \<Longrightarrow> list_all P (fst k) \<Longrightarrow> list_all P (fst (sthen m k))"
  unfolding sthen_def by (rule list_all_sbind)

lemma list_all_emits [run_elems]: "list_all P es \<Longrightarrow> list_all P (fst (emits es))"
  by (simp add: emits_def)

lemma list_all_lift [run_elems]: "list_all P (fst (lift r))"
  by (simp add: lift_def)

lemma list_all_in_column [run_elems]: "P (InColumn i (fst m)) \<Longrightarrow> list_all P (fst (in_column i m))"
  by simp

lemma list_all_if [run_elems]:
  "(b \<Longrightarrow> list_all P (fst m)) \<Longrightarrow> (\<not> b \<Longrightarrow> list_all P (fst k)) \<Longrightarrow>
     list_all P (fst (if b then m else k))"
  by simp

lemma widget_inv_widgets_of: "list_all widget_ok es \<Longrightarrow> widget_inv (widgets_of es)"
  by (induction es rule: widgets_of.induct) (auto simp: widget_inv_def)

lemma widget_inv_empty [simp]: "widget_inv Map.empty"
  by (simp add: widget_inv_def)

lemma widget_inv_upd:
  "widget_inv ws \<Longrightarrow> v \<in> set opts \<Longrightarrow> widget_inv (ws(w \<mapsto> (opts, v)))"
  by (simp add: widget_inv_def)

lemma widget_value_mem:
  "widget_inv ws \<Longrightarrow> opts \<noteq> [] \<Longrightarrow> widget_value ws w opts \<in> set opts"
  by (auto simp: widget_value_def widget_inv_def split: option.splits)

lemma px_bar_Inr:
  "missing_column df ([x, y] @ text_columns text @ color_columns color) = None \<Longrightarrow>
     px_bar df x y color text title = Inr \<lparr>kind = Bar, chart_frame = df, chart_x = x, chart_y = y,
       chart_color = color, chart_text = text, chart_title = title, chart_hover = []\<rparr>"
  by (simp add: px_bar_def)

lemma missing_column_None: "missing_column df cs = None \<longleftrightarrow> set cs \<subseteq> set (cols df)"
  by (auto simp: missing_column_def find_None_iff)

text \<open>Running the image calls: a prefix without images of missing files is kept, a run
  whose images all exist is unchanged, and a completed run had no missing image.\<close>

lemma run_images_ok: "list_all (image_ok imgs) es \<Longrightarrow> run_images imgs (es, r) = (es, r)"
  by (simp add: run_images_def)

lemma run_images_id: "list_all (image_ok imgs) (fst m) \<Longrightarrow> run_images imgs m = m"
  by (simp add: run_images_def)

lemma run_images_append:
  "list_all (image_ok imgs) pre \<Longrightarrow>
     run_images imgs (pre @ es, r) = (pre @ fst (run_images imgs (es, r)), snd (run_images imgs (es, r)))"
proof -
  assume "list_all (image_ok imgs) pre"
  then have "\<And>x. x \<in> set pre \<Longrightarrow> image_ok imgs x" by (simp add: list_all_iff)
  then show ?thesis by (auto simp: run_images_def takeWhile_append2 dropWhile_append2 list_all_iff)
qed

lemma run_images_Inr: "snd (run_images imgs m) = Inr x \<Longrightarrow> run_images imgs m = m"
  by (simp add: run_images_def split: if_splits)

lemma list_all_run_images [run_elems]: "list_all P (fst m) \<Longrightarrow> list_all P (fst (run_images imgs m))"
  by (auto simp: run_images_def list_all_iff dest: set_takeWhileD)

lemma widget_inv_kept:
  "widget_inv ws \<Longrightarrow> widget_inv (widgets_of (fst out)) \<Longrightarrow> widget_inv (kept_widgets ws out)"
  by (auto simp: kept_widgets_def widget_inv_def map_add_Some_iff split: sum.splits)


text \<open>A run completes when each of its parts does, given what the earlier parts
  returned; \<open>completes_intros\<close> collects the rules.\<close>

named_theorems completes_intros "rules reducing the completion of a run to its parts"

lemma completes_sbind [completes_intros]:
  "completes m \<Longrightarrow> (\<And>x. snd m = Inr x \<Longrightarrow> completes (f x)) \<Longrightarrow> completes (sbind m f)"
  by (auto simp: completes_def sbind_def split: sum.splits)

lemma completes_sthen [completes_intros]:
  "completes m \<Longrightarrow> completes k \<Longrightarrow> completes (sthen m k)"
  unfolding sthen_def by (rule completes_sbind)

lemma completes_emits [completes_intros]: "completes (emits es)"
  by (simp add: completes_def emits_def)

lemma completes_lift [completes_intros]: "\<exists>x. r = Inr x \<Longrightarrow> completes (lift r)"
  by (auto simp: completes_def lift_def)

lemma completes_in_column [completes_intros]: "completes m \<Longrightarrow> completes (in_column i m)"
  by (simp add: completes_def)

lemma completes_if [completes_intros]:
  "(b \<Longrightarrow> completes m) \<Longrightarrow> (\<not> b \<Longrightarrow> completes k) \<Longrightarrow> completes (if b then m else k)"
  by simp

lemma snd_lift [simp]: "snd (lift r) = r"
  by (simp add: lift_def)

lemma completes_unit: "completes (m :: unit st) \<longleftrightarrow> snd m = Inr ()"
  by (simp add: completes_def)

text \<open>What a completed run ends with, from its last part; \<open>ends_intros\<close> collects the
  rules.\<close>

named_theorems ends_intros "rules for the elements a completed run ends with"

lemma ends_sbind [ends_intros]:
  "(\<And>y. snd m = Inr y \<Longrightarrow> ends_with L (f y)) \<Longrightarrow> ends_with L (sbind m f)"
  by (auto simp: ends_with_def sbind_def split: sum.splits)

lemma ends_sthen [ends_intros]: "ends_with L k \<Longrightarrow> ends_with L (sthen m k)"
  by (auto simp: ends_with_def sthen_def sbind_def split: sum.splits)

lemma ends_emits [ends_intros]: "ends_with L (emits (xs @ L))"
  by (auto simp: ends_with_def emits_def)

lemma ends_emits_self [ends_intros]: "ends_with L (emits L)"
  by (auto simp: ends_with_def emits_def)

lemma ends_with_mem: "ends_with L m \<Longrightarrow> snd m = Inr () \<Longrightarrow> x \<in> set L \<Longrightarrow> x \<in> set (fst m)"
  by (auto simp: ends_with_def)

end
