(* ===== verification/Pages.thy ===== *)
theory Pages
  imports Comparator Products Streamlit
begin

text \<open>
  The pages of \<open>src/app.py\<close> and one run of the whole script. \<open>page_setup\<close> is the page
  configuration and the style sheet (lines 6--47); \<open>sidebar\<close> the navigation (lines
  100--102); \<open>create_bar_chart\<close> lines 105--110; \<open>home_page\<close> the Home page (lines
  113--160) built from three \<open>home_column\<close>s; \<open>detail_page\<close> the Revenue, Margin and
  Quantity pages (lines 163--229); \<open>product_page\<close> the per-product page (lines 232--288).
  \<open>render_page\<close> is the dispatch of lines 113, 163 and 232, and \<open>app_run\<close> one run of the
  script from the top. The lemmas say which elements each page can write (no page
  configuration, no widget but the per-product select box), using the rule collection
  \<open>run_elems\<close>; sessions and user actions are in \<open>Session\<close>.
\<close>

subsection \<open>Page configuration and style sheet (lines 6--47)\<close>

definition css_lines :: "string list" where
  "css_lines = [
     '''',
     ''    <style>'',
     ''    /* Change background color */'',
     ''    body, .stApp {'',
     ''        background-color: #12123B;'',
     ''        color: #E8F0FF !important;'',
     ''    }'',
     '''',
     ''    /* Change sidebar color */'',
     ''    .stSidebar {'',
     ''        background-color: #3C37FF !important;'',
     ''    }'',
     ''    '',
     ''    /* Sidebar text color */'',
     ''    .stSidebar div {'',
     ''        color: white !important;'',
     ''    }'',
     '''',
     ''    /* Change text color for main content */'',
     ''    .stMarkdown, .stText, .stSubheader, .stMetric, .stTitle, .stHeader, .stTable {'',
     ''        color: #E8F0FF !important;'',
     ''    }'',
     '''',
     ''    /* Style buttons */'',
     ''    .stButton>button {'',
     ''        background-color: #3C37FF !important;'',
     ''        color: white !important;'',
     ''        border-radius: 8px;'',
     ''        border: none;'',
     ''    }'',
     '''',
     ''    /* Style metric boxes */'',
     ''    .stMetric {'',
     ''        color: #E8F0FF !important;'',
     ''    }'',
     ''    </style>'',
     ''    '']"

text \<open>\<open>"\n".join(lines)\<close>: the triple-quoted literal of line 9 is its lines joined by
  newlines.\<close>

fun join_lines :: "string list \<Rightarrow> string" where
  "join_lines [] = []"
| "join_lines [l] = l"
| "join_lines (l # ls) = l @ CHR 0x0A # join_lines ls"

definition page_setup :: "elem list" where
  "page_setup = [PageConfig ''wide'' ''Price Sensitivity Dashboard'', Html (join_lines css_lines)]"

subsection \<open>Navigation (lines 100--102)\<close>

text \<open>The emoji of the labels, as UTF-8 bytes: U+1F50D, U+1F3E0, U+1F4B0, U+1F4C8,
  U+1F4E6, U+1F4CA and U+1F4CB.\<close>

definition magnifier :: string where "magnifier = [CHR 0xF0, CHR 0x9F, CHR 0x94, CHR 0x8D]"
definition house :: string where "house = [CHR 0xF0, CHR 0x9F, CHR 0x8F, CHR 0xA0]"
definition money_bag :: string where "money_bag = [CHR 0xF0, CHR 0x9F, CHR 0x92, CHR 0xB0]"
definition chart_up :: string where "chart_up = [CHR 0xF0, CHR 0x9F, CHR 0x93, CHR 0x88]"
definition package :: string where "package = [CHR 0xF0, CHR 0x9F, CHR 0x93, CHR 0xA6]"
definition bar_chart :: string where "bar_chart = [CHR 0xF0, CHR 0x9F, CHR 0x93, CHR 0x8A]"
definition clipboard :: string where "clipboard = [CHR 0xF0, CHR 0x9F, CHR 0x93, CHR 0x8B]"

definition home_label :: string where "home_label = house @ '' Home''"
definition revenue_label :: string where "revenue_label = money_bag @ '' Revenue''"
definition margin_label :: string where "margin_label = chart_up @ '' Margin''"
definition quantity_label :: string where "quantity_label = package @ '' Quantity''"
definition product_label :: string where "product_label = bar_chart @ '' Per Product Analysis''"

definition page_options :: "string list" where
  "page_options = [home_label, revenue_label, margin_label, quantity_label, product_label]"

definition sidebar :: "string \<Rightarrow> elem list" where
  "sidebar page = [SidebarTitle (magnifier @ '' Select a View''), Radio ''Go to'' page_options page]"

subsection \<open>Bar charts (lines 105--110)\<close>

text \<open>\<open>df.copy()\<close>, \<open>df[column] = df[column].round(2)\<close> (\<open>round_column\<close>), then
  \<open>px.bar\<close> with the text labels \<open>df[column].astype(str) + '%'\<close> evaluated first.\<close>

definition create_bar_chart :: "frame \<Rightarrow> label \<Rightarrow> string \<Rightarrow> chart result" where
  "create_bar_chart df column title =
     ebind (round_column column df) (\<lambda>df.
     ebind (get_column df column) (\<lambda>s.
       px_bar df ''Price change'' column (Some ''StrategyBoxName'') (TextSeries s ''%'') title))"

subsection \<open>Formatting and markup shared by the pages\<close>

definition euro :: string where "euro = [CHR 0xE2, CHR 0x82, CHR 0xAC]"

text \<open>\<open>df[c].sum()\<close> and \<open>df[c].mean()\<close>.\<close>

definition column_total :: "frame \<Rightarrow> label \<Rightarrow> rat result" where
  "column_total df c = ebind (get_column df c) (series_sum c)"

definition column_mean :: "frame \<Rightarrow> label \<Rightarrow> pyfloat result" where
  "column_mean df c = ebind (get_column df c) (series_mean c)"

text \<open>\<open>f"{v:.2f}%"\<close>.\<close>

definition pct :: "pyfloat \<Rightarrow> string" where
  "pct v = fmt_fixed False 2 v @ ''%''"

text \<open>\<open>f"<tag style='text-align: center;'>{s}</tag>"\<close>.\<close>

definition centered :: "string \<Rightarrow> string \<Rightarrow> string" where
  \<open>centered tag s = ''<'' @ tag @ '' style=\'text-align: center;\'>'' @ s @ ''</'' @ tag @ ''>''\<close>

text \<open>The logo block closing every page.\<close>

definition logo_footer :: "elem list" where
  \<open>logo_footer = [Html ''<br><br>'', Html ''<div style=\'text-align: center;\'>'',
                  Image ''logo.png'' 150, Html ''</div>'']\<close>

subsection \<open>Home page (lines 113--160)\<close>

text \<open>One column of the Home page (lines 119--129, 132--142, 145--155): a heading, the
  four totals with the currency sign and the precision of the column, the two changes and
  the verdict. Each total is computed just before it is written.\<close>

definition home_column ::
  "string \<Rightarrow> string \<Rightarrow> nat \<Rightarrow> frame \<Rightarrow> pyfloat \<Rightarrow> pyfloat \<Rightarrow> unit st" where
  "home_column heading cur p df test_pct perf_diff =
     sthen (emits [Markdown heading])
     (sbind (lift (column_total df ''Test 2025'')) (\<lambda>t25.
      sthen (emits [Subheader (''Test 2025: '' @ cur @ fmt_fixed True p (Fin t25))])
     (sbind (lift (column_total df ''Test 2024'')) (\<lambda>t24.
      sthen (emits [Write (''Test 2024: **'' @ cur @ fmt_fixed True p (Fin t24) @ ''**'')])
     (sbind (lift (column_total df ''Control 2025'')) (\<lambda>c25.
      sthen (emits [Subheader (''Control 2025: '' @ cur @ fmt_fixed True p (Fin c25))])
     (sbind (lift (column_total df ''Control 2024'')) (\<lambda>c24.
      sthen (emits [Write (''Control 2024: **'' @ cur @ fmt_fixed True p (Fin c24) @ ''**''),
                    Metric ''Test % Change'' (pct test_pct)])
     (sbind (lift (column_mean df ''%Change Control'')) (\<lambda>m.
      emits [Metric ''Control % Change'' (pct m),
             Markdown (''**'' @ performance_arrow perf_diff @ ''**'')]))))))))))"

definition home_page :: "dashboard \<Rightarrow> unit st" where
  "home_page d =
     sthen (emits [Title (bar_chart @ '' Price Sensitivity Dashboard''), Columns [3/2, 3/2, 1]])
     (sthen (in_column 0 (home_column (''### '' @ money_bag @ '' Total Revenue'') euro 2
               (revenue_df (data d)) (revenue_test_pct d) (revenue_perf_diff d)))
     (sthen (in_column 1 (home_column (''### '' @ chart_up @ '' Total Margin'') euro 2
               (margin_df (data d)) (margin_test_pct d) (margin_perf_diff d)))
     (sthen (in_column 2 (home_column (''### '' @ package @ '' Total Quantity'') [] 0
               (quantity_df (data d)) (quantity_test_pct d) (quantity_perf_diff d)))
     (emits logo_footer))))"

subsection \<open>Measure pages (lines 163--229)\<close>

text \<open>\<open>str.split()\<close>: the words between runs of whitespace. The model's strings are UTF-8
  bytes, so only ASCII whitespace (which includes the separators \<open>\x1c\<close>--\<open>\x1f\<close>)
  separates words; no page label contains other whitespace.\<close>

definition is_py_space :: "char \<Rightarrow> bool" where
  "is_py_space c \<longleftrightarrow> of_char c \<in> {9, 10, 11, 12, 13, 28, 29, 30, 31, 32 :: nat}"

fun split_on :: "(char \<Rightarrow> bool) \<Rightarrow> string \<Rightarrow> string list" where
  "split_on p [] = [[]]"
| "split_on p (c # cs) =
     (let ws = split_on p cs in if p c then [] # ws else (c # hd ws) # tl ws)"

definition py_split :: "string \<Rightarrow> string list" where
  "py_split s = filter (\<lambda>w. w \<noteq> []) (split_on is_py_space s)"

text \<open>\<open>measure = page.split()[1]\<close> (line 164).\<close>

definition measure_of :: "string \<Rightarrow> string result" where
  "measure_of page = (case py_split page of _ # m # _ \<Rightarrow> Inr m
                       | _ \<Rightarrow> Inl (IndexError ''list index out of range''))"

definition measure_pages :: "string list" where
  "measure_pages = [revenue_label, margin_label, quantity_label]"

text \<open>Lines 165--167: the table, Test change and performance difference of the measure;
  every measure name other than Revenue and Margin selects Quantity.\<close>

definition select_measure :: "string \<Rightarrow> dashboard \<Rightarrow> frame \<times> pyfloat \<times> pyfloat" where
  "select_measure name d =
     (if name = ''Revenue'' then revenue_df (data d)
      else if name = ''Margin'' then margin_df (data d) else quantity_df (data d),
      if name = ''Revenue'' then revenue_test_pct d
      else if name = ''Margin'' then margin_test_pct d else quantity_test_pct d,
      if name = ''Revenue'' then revenue_perf_diff d
      else if name = ''Margin'' then margin_perf_diff d else quantity_perf_diff d)"

definition currency_symbol :: "string \<Rightarrow> string" where
  "currency_symbol name = (if name \<in> set [''Revenue'', ''Margin''] then euro else [])"

text \<open>Lines 180--188: a heading and the 2025 and 2024 totals of one cohort.\<close>

definition detail_totals :: "frame \<Rightarrow> string \<Rightarrow> string \<Rightarrow> label \<Rightarrow> label \<Rightarrow> unit st" where
  "detail_totals df heading cur c25 c24 =
     sthen (emits [Html (centered ''h3'' heading)])
     (sbind (lift (column_total df c25)) (\<lambda>t25.
      sthen (emits [Html (centered ''h2'' (cur @ fmt_fixed True 2 (Fin t25)))])
     (sbind (lift (column_total df c24)) (\<lambda>t24.
      emits [Html (centered ''h4'' (''2024: '' @ cur @ fmt_fixed True 2 (Fin t24)))]))))"

definition arrow_html :: "string \<Rightarrow> string" where
  \<open>arrow_html a = ''<h1 style=\'text-align: center; font-size: 32px; font-weight: bold;\'> '' @ a @ '' </h1>''\<close>

definition detail_page :: "string \<Rightarrow> dashboard \<Rightarrow> unit st" where
  "detail_page page d =
     sbind (lift (measure_of page)) (\<lambda>name.
     (case select_measure name d of (df, test_pct, perf_diff) \<Rightarrow>
      let cur = currency_symbol name in
      sthen (emits [Html (centered ''h1'' (bar_chart @ '' Detailed '' @ name @ '' Analysis'')),
                    Html ''<br>'', Columns [1, 1]])
      (sthen (in_column 0 (detail_totals df (name @ '' (Test)'') cur ''Test 2025'' ''Test 2024''))
      (sthen (in_column 1 (detail_totals df (name @ '' (Control)'') cur ''Control 2025'' ''Control 2024''))
      (sthen (emits [Html ''<br>'', Columns [1, 1],
                     InColumn 0 [Html (centered ''h3'' ''Test % Change''), Html (centered ''h2'' (pct test_pct))]])
      (sthen (in_column 1 (sthen (emits [Html (centered ''h3'' ''Control % Change'')])
               (sbind (lift (column_mean df ''%Change Control'')) (\<lambda>m.
                emits [Html (centered ''h2'' (pct m))]))))
      (sthen (emits [Html ''<br><br>'', Html (arrow_html (performance_arrow perf_diff)), Html ''<br><br>''])
      (sbind (lift (create_bar_chart df ''%Change Test'' (name @ '' Test % Change''))) (\<lambda>fig.
       sthen (emits [PlotlyChart fig])
      (sbind (lift (create_bar_chart df ''%Change Control'' (name @ '' Control % Change''))) (\<lambda>fig'.
       emits ([PlotlyChart fig', Html ''<br><br>'',
               Html (centered ''h3'' (clipboard @ '' '' @ name @ '' Data Table'')),
               DataFrameView df] @ logo_footer))))))))))))"

subsection \<open>Per-product page (lines 232--288)\<close>

definition metric_label :: string where
  "metric_label = ''Select a metric to visualize:''"

text \<open>\<open>df.describe()\<close>: pandas refuses a frame without columns; the statistics
  themselves are left to the view.\<close>

definition describe :: "frame \<Rightarrow> frame result" where
  "describe df = (if cols df = [] then Inl (ValueError ''Cannot describe a DataFrame without columns'')
                  else Inr df)"

definition product_page :: "widget_state \<Rightarrow> tables \<Rightarrow> unit st" where
  "product_page ws t =
     sthen (emits [Title (bar_chart @ '' Per Product Performance''), Subheader ''Summary Statistics''])
     (sbind (lift (describe (product_df t))) (\<lambda>summary.
      let selected_metric = widget_value ws metric_label metric_options in
      sthen (emits [Describe summary, Selectbox metric_label metric_options selected_metric])
     (sbind (lift (dict_get column_map selected_metric)) (\<lambda>selected_column.
      sthen (emits [Subheader (''Top 10 Products by '' @ selected_metric)])
     (sbind (lift (nlargest 10 selected_column (product_df t))) (\<lambda>top_10_products.
      sbind (lift (px_bar top_10_products ''ProductId'' selected_column None (TextColumn selected_column)
                     (''Top 10 Products by '' @ selected_metric))) (\<lambda>fig.
      sthen (emits [PlotlyChart fig, Subheader ''Revenue vs Margin (Test 25)''])
     (sbind (lift (px_scatter (product_df t) ''Total Revenue Test 25'' ''Total Margin Test 25''
                     (Some ''StrategyBoxName'') ''Revenue vs Margin (Per Product)'' [''ProductId''])) (\<lambda>fig2.
      emits ([PlotlyChart fig2, Html ''<br><br>'', Subheader (clipboard @ '' Per Product Data Table''),
              DataFrameView (product_df t)] @ logo_footer))))))))))"

subsection \<open>One run of the script\<close>

text \<open>Lines 113, 163 and 232: an \<open>if\<close>/\<open>elif\<close> for Home and the measure pages, then a
  separate \<open>if\<close> for the per-product page.\<close>

definition render_page :: "widget_state \<Rightarrow> string \<Rightarrow> dashboard \<Rightarrow> unit st" where
  "render_page ws page d =
     sthen (if page = home_label then home_page d
            else if page \<in> set measure_pages then detail_page page d
            else emits [])
           (if page = product_label then product_page ws (data d) else emits [])"

text \<open>The script from the top: page setup, the (cached) load of line 71, the computation of
  lines 74--89, the sidebar, the page. \<open>loaded\<close> is what \<open>load_data()\<close> returned.\<close>

definition app_run :: "widget_state \<Rightarrow> tables result \<Rightarrow> unit st" where
  "app_run ws loaded =
     sthen (emits page_setup)
     (sbind (lift loaded) (\<lambda>t.
      sbind (lift (analyse t)) (\<lambda>d.
      let page = widget_value ws ''Go to'' page_options in
      sthen (emits (sidebar page)) (render_page ws page d))))"

subsection \<open>What a run writes\<close>

text \<open>The elements a page body writes: no page configuration, no sidebar radio, and only
  select boxes returning one of their options.\<close>

fun page_elem :: "elem \<Rightarrow> bool" where
  "page_elem (PageConfig _ _) \<longleftrightarrow> False"
| "page_elem (Radio _ _ _) \<longleftrightarrow> False"
| "page_elem (Selectbox w opts v) \<longleftrightarrow> v \<in> set opts"
| "page_elem _ \<longleftrightarrow> True"

text \<open>The elements of the Home and measure pages: no widget and no page configuration.\<close>

fun plain_elem :: "elem \<Rightarrow> bool" where
  "plain_elem (PageConfig _ _) \<longleftrightarrow> False"
| "plain_elem (Radio _ _ _) \<longleftrightarrow> False"
| "plain_elem (Selectbox _ _ _) \<longleftrightarrow> False"
| "plain_elem _ \<longleftrightarrow> True"

text \<open>The only image the script shows is its logo.\<close>

fun logo_only :: "elem \<Rightarrow> bool" where
  "logo_only (Image p _) \<longleftrightarrow> p = ''logo.png''"
| "logo_only _ \<longleftrightarrow> True"

lemma plain_page_elems: "list_all plain_elem es \<Longrightarrow> list_all page_elem es"
  by (induction es) (auto elim: plain_elem.elims)

lemma plain_widgets_of: "list_all plain_elem es \<Longrightarrow> widgets_of es = Map.empty"
  by (induction es rule: widgets_of.induct) simp_all

lemma home_page_elems: "list_all plain_elem (fst (home_page d))"
  unfolding home_page_def home_column_def logo_footer_def
  by (intro run_elems) simp_all

lemma detail_page_elems: "list_all plain_elem (fst (detail_page page d))"
  unfolding detail_page_def detail_totals_def logo_footer_def Let_def prod.case_eq_if
  by (intro run_elems) simp_all

lemma product_page_elems:
  "widget_inv ws \<Longrightarrow> list_all page_elem (fst (product_page ws t))"
proof -
  assume "widget_inv ws"
  moreover have "metric_options \<noteq> []" by (simp add: metric_options_def)
  ultimately show ?thesis
    unfolding product_page_def logo_footer_def Let_def
    by (intro run_elems) (simp_all add: widget_value_mem)
qed

lemma render_page_elems:
  "widget_inv ws \<Longrightarrow> list_all page_elem (fst (render_page ws page d))"
  unfolding render_page_def
  by (intro run_elems plain_page_elems [OF home_page_elems] plain_page_elems [OF detail_page_elems]
            product_page_elems) simp_all

lemma app_run_simps:
  "app_run ws (Inl e) = (page_setup, Inl e)"
  "analyse t = Inl e \<Longrightarrow> app_run ws (Inr t) = (page_setup, Inl e)"
  "analyse t = Inr d \<Longrightarrow> app_run ws (Inr t) =
     (let p = widget_value ws ''Go to'' page_options
      in (page_setup @ sidebar p @ fst (render_page ws p d), snd (render_page ws p d)))"
  by (simp_all add: app_run_def Let_def)

lemma page_options_ne: "page_options \<noteq> []"
  by (simp add: page_options_def)

lemma setup_images [simp]:
  "list_all (image_ok imgs) page_setup" "list_all (image_ok imgs) (sidebar p)"
  by (simp_all add: page_setup_def sidebar_def)

lemma render_page_logo_only: "list_all logo_only (fst (render_page ws p d))"
  unfolding render_page_def home_page_def home_column_def detail_page_def detail_totals_def
    product_page_def logo_footer_def Let_def prod.case_eq_if
  by (intro run_elems) simp_all

lemma app_run_logo_only: "list_all logo_only (fst (app_run ws loaded))"
  unfolding app_run_def Let_def page_setup_def sidebar_def
  by (intro run_elems render_page_logo_only) simp_all

lemma logo_image_ok: "''logo.png'' \<in> imgs \<Longrightarrow> list_all logo_only es \<Longrightarrow> list_all (image_ok imgs) es"
  by (induction es) (auto elim: logo_only.elims)

text \<open>Without the logo file, a run that writes the logo stops there with the error of
  \<open>st.image\<close>.\<close>

lemma run_images_logo_missing:
  assumes "''logo.png'' \<notin> imgs" "list_all logo_only (fst m)" "Image ''logo.png'' w \<in> set (fst m)"
  shows "snd (run_images imgs m) = Inl (MediaFileStorageError ''logo.png'')"
proof -
  have nok: "\<not> list_all (image_ok imgs) (fst m)"
    using assms(1,3) image_ok.simps(1) [of imgs "''logo.png''" w] unfolding list_all_iff by blast
  then have ne: "dropWhile (image_ok imgs) (fst m) \<noteq> []" by (simp add: list_all_iff)
  let ?x = "hd (dropWhile (image_ok imgs) (fst m))"
  have "?x \<in> set (dropWhile (image_ok imgs) (fst m))" using ne by (rule hd_in_set)
  then have "?x \<in> set (fst m)" by (rule set_dropWhileD)
  then have "logo_only ?x" using assms(2) by (simp add: list_all_iff)
  moreover have "\<not> image_ok imgs ?x" using ne by (rule hd_dropWhile)
  ultimately have "image_path ?x = ''logo.png''" by (cases ?x) simp_all
  then show ?thesis using nok by (simp add: run_images_def)
qed

lemma pages_end_with_logo:
  "ends_with logo_footer (home_page d)" "ends_with logo_footer (detail_page page d)"
  "ends_with logo_footer (product_page ws t)"
  unfolding home_page_def detail_page_def product_page_def Let_def prod.case_eq_if
  by (intro ends_intros)+

lemma app_run_widget_ok:
  assumes "widget_inv ws"
  shows "list_all widget_ok (fst (app_run ws loaded))"
proof (cases loaded)
  case (Inr t)
  show ?thesis
  proof (cases "analyse t")
    case (Inr d)
    have "list_all widget_ok (fst (render_page ws p d))" for p
      using render_page_elems [OF assms, of p d] by (auto simp: list_all_iff elim!: page_elem.elims)
    then show ?thesis using \<open>loaded = Inr t\<close> Inr assms page_options_ne
      by (simp add: app_run_simps page_setup_def sidebar_def widget_value_mem Let_def)
  qed (simp add: app_run_simps \<open>loaded = Inr t\<close> page_setup_def)
qed (simp add: app_run_simps page_setup_def)

lemma app_run_widgets:
  "widget_inv ws \<Longrightarrow> widget_inv (widgets_of (fst (app_run ws loaded)))"
  by (rule widget_inv_widgets_of) (rule app_run_widget_ok)

text \<open>A run that shows another page than the per-product page renders no select box,
  so Streamlit drops the select box's state.\<close>

lemma app_run_metric_state:
  assumes "widget_value ws ''Go to'' page_options \<noteq> product_label"
  shows "widgets_of (fst (app_run ws loaded)) metric_label = None"
proof (cases loaded)
  case (Inr t)
  show ?thesis
  proof (cases "analyse t")
    case (Inr d)
    let ?p = "widget_value ws ''Go to'' page_options"
    have "list_all plain_elem (fst (render_page ws ?p d))"
      unfolding render_page_def
    proof (intro run_elems home_page_elems detail_page_elems)
      show "?p = product_label \<Longrightarrow> list_all plain_elem (fst (product_page ws (data d)))"
        using assms by simp
    qed simp_all
    then have "widgets_of (fst (render_page ws ?p d)) = Map.empty" by (rule plain_widgets_of)
    then show ?thesis using \<open>loaded = Inr t\<close> Inr
      by (simp add: app_run_simps Let_def widgets_of_append sidebar_def page_setup_def map_add_def
                    metric_label_def)
  qed (simp add: \<open>loaded = Inr t\<close> app_run_simps page_setup_def)
qed (simp add: app_run_simps page_setup_def)

lemma cols_set_column_mem: "c \<in> set (cols df) \<Longrightarrow> cols (set_column df c s) = cols df"
  by (simp add: set_column_def)

lemma get_column_Inr_mem: "get_column df c = Inr s \<Longrightarrow> c \<in> set (cols df)"
  using get_column_KeyError by force

lemma create_bar_chart_Inr_round:
  assumes "length (cols df) = length (vals df)" "get_column df c = Inr s" "\<not> list_ex is_text s"
  shows "create_bar_chart df c title =
           px_bar (set_column df c (map (round_cell 2) s)) ''Price change'' c (Some ''StrategyBoxName'')
             (TextSeries (map (round_cell 2) s) ''%'') title"
  using assms by (simp add: create_bar_chart_def round_column_Inr get_column_set_column_same)

subsection \<open>Properties of the pages\<close>

text \<open>C16: Each measure page shows its own measure: \<open>page.split()[1]\<close> yields Revenue,
  Margin and Quantity for the three labels, and lines 165--167 then select that measure's
  table, Test change and performance difference.\<close>

theorem measure_page_tables:
  "map (\<lambda>p. emap (\<lambda>m. select_measure m d) (measure_of p)) measure_pages =
     [Inr (revenue_df (data d), revenue_test_pct d, revenue_perf_diff d),
      Inr (margin_df (data d), margin_test_pct d, margin_perf_diff d),
      Inr (quantity_df (data d), quantity_test_pct d, quantity_perf_diff d)]"
  by (simp add: measure_pages_def revenue_label_def margin_label_def quantity_label_def
                money_bag_def chart_up_def package_def measure_of_def py_split_def
                is_py_space_def select_measure_def)

text \<open>C20: \<open>create_bar_chart\<close> plots the rounded column: for a numeric column of a frame
  with the grouping columns, the figure's frame holds the column rounded to two decimals,
  its y axis is that column, and its text labels are the rounded values with a percent
  sign.\<close>

theorem create_bar_chart_rounded:
  assumes "length (cols df) = length (vals df)" "get_column df c = Inr s" "\<not> list_ex is_text s"
    and "''Price change'' \<in> set (cols df)" "''StrategyBoxName'' \<in> set (cols df)"
  shows "\<exists>fig. create_bar_chart df c title = Inr fig \<and> chart_y fig = c \<and>
           get_column (chart_frame fig) c = Inr (map (round_cell 2) s) \<and>
           chart_text fig = TextSeries (map (round_cell 2) s) ''%''"
proof -
  have c: "c \<in> set (cols df)" using assms(2) by (rule get_column_Inr_mem)
  have "missing_column (set_column df c (map (round_cell 2) s))
          ([''Price change'', c] @ text_columns (TextSeries (map (round_cell 2) s) ''%'') @
           color_columns (Some ''StrategyBoxName'')) = None"
    using assms(4,5) c by (simp add: missing_column_None cols_set_column_mem text_columns_def color_columns_def)
  then show ?thesis
    using assms by (simp add: create_bar_chart_Inr_round px_bar_Inr get_column_set_column_same)
qed

text \<open>C21: A measure table without the \<open>Price change\<close> column makes the measure page
  fail in \<open>create_bar_chart\<close> with plotly's \<open>ValueError\<close> naming that column, after the
  rounding succeeded; the specification names the column but nothing checks it.\<close>

theorem create_bar_chart_no_price_change:
  assumes "length (cols df) = length (vals df)" "get_column df c = Inr s" "\<not> list_ex is_text s"
    and "''Price change'' \<notin> set (cols df)"
  shows "create_bar_chart df c title = Inl (ValueError ''Price change'')"
proof -
  have c: "c \<in> set (cols df)" using assms(2) by (rule get_column_Inr_mem)
  then show ?thesis
    using assms by (simp add: create_bar_chart_Inr_round px_bar_def missing_column_def cols_set_column_mem)
qed

text \<open>C29: A product table without the selected metric's column is not caught at load time:
  the per-product page writes its title, the statistics, the select box and the chart's
  subheading, then \<open>nlargest\<close> raises \<open>KeyError\<close> and the run stops there, keeping
  what it wrote.\<close>

theorem product_page_missing_column:
  assumes "dict_get column_map (widget_value ws metric_label metric_options) = Inr col"
    and "col \<notin> set (cols (product_df t))" "cols (product_df t) \<noteq> []"
  shows "product_page ws t =
           ([Title (bar_chart @ '' Per Product Performance''), Subheader ''Summary Statistics'',
             Describe (product_df t),
             Selectbox metric_label metric_options (widget_value ws metric_label metric_options),
             Subheader (''Top 10 Products by '' @ widget_value ws metric_label metric_options)],
            Inl (KeyError col))"
  using assms by (simp add: product_page_def describe_def nlargest_def get_column_KeyError Let_def)

end
