(* ===== verification/Session.thy ===== *)
theory Session
  imports Pages
begin

text \<open>
  A browser session of the dashboard and what a user can do with it. Streamlit reruns
  \<open>src/app.py\<close> from the top on every interaction (\<open>script_run\<close>, one \<open>app_run\<close> with
  the cached result of \<open>load_data\<close>, cut short at the first \<open>st.image\<close> whose file is
  missing); between runs it keeps the state of the widgets (after a run that raised, the
  earlier state too, \<open>kept_widgets\<close>) and, for the whole server process, the cache of
  \<open>load_data\<close>. The user's actions are the rules of the inductive step relation
  \<open>ui_step\<close>, and \<open>reachable\<close> are the sessions a user can bring about. The lemmas show
  that every reachable session keeps a consistent widget state and that a remembered
  radio means analysed tables in the cache (rule induction over \<open>reachable\<close>); the
  properties are about the lookups the pages make, the page a run renders, navigation,
  the cache, the page configuration and the lifetime of the metric choice.
\<close>

subsection \<open>Sessions and user actions\<close>

text \<open>What a run finds on disk: the CSV files \<open>load_data\<close> reads, and the image files
  \<open>st.image\<close> can open.\<close>

record disk =
  csv_files :: files
  image_files :: "string set"

text \<open>A browser session: the widget state, the process-wide cache of \<open>load_data\<close>, and
  the elements and outcome of the last run.\<close>

record session =
  widgets :: widget_state
  cache :: "tables option"
  shown :: "elem list"
  outcome :: "unit result"

definition script_run :: "disk \<Rightarrow> session \<Rightarrow> session" where
  "script_run dk s =
     (case cached_load_data (cache s) (csv_files dk) of (loaded, cache') \<Rightarrow>
        let out = run_images (image_files dk) (app_run (widgets s) loaded) in
        \<lparr>widgets = kept_widgets (widgets s) out, cache = cache', shown = fst out, outcome = snd out\<rparr>)"

definition new_session :: session where
  "new_session = \<lparr>widgets = Map.empty, cache = None, shown = [], outcome = Inr ()\<rparr>"

text \<open>What the user can do, each followed by a run of the script over the disk of that
  moment: choose an option of a widget the last run showed, rerun, or reload the tab
  (a new session with fresh widgets; the cache belongs to the server process and stays).\<close>

inductive ui_step :: "session \<Rightarrow> session \<Rightarrow> bool" where
  choose: "widgets_of (shown s) w = Some (opts, v0) \<Longrightarrow> v \<in> set opts \<Longrightarrow>
     ui_step s (script_run dk (s\<lparr>widgets := (widgets s)(w \<mapsto> (opts, v))\<rparr>))"
| rerun: "ui_step s (script_run dk s)"
| reload: "ui_step s (script_run dk (new_session\<lparr>cache := cache s\<rparr>))"

inductive reachable :: "session \<Rightarrow> bool" where
  start: "reachable (script_run dk new_session)"
| step: "reachable s \<Longrightarrow> ui_step s s' \<Longrightarrow> reachable s'"

subsection \<open>Lemmas on sessions\<close>

lemma cached_load_data_Inr: "cached_load_data c fs = (Inr t, c') \<Longrightarrow> c' = Some t"
  by (auto simp: cached_load_data_def split: option.splits sum.splits)

lemma cached_load_data_cache_Some:
  "snd (cached_load_data c fs) = Some t \<Longrightarrow> fst (cached_load_data c fs) = Inr t"
  by (auto simp: cached_load_data_def split: option.splits sum.splits)

lemma script_run_fields:
  "shown (script_run dk s) =
     fst (run_images (image_files dk) (app_run (widgets s) (fst (cached_load_data (cache s) (csv_files dk)))))"
  "outcome (script_run dk s) =
     snd (run_images (image_files dk) (app_run (widgets s) (fst (cached_load_data (cache s) (csv_files dk)))))"
  "widgets (script_run dk s) = kept_widgets (widgets s) (shown (script_run dk s), outcome (script_run dk s))"
  "cache (script_run dk s) = snd (cached_load_data (cache s) (csv_files dk))"
  by (simp_all add: script_run_def Let_def split: prod.splits)

lemmas run_eval [model_simps] = script_run_fields cached_load_data_def app_run_simps run_images_ok

lemma script_run_cached:
  "cache s = Some t \<Longrightarrow> script_run dk s = script_run (dk\<lparr>csv_files := fs'\<rparr>) s \<and> cache (script_run dk s) = Some t"
  by (simp add: script_run_def Let_def)

text \<open>A run over analysed tables shows the page setup and the sidebar, whatever happens
  to the page after them.\<close>

lemma script_run_analysed:
  assumes "fst (cached_load_data (cache s) (csv_files dk)) = Inr t" "analyse t = Inr d"
  defines "p \<equiv> widget_value (widgets s) ''Go to'' page_options"
  shows "shown (script_run dk s) = page_setup @ sidebar p @ fst (run_images (image_files dk) (render_page (widgets s) p d))"
    and "outcome (script_run dk s) = snd (run_images (image_files dk) (render_page (widgets s) p d))"
proof -
  have pre: "run_images (image_files dk) ((page_setup @ sidebar p) @ es, r) =
      ((page_setup @ sidebar p) @ fst (run_images (image_files dk) (es, r)), snd (run_images (image_files dk) (es, r)))"
    for es r by (rule run_images_append) simp
  show "shown (script_run dk s) = page_setup @ sidebar p @ fst (run_images (image_files dk) (render_page (widgets s) p d))"
    using pre [of "fst (render_page (widgets s) p d)" "snd (render_page (widgets s) p d)"]
    by (simp add: script_run_fields assms app_run_simps Let_def)
  show "outcome (script_run dk s) = snd (run_images (image_files dk) (render_page (widgets s) p d))"
    using pre [of "fst (render_page (widgets s) p d)" "snd (render_page (widgets s) p d)"]
    by (simp add: script_run_fields assms app_run_simps Let_def)
qed

lemma script_run_widget_inv: "widget_inv (widgets s) \<Longrightarrow> widget_inv (widgets (script_run dk s))"
  unfolding script_run_fields(3)
  by (intro widget_inv_kept widget_inv_widgets_of)
     (simp_all add: script_run_fields list_all_run_images app_run_widget_ok)

lemma ui_step_widget_inv: "ui_step s s' \<Longrightarrow> widget_inv (widgets s) \<Longrightarrow> widget_inv (widgets s')"
proof (induction rule: ui_step.induct)
  case (choose s w opts v0 v dk)
  then show ?case by (simp add: script_run_widget_inv widget_inv_upd)
qed (simp_all add: script_run_widget_inv new_session_def)

lemma reachable_widget_inv: "reachable s \<Longrightarrow> widget_inv (widgets s)"
proof (induction rule: reachable.induct)
  case (start dk)
  then show ?case by (simp add: script_run_widget_inv new_session_def)
next
  case (step s s')
  then show ?case by (blast intro: ui_step_widget_inv)
qed

lemma ui_step_run:
  "ui_step s s' \<Longrightarrow> widget_inv (widgets s) \<Longrightarrow> \<exists>dk s0. s' = script_run dk s0 \<and> widget_inv (widgets s0)"
proof (induction rule: ui_step.induct)
  case (choose s w opts v0 v dk)
  then have "widget_inv (widgets (s\<lparr>widgets := (widgets s)(w \<mapsto> (opts, v))\<rparr>))"
    by (simp add: widget_inv_upd)
  then show ?case by blast
next
  case (reload s dk)
  then show ?case by (fastforce simp: new_session_def)
qed blast

lemma reachable_run: "reachable s \<Longrightarrow> \<exists>dk s0. s = script_run dk s0 \<and> widget_inv (widgets s0)"
proof (induction rule: reachable.induct)
  case (start dk)
  then show ?case by (fastforce simp: new_session_def)
next
  case (step s s')
  then show ?case using ui_step_run reachable_widget_inv by blast
qed

text \<open>The widgets a run showed are in the state it leaves, with the values shown; the
  state holds besides only what the session had before.\<close>

lemma script_run_shown_widgets:
  "widgets_of (shown (script_run dk s)) x = Some y \<Longrightarrow> widgets (script_run dk s) x = Some y"
  by (simp add: script_run_fields(3) kept_widgets_def map_add_def split: sum.split)

lemma script_run_kept_widgets:
  "widgets (script_run dk s) x = Some y \<Longrightarrow> widgets_of (shown (script_run dk s)) x = Some y \<or> widgets s x = Some y"
  by (auto simp: script_run_fields(3) kept_widgets_def map_add_Some_iff split: sum.splits)

text \<open>A run that showed the sidebar had its tables from the cache's point of view: the
  load succeeded, the tables are cached and their analysis succeeded.\<close>

lemma script_run_radio:
  assumes "widgets_of (shown (script_run dk s)) ''Go to'' = Some (opts, v)"
  shows "opts = page_options \<and> (\<exists>t d. cache (script_run dk s) = Some t \<and> analyse t = Inr d)"
proof -
  obtain loaded c' where ld: "cached_load_data (cache s) (csv_files dk) = (loaded, c')" by fastforce
  have no_radio: "widgets_of page_setup ''Go to'' = None" by (simp add: page_setup_def)
  obtain t where t: "loaded = Inr t"
    using assms no_radio by (cases loaded) (simp_all add: script_run_fields ld app_run_simps run_images_ok)
  obtain d where d: "analyse t = Inr d"
    using assms no_radio by (cases "analyse t") (simp_all add: script_run_fields ld t app_run_simps run_images_ok)
  have "opts = page_options"
    using assms by (simp add: script_run_analysed [of s dk t d] ld t d widgets_of_append
                              sidebar_def page_setup_def map_add_def)
  moreover have "cache (script_run dk s) = Some t"
    using ld t cached_load_data_Inr by (simp add: script_run_fields)
  ultimately show ?thesis using d by blast
qed

lemma script_run_radio_cache:
  assumes "widgets (script_run dk s) ''Go to'' = Some y"
    and "\<And>y. widgets s ''Go to'' = Some y \<Longrightarrow> \<exists>t d. cache s = Some t \<and> analyse t = Inr d"
  shows "\<exists>t d. cache (script_run dk s) = Some t \<and> analyse t = Inr d"
  using script_run_kept_widgets [OF assms(1)]
proof
  assume "widgets_of (shown (script_run dk s)) ''Go to'' = Some y"
  then show ?thesis using script_run_radio by (cases y) blast
next
  assume "widgets s ''Go to'' = Some y"
  then show ?thesis using assms(2) script_run_cached by blast
qed

text \<open>A session that remembers the sidebar radio has analysed tables in its cache.\<close>

lemma reachable_radio:
  "reachable s \<Longrightarrow> widgets s ''Go to'' = Some y \<Longrightarrow> \<exists>t d. cache s = Some t \<and> analyse t = Inr d"
proof (induction arbitrary: y rule: reachable.induct)
  case (start dk)
  then show ?case by (rule script_run_radio_cache) (simp add: new_session_def)
next
  case (step s s')
  from step.hyps(2) show ?case
  proof (cases rule: ui_step.cases)
    case (choose w opts v0 v dk)
    let ?s1 = "s\<lparr>widgets := (widgets s)(w \<mapsto> (opts, v))\<rparr>"
    have h: "\<exists>t d. cache ?s1 = Some t \<and> analyse t = Inr d" if "widgets ?s1 ''Go to'' = Some y'" for y'
    proof (cases "w = ''Go to''")
      case True
      obtain dk' s0 where "s = script_run dk' s0" using reachable_run [OF step.hyps(1)] by blast
      then have "widgets s ''Go to'' = Some (opts, v0)"
        using choose(2) True script_run_shown_widgets by blast
      then show ?thesis using step.IH by simp
    next
      case False
      then show ?thesis using that step.IH by simp
    qed
    show ?thesis using step.prems unfolding choose(1) by (rule script_run_radio_cache) (rule h)
  next
    case (rerun dk)
    show ?thesis using step.prems unfolding rerun by (rule script_run_radio_cache) (rule step.IH)
  next
    case (reload dk)
    show ?thesis using step.prems unfolding reload
      by (rule script_run_radio_cache) (simp add: new_session_def)
  qed
qed

lemma widgets_of_run_images_None:
  "widgets_of (fst m) x = None \<Longrightarrow> widgets_of (fst (run_images imgs m)) x = None"
  using widgets_of_append [of "takeWhile (image_ok imgs) (fst m)" "dropWhile (image_ok imgs) (fst m)"]
  by (simp add: run_images_def)

lemma labels_distinct:
  "home_label \<notin> set measure_pages" "product_label \<notin> set measure_pages" "product_label \<noteq> home_label"
  by (simp_all add: measure_pages_def home_label_def revenue_label_def margin_label_def
                    quantity_label_def product_label_def house_def money_bag_def chart_up_def
                    package_def bar_chart_def)

lemma render_page_ends:
  assumes "page \<in> set page_options"
  shows "ends_with logo_footer (render_page ws page d)"
proof (cases "page = product_label")
  case True
  then show ?thesis by (simp add: render_page_def ends_sthen pages_end_with_logo)
next
  case False
  then have "page = home_label \<or> page \<in> set measure_pages"
    using assms by (auto simp: page_options_def measure_pages_def)
  then show ?thesis
    using False by (auto simp: render_page_def sthen_emits_Nil pages_end_with_logo)
qed

subsection \<open>Properties of the sessions\<close>

text \<open>C14: In every session a user can bring about, the per-product page's lookup
  \<open>column_map[selected_metric]\<close> succeeds: the select box only ever returns one of its
  three options, and each is a key of \<open>column_map\<close>, so the \<open>KeyError\<close> the code does not
  guard against cannot happen.\<close>

theorem metric_lookup_safe:
  assumes "reachable s"
  shows "\<exists>col. dict_get column_map (widget_value (widgets s) metric_label metric_options) = Inr col"
proof -
  have "widget_value (widgets s) metric_label metric_options \<in> set metric_options"
    using reachable_widget_inv [OF assms] by (rule widget_value_mem) (simp add: metric_options_def)
  then show ?thesis by (auto simp: metric_options_def column_map_def dict_get_def)
qed

text \<open>C15: In every reachable session the next run renders exactly one page body, the one
  the radio names: the conditions of lines 113, 163 and 232 select the home page for Home,
  the measure page for Revenue, Margin and Quantity, and the per-product page otherwise,
  never two bodies and never none.\<close>

theorem reachable_page_dispatch:
  assumes "reachable s"
  shows "(let p = widget_value (widgets s) ''Go to'' page_options in
           render_page (widgets s) p d =
             (if p = home_label then home_page d
              else if p \<in> set measure_pages then detail_page p d
              else product_page (widgets s) (data d)))"
proof -
  let ?p = "widget_value (widgets s) ''Go to'' page_options"
  have "?p \<in> set page_options"
    using reachable_widget_inv [OF assms] page_options_ne by (rule widget_value_mem)
  then have "?p = home_label \<or> ?p \<in> set measure_pages \<or> ?p = product_label"
    by (auto simp: page_options_def measure_pages_def)
  then show ?thesis
    unfolding render_page_def Let_def using labels_distinct
    by (auto simp: sthen_emits_Nil)
qed

text \<open>C17: Navigation cannot get stuck: from every reachable session that remembers the
  sidebar, one action of the user brings up a run whose sidebar shows any chosen page
  selected, whatever the files on disk are then.\<close>

theorem navigation_live:
  assumes "reachable s" "widgets s ''Go to'' \<noteq> None" "p \<in> set page_options"
  shows "\<exists>s'. ui_step s s' \<and> Radio ''Go to'' page_options p \<in> set (shown s')"
proof -
  obtain dk0 s0 where s: "s = script_run dk0 s0" using reachable_run [OF assms(1)] by blast
  obtain t d where t: "cache s = Some t" and d: "analyse t = Inr d"
    using reachable_radio [OF assms(1)] assms(2) by blast
  have ld: "fst (cached_load_data (cache s0) (csv_files dk0)) = Inr t"
    using t unfolding s script_run_fields(4) by (rule cached_load_data_cache_Some)
  let ?v = "widget_value (widgets s0) ''Go to'' page_options"
  have sh: "widgets_of (shown s) ''Go to'' = Some (page_options, ?v)"
    unfolding s script_run_analysed(1) [OF ld d]
    by (simp add: widgets_of_append sidebar_def page_setup_def map_add_def)
  fix dk
  let ?s1 = "s\<lparr>widgets := (widgets s)(''Go to'' \<mapsto> (page_options, p))\<rparr>"
  have step: "ui_step s (script_run dk ?s1)"
    using sh assms(3) by (rule ui_step.choose)
  have "fst (cached_load_data (cache ?s1) (csv_files dk)) = Inr t" using t by simp
  then have "Radio ''Go to'' page_options p \<in> set (shown (script_run dk ?s1))"
    by (simp add: script_run_analysed(1) [OF _ d] widget_value_def sidebar_def)
  with step show ?thesis by blast
qed

text \<open>C18: The cache pins the tables for the life of the server process: once tables that
  load but fail the analysis (say a text cell in a sum column) are cached, every later run,
  whatever the user does (rerun, reload the tab, choose a page) and whatever the files on
  disk become, fails with the same error.\<close>

theorem cached_error_persists:
  assumes "cache s = Some t" "analyse t = Inl e" "ui_step\<^sup>+\<^sup>+ s s'"
  shows "cache s' = Some t \<and> outcome s' = Inl e"
proof -
  have run: "cache (script_run dk s0) = Some t \<and> outcome (script_run dk s0) = Inl e"
    if "cache s0 = Some t" for dk s0
    using that assms(2) by (simp add: model_simps)
  have one: "cache s2 = Some t \<and> outcome s2 = Inl e" if "ui_step s1 s2" "cache s1 = Some t" for s1 s2
    using that by (cases rule: ui_step.cases) (simp_all add: run)
  from assms(3) show ?thesis
  proof (induction rule: tranclp_induct)
    case (base y)
    then show ?case using one assms(1) by blast
  next
    case (step y z)
    then show ?case using one by blast
  qed
qed

text \<open>C22: Every run a user sees starts with \<open>st.set_page_config\<close>, and no other
  element of the run configures the page, as Streamlit requires.\<close>

theorem page_config_first:
  assumes "reachable s"
  shows "\<exists>rest. shown s = PageConfig ''wide'' ''Price Sensitivity Dashboard'' # rest \<and>
           list_all (\<lambda>e. \<forall>l t. e \<noteq> PageConfig l t) rest"
proof -
  obtain dk s0 where s: "s = script_run dk s0" and inv: "widget_inv (widgets s0)"
    using reachable_run [OF assms] by blast
  have body: "list_all (\<lambda>e. \<forall>l t. e \<noteq> PageConfig l t) (fst (run_images imgs (render_page (widgets s0) p d)))"
    for imgs p d
    using render_page_elems [OF inv, of p d]
    by (intro list_all_run_images) (auto simp: list_all_iff elim!: page_elem.elims)
  show ?thesis
  proof (cases "fst (cached_load_data (cache s0) (csv_files dk))")
    case (Inr t)
    show ?thesis
    proof (cases "analyse t")
      case (Inr d)
      show ?thesis using body unfolding s script_run_analysed(1) [OF \<open>_ = Inr t\<close> Inr]
        by (simp add: page_setup_def sidebar_def)
    qed (simp add: s script_run_fields Inr app_run_simps run_images_ok page_setup_def)
  qed (simp add: s script_run_fields app_run_simps run_images_ok page_setup_def)
qed

text \<open>C23: The metric choice does not survive a visit to another page: after any run
  that shows a page other than the per-product page and completes, the select box returns
  its first option, Total Revenue, whatever the user had chosen before.\<close>

theorem metric_selection_reset:
  assumes "widget_value (widgets s) ''Go to'' page_options \<noteq> product_label"
    and "outcome (script_run dk s) = Inr ()"
  shows "widget_value (widgets (script_run dk s)) metric_label metric_options = ''Total Revenue''"
proof -
  let ?out = "app_run (widgets s) (fst (cached_load_data (cache s) (csv_files dk)))"
  have "run_images (image_files dk) ?out = ?out"
    using assms(2) by (intro run_images_Inr) (simp add: script_run_fields)
  then show ?thesis using app_run_metric_state [OF assms(1)] assms(2)
    by (simp add: script_run_fields kept_widgets_def widget_value_def metric_options_def)
qed


text \<open>C19: A failed load is not cached (\<open>st.cache_data\<close> stores only returned values): a
  run over a disk that misses a CSV file writes the page setup, raises the loader's error
  and leaves the cache empty, so the next run reads the files afresh and a corrected
  file is picked up.\<close>

theorem load_error_not_cached:
  assumes "cache s = None" "load_data (csv_files dk) = Inl e"
  shows "outcome (script_run dk s) = Inl e \<and> shown (script_run dk s) = page_setup \<and>
         cache (script_run dk s) = None"
  using assms by (simp add: model_simps)

end
