(* ===== verification/Conformance.thy ===== *)
theory Conformance
  imports Session
begin

text \<open>
  Runs over data that conforms to the data model of the specification (section 3: the
  measure tables with their grouping columns and six numeric columns, the product table
  with \<open>ProductId\<close>, \<open>StrategyBoxName\<close> and the three Test 25 metric columns). The
  predicates below state that model on the loaded tables; the lemmas follow each
  operation of \<open>src/app.py\<close> a page calls (sums, means, the rounding loop,
  \<open>create_bar_chart\<close>, \<open>nlargest\<close>, the Plotly calls) and show that none of them
  raises on such tables, and the rules \<open>completes_intros\<close> compose them into the pages
  and the whole script. The only exceptions a user can then meet are the loader's
  (a missing file), as the error taxonomy of the specification says; a zero Test 2024
  total is no exception in the code, since NumPy's division yields inf or NaN. The last
  properties follow two values from the data to the page: the Quantity totals, shown
  at two precisions, and a zero Test 2024 total, shown as \<open>inf%\<close>.
\<close>

subsection \<open>The data model\<close>

text \<open>A column that exists under exactly one label and has a numeric dtype: it has
  rows and holds no text.\<close>

definition num_column :: "frame \<Rightarrow> label \<Rightarrow> bool" where
  "num_column df c = (case get_column df c of Inr s \<Rightarrow> \<not> object_column s | Inl _ \<Rightarrow> False)"

definition measure_num_cols :: "label list" where
  "measure_num_cols = [''Test 2025'', ''Test 2024'', ''Control 2025'', ''Control 2024'',
                       ''%Change Test'', ''%Change Control'']"

definition conforming_measure :: "frame \<Rightarrow> bool" where
  "conforming_measure df \<longleftrightarrow> length (cols df) = length (vals df) \<and>
     list_all (num_column df) measure_num_cols \<and>
     ''Price change'' \<in> set (cols df) \<and> ''StrategyBoxName'' \<in> set (cols df)"

definition product_num_cols :: "label list" where
  "product_num_cols = [''Total Revenue Test 25'', ''Total Margin Test 25'', ''Quantity Test 25'']"

definition conforming_product :: "frame \<Rightarrow> bool" where
  "conforming_product df \<longleftrightarrow> list_all (num_column df) product_num_cols \<and>
     ''ProductId'' \<in> set (cols df) \<and> ''StrategyBoxName'' \<in> set (cols df)"

definition conforming_tables :: "tables \<Rightarrow> bool" where
  "conforming_tables t \<longleftrightarrow> conforming_measure (revenue_df t) \<and> conforming_measure (margin_df t) \<and>
     conforming_measure (quantity_df t) \<and> conforming_product (product_df t)"


subsection \<open>The operations on numeric columns\<close>

lemma num_column_rows: "num_column df c \<Longrightarrow> \<exists>s. get_column df c = Inr s \<and> \<not> list_ex is_text s \<and> s \<noteq> []"
  by (auto simp: num_column_def object_column_def split: sum.splits)

lemma num_column_Inr: "num_column df c \<Longrightarrow> \<exists>s. get_column df c = Inr s \<and> \<not> list_ex is_text s"
  using num_column_rows by blast

lemma num_column_cols: "num_column df c \<Longrightarrow> c \<in> set (cols df)"
  using num_column_Inr get_column_Inr_mem by blast

lemma conforming_measure_num:
  "conforming_measure df \<Longrightarrow> c \<in> set measure_num_cols \<Longrightarrow> num_column df c"
  by (simp add: conforming_measure_def list_all_iff)

lemma conforming_product_num:
  "conforming_product df \<Longrightarrow> c \<in> set product_num_cols \<Longrightarrow> num_column df c"
  by (simp add: conforming_product_def list_all_iff)

lemma column_total_num: "num_column df c \<Longrightarrow> \<exists>x. column_total df c = Inr x"
  by (auto simp: column_total_def series_sum_num dest!: num_column_Inr)

lemma column_mean_num: "num_column df c \<Longrightarrow> \<exists>x. column_mean df c = Inr x"
  by (auto simp: column_mean_def series_mean_num dest!: num_column_Inr)

lemma test_pct_of_num:
  "num_column df ''Test 2025'' \<Longrightarrow> num_column df ''Test 2024'' \<Longrightarrow> \<exists>v. test_pct_of df = Inr v"
proof -
  assume "num_column df ''Test 2025''" "num_column df ''Test 2024''"
  then obtain s25 s24 where "get_column df ''Test 2025'' = Inr s25" "\<not> list_ex is_text s25" "s25 \<noteq> []"
    "get_column df ''Test 2024'' = Inr s24" "\<not> list_ex is_text s24"
    by (blast dest: num_column_rows)
  then show ?thesis
    unfolding test_pct_of_def compute_percentage_change_once by (simp add: series_sum_num)
qed

lemma performance_difference_num:
  "num_column df ''%Change Control'' \<Longrightarrow> \<exists>v. performance_difference df p = Inr v"
proof -
  assume "num_column df ''%Change Control''"
  then obtain s where "get_column df ''%Change Control'' = Inr s" "\<not> list_ex is_text s"
    by (blast dest: num_column_Inr)
  then show ?thesis
    unfolding performance_difference_def by (simp only: series_mean_num ebind_Inr not_False_eq_True) blast
qed

lemma round_column_num: "num_column df c \<Longrightarrow> \<exists>df'. round_column c df = Inr df'"
  by (auto simp: round_column_Inr dest!: num_column_Inr)

lemma cols_round_column: "round_column c df = Inr df' \<Longrightarrow> cols df' = cols df"
  by (auto simp: round_column_eq_Inr cols_set_column_mem get_column_Inr_mem)

lemma num_column_round_column:
  "round_column c df = Inr df' \<Longrightarrow> length (cols df) = length (vals df) \<Longrightarrow>
     num_column df' c' = num_column df c'"
  by (auto simp: num_column_def object_column_def get_column_round_column emap_def split: sum.splits)

lemma conforming_measure_round_column:
  "round_column c df = Inr df' \<Longrightarrow> conforming_measure df \<Longrightarrow> conforming_measure df'"
proof -
  assume r: "round_column c df = Inr df'" and df: "conforming_measure df"
  then have "length (cols df') = length (vals df')" "num_column df' = num_column df"
    using round_column_lengths num_column_round_column by (auto simp: conforming_measure_def)
  with r df show ?thesis by (simp add: conforming_measure_def cols_round_column)
qed

lemma round_change_columns_conforming:
  assumes "conforming_measure df"
  shows "\<exists>df'. round_change_columns df = Inr df' \<and> conforming_measure df'"
proof -
  obtain df1 where 1: "round_column ''%Change Test'' df = Inr df1"
    using round_column_num conforming_measure_num [OF assms] by (force simp: measure_num_cols_def)
  have c1: "conforming_measure df1" using 1 assms by (rule conforming_measure_round_column)
  obtain df2 where 2: "round_column ''%Change Control'' df1 = Inr df2"
    using round_column_num conforming_measure_num [OF c1] by (force simp: measure_num_cols_def)
  have "conforming_measure df2" using 2 c1 by (rule conforming_measure_round_column)
  with 1 2 show ?thesis by (simp add: round_change_columns_def)
qed

lemma conforming_measure_analysis:
  assumes "conforming_measure df"
  obtains p df' q where "test_pct_of df = Inr p" "round_change_columns df = Inr df'"
    "conforming_measure df'" "performance_difference df' p = Inr q"
proof -
  obtain p where p: "test_pct_of df = Inr p"
    using test_pct_of_num conforming_measure_num [OF assms] by (force simp: measure_num_cols_def)
  obtain df' where df': "round_change_columns df = Inr df'" "conforming_measure df'"
    using round_change_columns_conforming [OF assms] by blast
  obtain q where "performance_difference df' p = Inr q"
    using performance_difference_num conforming_measure_num [OF df'(2)] by (force simp: measure_num_cols_def)
  with p df' that show ?thesis by blast
qed

text \<open>The computation of lines 74--89 succeeds on conforming tables and leaves the tables
  conforming.\<close>

lemma analyse_conforming:
  assumes "conforming_tables t"
  shows "\<exists>d. analyse t = Inr d \<and> conforming_tables (data d)"
proof -
  obtain rp r rq where r: "test_pct_of (revenue_df t) = Inr rp" "round_change_columns (revenue_df t) = Inr r"
    "conforming_measure r" "performance_difference r rp = Inr rq"
    using assms by (auto simp: conforming_tables_def elim: conforming_measure_analysis)
  obtain mp m mq where m: "test_pct_of (margin_df t) = Inr mp" "round_change_columns (margin_df t) = Inr m"
    "conforming_measure m" "performance_difference m mp = Inr mq"
    using assms by (auto simp: conforming_tables_def elim: conforming_measure_analysis)
  obtain qp q qq where q: "test_pct_of (quantity_df t) = Inr qp" "round_change_columns (quantity_df t) = Inr q"
    "conforming_measure q" "performance_difference q qp = Inr qq"
    using assms by (auto simp: conforming_tables_def elim: conforming_measure_analysis)
  show ?thesis using r m q assms by (simp add: analyse_def conforming_tables_def)
qed

subsection \<open>The pages on conforming tables\<close>

lemma create_bar_chart_conforming:
  assumes "conforming_measure df" "c \<in> set measure_num_cols"
  shows "\<exists>fig. create_bar_chart df c title = Inr fig"
proof -
  obtain s where s: "get_column df c = Inr s" "\<not> list_ex is_text s"
    using num_column_Inr conforming_measure_num [OF assms] by blast
  have "cols (set_column df c (map (round_cell 2) s)) = cols df"
    using s(1) by (simp add: cols_set_column_mem get_column_Inr_mem)
  then have "missing_column (set_column df c (map (round_cell 2) s))
               ([''Price change'', c] @ text_columns (TextSeries (map (round_cell 2) s) ''%'') @
                color_columns (Some ''StrategyBoxName'')) = None"
    using assms(1) s(1) by (simp add: missing_column_None conforming_measure_def text_columns_def
                                      color_columns_def get_column_Inr_mem)
  with assms(1) s show ?thesis
    by (simp add: create_bar_chart_Inr_round conforming_measure_def px_bar_Inr)
qed

lemma home_column_completes:
  "conforming_measure df \<Longrightarrow> completes (home_column heading cur p df test_pct perf_diff)"
  unfolding home_column_def
  by (intro completes_intros column_total_num column_mean_num conforming_measure_num)
     (simp_all add: measure_num_cols_def)

lemma home_page_completes: "conforming_tables (data d) \<Longrightarrow> completes (home_page d)"
  unfolding home_page_def conforming_tables_def
  by (intro completes_intros home_column_completes) simp_all

lemma detail_totals_completes:
  "conforming_measure df \<Longrightarrow> c25 \<in> set measure_num_cols \<Longrightarrow> c24 \<in> set measure_num_cols \<Longrightarrow>
     completes (detail_totals df heading cur c25 c24)"
  unfolding detail_totals_def
  by (intro completes_intros column_total_num conforming_measure_num)

lemma select_measure_conforming:
  "conforming_tables (data d) \<Longrightarrow> conforming_measure (fst (select_measure name d))"
  by (simp add: select_measure_def conforming_tables_def)

lemma measure_of_pages: "page \<in> set measure_pages \<Longrightarrow> \<exists>name. measure_of page = Inr name"
  by (auto simp: measure_pages_def revenue_label_def margin_label_def quantity_label_def
                 money_bag_def chart_up_def package_def measure_of_def py_split_def is_py_space_def)

lemma detail_page_completes:
  assumes "page \<in> set measure_pages" "conforming_tables (data d)"
  shows "completes (detail_page page d)"
proof -
  have sm: "conforming_measure (fst (select_measure name d))" for name
    using assms(2) by (rule select_measure_conforming)
  show ?thesis
    unfolding detail_page_def Let_def prod.case_eq_if
    by (intro completes_intros measure_of_pages [OF assms(1)] detail_totals_completes sm
          column_mean_num conforming_measure_num create_bar_chart_conforming)
       (simp_all add: measure_num_cols_def)
qed

text \<open>What the per-product page calls succeeds on a conforming product table, whichever
  metric a consistent widget state selects.\<close>

lemma product_page_parts:
  assumes "widget_inv ws" "conforming_product df"
  obtains col top where "describe df = Inr df"
    "dict_get column_map (widget_value ws metric_label metric_options) = Inr col"
    "nlargest 10 col df = Inr top"
    "missing_column top ([''ProductId'', col] @ text_columns (TextColumn col) @ color_columns None) = None"
    "missing_column df ([''Total Revenue Test 25'', ''Total Margin Test 25''] @ [''ProductId''] @
                        color_columns (Some ''StrategyBoxName'')) = None"
proof -
  have "widget_value ws metric_label metric_options \<in> set metric_options"
    using assms(1) by (rule widget_value_mem) (simp add: metric_options_def)
  then obtain col where col: "dict_get column_map (widget_value ws metric_label metric_options) = Inr col"
    "col \<in> set product_num_cols"
    by (auto simp: metric_options_def column_map_def dict_get_def product_num_cols_def)
  obtain s where s: "get_column df col = Inr s" "\<not> list_ex is_text s" "s \<noteq> []"
    using num_column_rows conforming_product_num [OF assms(2) col(2)] by blast
  have top: "nlargest 10 col df = Inr (take_rows (nlargest_index 10 s) df)"
    using s by (simp add: nlargest_def object_column_def)
  have metrics: "''Total Revenue Test 25'' \<in> set (cols df)" "''Total Margin Test 25'' \<in> set (cols df)"
    using num_column_cols conforming_product_num [OF assms(2)] by (simp_all add: product_num_cols_def)
  show ?thesis
  proof (rule that [OF _ col(1) top])
    show "describe df = Inr df"
      using assms(2) by (auto simp: describe_def conforming_product_def)
    show "missing_column (take_rows (nlargest_index 10 s) df)
            ([''ProductId'', col] @ text_columns (TextColumn col) @ color_columns None) = None"
      using assms(2) s(1) by (simp add: missing_column_None take_rows_def text_columns_def
                                        color_columns_def conforming_product_def get_column_Inr_mem)
    show "missing_column df ([''Total Revenue Test 25'', ''Total Margin Test 25''] @ [''ProductId''] @
            color_columns (Some ''StrategyBoxName'')) = None"
      using assms(2) metrics by (simp add: missing_column_None color_columns_def conforming_product_def)
  qed
qed

lemma render_page_completes:
  assumes "widget_inv ws" "conforming_tables (data d)"
  shows "completes (render_page ws page d)"
proof -
  obtain col top where parts: "describe (product_df (data d)) = Inr (product_df (data d))"
    "dict_get column_map (widget_value ws metric_label metric_options) = Inr col"
    "nlargest 10 col (product_df (data d)) = Inr top"
    "missing_column top ([''ProductId'', col] @ text_columns (TextColumn col) @ color_columns None) = None"
    "missing_column (product_df (data d))
       ([''Total Revenue Test 25'', ''Total Margin Test 25''] @ [''ProductId''] @
        color_columns (Some ''StrategyBoxName'')) = None"
    using product_page_parts [OF assms(1)] assms(2) by (auto simp: conforming_tables_def)
  then have "completes (product_page ws (data d))"
    by (simp add: completes_unit product_page_def Let_def px_bar_def px_scatter_def snd_sthen snd_sbind emits_def)
  then show ?thesis
    unfolding render_page_def
    by (intro completes_intros home_page_completes detail_page_completes assms(2))
qed

lemma app_run_completes:
  assumes "widget_inv ws" "conforming_tables t"
  shows "snd (app_run ws (Inr t)) = Inr ()"
proof -
  obtain d where d: "analyse t = Inr d" "conforming_tables (data d)"
    using analyse_conforming [OF assms(2)] by blast
  then show ?thesis
    using render_page_completes [OF assms(1) d(2)]
    by (simp add: app_run_def Let_def completes_unit)
qed

lemma fst_sthen_mem: "x \<in> set (fst m) \<Longrightarrow> x \<in> set (fst (sthen m k))"
  by (simp add: sthen_def fst_sbind)

lemma home_page_quantity_column:
  assumes "conforming_tables (data d)"
  shows "InColumn 2 (fst (home_column (''### '' @ package @ '' Total Quantity'') [] 0
            (quantity_df (data d)) (quantity_test_pct d) (quantity_perf_diff d))) \<in> set (fst (home_page d))"
proof -
  have "snd (home_column h cur p df tp pd) = Inr ()" if "conforming_measure df" for h cur p df tp pd
    using home_column_completes [OF that] by (simp add: completes_unit)
  then have "snd (home_column h cur p (revenue_df (data d)) tp pd) = Inr ()"
    "snd (home_column h cur p (margin_df (data d)) tp pd) = Inr ()" for h cur p tp pd
    using assms by (simp_all add: conforming_tables_def)
  then show ?thesis
    by (simp add: home_page_def sthen_def fst_sbind emits_def del: fmt_fixed.simps)
qed


lemma home_page_revenue_column:
  "InColumn 0 (fst (home_column (''### '' @ money_bag @ '' Total Revenue'') euro 2
      (revenue_df (data d)) (revenue_test_pct d) (revenue_perf_diff d))) \<in> set (fst (home_page d))"
  unfolding home_page_def sthen_emits fst_conv set_append Un_iff
  by (rule disjI2, rule fst_sthen_mem) simp

lemma home_column_verdict:
  assumes "conforming_measure df"
  shows "Metric ''Test % Change'' (pct test_pct) \<in> set (fst (home_column heading cur p df test_pct perf_diff)) \<and>
         Markdown (''**'' @ performance_arrow perf_diff @ ''**'') \<in>
           set (fst (home_column heading cur p df test_pct perf_diff))"
proof -
  have n: "num_column df c" if "c \<in> set measure_num_cols" for c
    using assms that by (rule conforming_measure_num)
  obtain a b c e m where "column_total df ''Test 2025'' = Inr a" "column_total df ''Test 2024'' = Inr b"
    "column_total df ''Control 2025'' = Inr c" "column_total df ''Control 2024'' = Inr e"
    "column_mean df ''%Change Control'' = Inr m"
    using column_total_num column_mean_num n unfolding measure_num_cols_def by (meson list.set_intros)
  then show ?thesis by (simp add: home_column_def emits_def sthen_def del: fmt_fixed.simps)
qed

lemma analyse_revenue:
  assumes "analyse t = Inr d"
  shows "test_pct_of (revenue_df t) = Inr (revenue_test_pct d) \<and>
         round_change_columns (revenue_df t) = Inr (revenue_df (data d)) \<and>
         performance_difference (revenue_df (data d)) (revenue_test_pct d) = Inr (revenue_perf_diff d)"
  using assms unfolding analyse_def by (simp only: ebind_eq_Inr_iff) auto

subsection \<open>Properties of runs on conforming data\<close>

text \<open>C26: The per-product page never raises on a product table of the specified shape
  when \<open>logo.png\<close> is on disk: whichever metric the select box returns from a consistent
  widget state, the lookup in \<open>column_map\<close>, \<open>describe\<close>, \<open>nlargest(10, ...)\<close>, both
  Plotly calls and \<open>st.image\<close> succeed, and the page runs to its end.\<close>

theorem product_page_completes:
  assumes "widget_inv ws" "conforming_product (product_df t)" "''logo.png'' \<in> imgs"
  shows "snd (run_images imgs (product_page ws t)) = Inr ()"
proof -
  obtain col top where "describe (product_df t) = Inr (product_df t)"
    "dict_get column_map (widget_value ws metric_label metric_options) = Inr col"
    "nlargest 10 col (product_df t) = Inr top"
    "missing_column top ([''ProductId'', col] @ text_columns (TextColumn col) @ color_columns None) = None"
    "missing_column (product_df t)
       ([''Total Revenue Test 25'', ''Total Margin Test 25''] @ [''ProductId''] @
        color_columns (Some ''StrategyBoxName'')) = None"
    using product_page_parts [OF assms(1,2)] .
  then have "snd (product_page ws t) = Inr ()"
    by (simp add: product_page_def Let_def px_bar_def px_scatter_def snd_sthen snd_sbind emits_def)
  moreover have "list_all logo_only (fst (product_page ws t))"
    unfolding product_page_def logo_footer_def Let_def by (intro run_elems) simp_all
  ultimately show ?thesis using logo_image_ok [OF assms(3)] by (simp add: run_images_id)
qed

text \<open>C27: On data of the specified shape the dashboard never crashes: in every session a
  user can bring about whose cache holds tables conforming to the data model, the next run
  of the script, whichever page it shows, ends without an exception as long as
  \<open>logo.png\<close> is on disk. In particular a zero Test 2024 total with rows, the spec's
  case (b), does not raise.\<close>

theorem conforming_session_completes:
  assumes "reachable s" "cache s = Some t" "conforming_tables t" "''logo.png'' \<in> image_files dk"
  shows "outcome (script_run dk s) = Inr ()"
proof -
  have "snd (app_run (widgets s) (Inr t)) = Inr ()"
    using app_run_completes [OF reachable_widget_inv [OF assms(1)] assms(3)] .
  moreover have "list_all (image_ok (image_files dk)) (fst (app_run (widgets s) (Inr t)))"
    using logo_image_ok [OF assms(4) app_run_logo_only] .
  ultimately show ?thesis by (simp add: script_run_fields assms(2) run_images_id)
qed

text \<open>C28: The logo is a file the dashboard needs: when \<open>logo.png\<close> is missing, every
  run over tables of the specified shape raises \<open>st.image\<close>'s error, whichever page it
  shows, because each page (lines 159, 228 and 287) ends with the logo. The page's
  content before the logo is written.\<close>

theorem missing_logo_fails:
  assumes "reachable s" "cache s = Some t" "conforming_tables t" "''logo.png'' \<notin> image_files dk"
  shows "outcome (script_run dk s) = Inl (MediaFileStorageError ''logo.png'')"
proof -
  obtain d where d: "analyse t = Inr d" "conforming_tables (data d)"
    using analyse_conforming [OF assms(3)] by blast
  have ld: "fst (cached_load_data (cache s) (csv_files dk)) = Inr t" by (simp add: assms(2))
  have inv: "widget_inv (widgets s)" using assms(1) by (rule reachable_widget_inv)
  let ?p = "widget_value (widgets s) ''Go to'' page_options"
  have p: "?p \<in> set page_options" using inv page_options_ne by (rule widget_value_mem)
  have c: "snd (render_page (widgets s) ?p d) = Inr ()"
    using render_page_completes [OF inv d(2)] by (simp add: completes_unit)
  have "Image ''logo.png'' 150 \<in> set (fst (render_page (widgets s) ?p d))"
    using render_page_ends [OF p] c by (rule ends_with_mem) (simp add: logo_footer_def)
  then have "snd (run_images (image_files dk) (render_page (widgets s) ?p d)) =
               Inl (MediaFileStorageError ''logo.png'')"
    using assms(4) render_page_logo_only by (intro run_images_logo_missing)
  then show ?thesis by (simp add: script_run_analysed(2) [OF ld d(1)])
qed

text \<open>C30: The Quantity totals are shown at two precisions: on conforming tables the Home
  page's Quantity column writes the Test 2025 total with \<open>,.0f\<close>, while the Quantity
  page writes the same total, and the 2024 one, with \<open>,.2f\<close> and no currency sign.\<close>

theorem quantity_precision:
  assumes "conforming_tables (data d)"
    and "column_total (quantity_df (data d)) ''Test 2025'' = Inr t25"
    and "column_total (quantity_df (data d)) ''Test 2024'' = Inr t24"
  shows "(\<exists>es. InColumn 2 es \<in> set (fst (home_page d)) \<and>
            Subheader (''Test 2025: '' @ fmt_fixed True 0 (Fin t25)) \<in> set es) \<and>
         InColumn 0 [Html (centered ''h3'' ''Quantity (Test)''), Html (centered ''h2'' (fmt_fixed True 2 (Fin t25))),
                     Html (centered ''h4'' (''2024: '' @ fmt_fixed True 2 (Fin t24)))]
           \<in> set (fst (detail_page quantity_label d))"
proof
  show "\<exists>es. InColumn 2 es \<in> set (fst (home_page d)) \<and>
          Subheader (''Test 2025: '' @ fmt_fixed True 0 (Fin t25)) \<in> set es"
  proof (intro exI conjI)
    show "Subheader (''Test 2025: '' @ fmt_fixed True 0 (Fin t25)) \<in>
            set (fst (home_column (''### '' @ package @ '' Total Quantity'') [] 0
                   (quantity_df (data d)) (quantity_test_pct d) (quantity_perf_diff d)))"
      using assms(2) by (simp add: home_column_def del: fmt_fixed.simps)
  qed (rule home_page_quantity_column [OF assms(1)])
  have "measure_of quantity_label = Inr ''Quantity''"
    by (simp add: quantity_label_def package_def measure_of_def py_split_def is_py_space_def)
  then show "InColumn 0 [Html (centered ''h3'' ''Quantity (Test)''), Html (centered ''h2'' (fmt_fixed True 2 (Fin t25))),
               Html (centered ''h4'' (''2024: '' @ fmt_fixed True 2 (Fin t24)))]
               \<in> set (fst (detail_page quantity_label d))"
  proof -
    have "fst (detail_totals (quantity_df (data d)) ''Quantity (Test)'' [] ''Test 2025'' ''Test 2024'') =
            [Html (centered ''h3'' ''Quantity (Test)''), Html (centered ''h2'' (fmt_fixed True 2 (Fin t25))),
             Html (centered ''h4'' (''2024: '' @ fmt_fixed True 2 (Fin t24)))]"
      using assms(2,3) by (simp add: detail_totals_def emits_def sthen_def del: fmt_fixed.simps)
    then show ?thesis
      using \<open>measure_of quantity_label = Inr ''Quantity''\<close>
      by (simp add: detail_page_def select_measure_def currency_symbol_def Let_def fst_sthen_mem
               del: fmt_fixed.simps)
  qed
qed

text \<open>C31: The spec's case (b) as the user sees it: when the revenue table of conforming
  tables has a zero Test 2024 total and a positive Test 2025 total, the computation of
  lines 74--89 does not raise, and the Home page's revenue
  column shows the Test change as \<open>inf%\<close> and, with a Control change column holding a
  number, the verdict "inf% better than Control".\<close>

theorem zero_base_home_display:
  assumes "conforming_tables t"
    and "get_column (revenue_df t) ''Test 2025'' = Inr s25" "0 < sum_list (nums s25)"
    and "get_column (revenue_df t) ''Test 2024'' = Inr s24" "sum_list (nums s24) = 0"
    and "get_column (revenue_df t) ''%Change Control'' = Inr sc" "nums sc \<noteq> []"
  shows "\<exists>d. analyse t = Inr d \<and>
           (\<exists>es. InColumn 0 es \<in> set (fst (home_page d)) \<and> Metric ''Test % Change'' ''inf%'' \<in> set es \<and>
                Markdown (''**'' @ better_icon @ ''inf% better than Control**'') \<in> set es)"
proof -
  obtain d where d: "analyse t = Inr d" using analyse_conforming [OF assms(1)] by blast
  have rev: "conforming_measure (revenue_df t)" using assms(1) by (simp add: conforming_tables_def)
  have nt: "\<not> list_ex is_text s25" "\<not> list_ex is_text s24" "\<not> list_ex is_text sc"
    using conforming_measure_num [OF rev, of "''Test 2025''"] conforming_measure_num [OF rev, of "''Test 2024''"]
          conforming_measure_num [OF rev, of "''%Change Control''"] assms(2,4,6)
    by (simp_all add: num_column_def object_column_def measure_num_cols_def)
  have an: "test_pct_of (revenue_df t) = Inr (revenue_test_pct d)"
    "round_change_columns (revenue_df t) = Inr (revenue_df (data d))"
    "performance_difference (revenue_df (data d)) (revenue_test_pct d) = Inr (revenue_perf_diff d)"
    using analyse_revenue [OF d] by blast+
  have "s25 \<noteq> []" using assms(3) by auto
  then have tp: "revenue_test_pct d = PosInf"
    using an(1) nt assms(2-5) by (simp add: test_pct_of_def compute_percentage_change_once series_sum_num)
  have r: "conforming_measure (revenue_df (data d))"
    using round_change_columns_conforming [OF rev] an(2) by auto
  have "get_column (revenue_df (data d)) ''%Change Control'' = Inr (map (round_cell 2) sc)"
    using get_column_round_change_columns [OF an(2)] rev assms(6) by (simp add: conforming_measure_def)
  then have pd: "revenue_perf_diff d = PosInf"
    using an(3) tp nt(3) assms(7)
    by (simp add: performance_difference_def series_mean_num mean_of_def fsub_def)
  have s: "pct PosInf = ''inf%''"
    "''**'' @ performance_arrow PosInf @ ''**'' = ''**'' @ better_icon @ ''inf% better than Control**''"
    by (simp_all add: pct_def performance_arrow_def)
  have "\<exists>es. InColumn 0 es \<in> set (fst (home_page d)) \<and> Metric ''Test % Change'' ''inf%'' \<in> set es \<and>
           Markdown (''**'' @ better_icon @ ''inf% better than Control**'') \<in> set es"
    using home_page_revenue_column [of d]
      home_column_verdict [OF r, of "revenue_test_pct d" "''### '' @ money_bag @ '' Total Revenue''" euro 2
                           "revenue_perf_diff d"]
    unfolding tp pd s by blast
  with d show ?thesis by blast
qed
end
