(* ===== verification/RoundingLoop.thy ===== *)
theory RoundingLoop
  imports Comparator "HOL-Library.While_Combinator"
begin

text \<open>
  The rounding loop of \<open>src/app.py\<close> (lines 81--84) as the loop it is:
  \<^verbatim>\<open>
  for df in [revenue_df, margin_df, quantity_df]:
      df["%Change Test"] = df["%Change Test"].round(2)
      df["%Change Control"] = df["%Change Control"].round(2)
  \<close>
  The list holds the three DataFrame objects themselves, not copies, and the body
  assigns into the object \<open>df\<close> refers to; the module-level names see the change
  because they refer to the same objects. The model makes this sharing explicit: a store
  maps object references to frames, the module-level names map to references, and the
  loop runs with \<open>while_option\<close> over the list of references, each step rewriting the
  store at one reference. \<open>round_all\<close> is the same iteration as a recursive function;
  \<open>analyse\<close> in \<open>Comparator\<close> writes the loop as three calls of
  \<open>round_change_columns\<close> and keeps the results under the three names, which the
  refinement theorem below justifies. \<open>rounding_loop_round_all\<close> shows that the loop
  stops on every list of references and every store, with the value \<open>round_all\<close>
  computes.
\<close>

subsection \<open>Objects, names and the loop\<close>

type_synonym ref = nat
type_synonym store = "ref \<Rightarrow> frame"

text \<open>The module-level names bound by line 70 and the four objects they refer to.\<close>

definition module_names :: "string \<rightharpoonup> ref" where
  "module_names = [''revenue_df'' \<mapsto> 0, ''margin_df'' \<mapsto> 1, ''quantity_df'' \<mapsto> 2, ''product_df'' \<mapsto> 3]"

definition store_of :: "tables \<Rightarrow> store" where
  "store_of t r = (if r = 0 then revenue_df t else if r = 1 then margin_df t
                   else if r = 2 then quantity_df t else product_df t)"

text \<open>The list expression \<open>[revenue_df, margin_df, quantity_df]\<close>: the references the
  three names hold.\<close>

definition loop_refs :: "ref list" where
  "loop_refs = map (\<lambda>n. the (module_names n)) [''revenue_df'', ''margin_df'', ''quantity_df'']"

text \<open>The loop body on the object \<open>r\<close>: two assignments into it, each reading the
  object as the previous one left it.\<close>

definition round_object :: "store \<Rightarrow> ref \<Rightarrow> store result" where
  "round_object h r =
     ebind (round_column ''%Change Test'' (h r)) (\<lambda>df1.
     let h1 = h(r := df1) in
     ebind (round_column ''%Change Control'' (h1 r)) (\<lambda>df2. Inr (h1(r := df2))))"

text \<open>The loop: its state is the references still to visit and the store, or the
  exception that stopped it.\<close>

definition loop_guard :: "(ref list \<times> store) result \<Rightarrow> bool" where
  "loop_guard st = (case st of Inr (r # _, _) \<Rightarrow> True | _ \<Rightarrow> False)"

definition loop_step :: "(ref list \<times> store) result \<Rightarrow> (ref list \<times> store) result" where
  "loop_step st = (case st of Inr (r # rs, h) \<Rightarrow> emap (\<lambda>h'. (rs, h')) (round_object h r) | _ \<Rightarrow> st)"

definition rounding_loop :: "ref list \<Rightarrow> store \<Rightarrow> store result option" where
  "rounding_loop rs h = map_option (emap snd) (while_option loop_guard loop_step (Inr (rs, h)))"

text \<open>The same iteration as structural recursion: the reference the loop is compared with.\<close>

fun round_all :: "ref list \<Rightarrow> store \<Rightarrow> store result" where
  "round_all [] h = Inr h"
| "round_all (r # rs) h = ebind (round_object h r) (round_all rs)"


subsection \<open>Lemmas\<close>

lemma while_loop_round_all:
  "while_option loop_guard loop_step (Inr (rs, h)) = Some (emap (Pair []) (round_all rs h))"
proof (induction rs arbitrary: h)
  case Nil
  then show ?case by (simp add: while_option_unfold [of _ _ "Inr ([], h)"] loop_guard_def)
next
  case (Cons r rs)
  show ?case
  proof (cases "round_object h r")
    case (Inl e)
    then show ?thesis
      by (simp add: while_option_unfold [of _ _ "Inr (r # rs, h)"] while_option_unfold [of _ _ "Inl e"]
                    loop_guard_def loop_step_def)
  next
    case (Inr h')
    then show ?thesis
      using Cons.IH [of h'] by (simp add: while_option_unfold [of _ _ "Inr (r # rs, h)"]
                    loop_guard_def loop_step_def)
  qed
qed

lemma rounding_loop_round_all: "rounding_loop rs h = Some (round_all rs h)"
  by (simp add: rounding_loop_def while_loop_round_all emap_def ebind_def split: sum.splits)

lemma store_of_update:
  "(store_of t)(0 := fr, 1 := fm, 2 := fq) =
     store_of (t\<lparr>revenue_df := fr, margin_df := fm, quantity_df := fq\<rparr>)"
  by (simp add: fun_eq_iff store_of_def)

subsection \<open>Properties of the loop\<close>

text \<open>C25: The loop over the objects refines the straight-line reading of \<open>analyse\<close>:
  run on the store of the loaded tables, it stops with the first exception of
  \<open>round_change_columns\<close> on the revenue, margin and quantity frames in that order, and
  otherwise leaves the store of the tables in which the three names refer to the rounded
  frames, the per-product frame untouched.\<close>

theorem rounding_loop_refines:
  "rounding_loop loop_refs (store_of t) =
     Some (ebind (round_change_columns (revenue_df t)) (\<lambda>fr.
           ebind (round_change_columns (margin_df t)) (\<lambda>fm.
           ebind (round_change_columns (quantity_df t)) (\<lambda>fq.
             Inr (store_of (t\<lparr>revenue_df := fr, margin_df := fm, quantity_df := fq\<rparr>))))))"
  by (simp add: rounding_loop_round_all loop_refs_def module_names_def round_object_def
                round_change_columns_def Let_def store_of_def [of t] store_of_update [symmetric]
                ebind_def split: sum.splits)

end
