(* ===== verification/Labels.thy ===== *)
theory Labels
  imports Pages
begin

text \<open>
  The text labels of \<open>create_bar_chart\<close> (\<open>src/app.py\<close>, line 109):
  \<open>df[column].astype(str) + '%'\<close> on the column just rounded to two decimals. The text
  \<open>astype(str)\<close> gives depends on the column's dtype, which \<open>pd.read_csv\<close> chooses from
  the file's text (int64 when every cell is an integer literal, float64 otherwise) and
  which a frame of rational cells does not record; the dtype is therefore a parameter
  here. For int64 a cell prints as \<open>str(int)\<close>; for float64 as \<open>repr(float)\<close>, the
  shortest text that reads back to the same double, and NaN as \<open>nan\<close>. A value with at
  most two decimals and fewer than fifteen significant digits is printed exactly as its
  decimal digits with trailing zeros of the fraction dropped, one kept (\<open>10.0\<close>,
  \<open>10.5\<close>, \<open>10.25\<close>); other values are outside the model (\<open>None\<close>), and so is the sign
  of a negative zero. The theorem shows that every bar's label reads back as the value
  the bar plots.
\<close>

subsection \<open>Definitions\<close>

datatype dtype = Int64 | Float64

text \<open>\<open>str(i)\<close> for a Python or NumPy integer.\<close>

definition int_repr :: "int \<Rightarrow> string" where
  "int_repr i = (if i < 0 then ''-'' else '''') @ show_nat (nat \<bar>i\<bar>)"

text \<open>The fraction of \<open>repr(float)\<close> for \<open>b\<close> hundredths: the two digits with a trailing
  zero dropped, one digit kept.\<close>

definition frac_digits :: "nat \<Rightarrow> string" where
  "frac_digits b = (if b mod 10 = 0 then [digit_char (b div 10)]
                    else [digit_char (b div 10), digit_char (b mod 10)])"

definition repr_hundredths :: "int \<Rightarrow> string" where
  "repr_hundredths k =
     (let n = nat \<bar>k\<bar> in (if k < 0 then ''-'' else '''') @ show_nat (n div 100) @ ''.'' @ frac_digits (n mod 100))"

text \<open>\<open>repr(x)\<close> for a float64 value, where the model determines it: \<open>x\<close> a whole number
  of hundredths with at most fifteen digits.\<close>

definition float_repr :: "rat \<Rightarrow> string option" where
  "float_repr x = (let k = \<lfloor>x * 100\<rfloor> in
     if of_int k = x * 100 \<and> \<bar>k\<bar> < 10 ^ 15 then Some (repr_hundredths k) else None)"

text \<open>\<open>Series.astype(str)\<close> on one cell of a column of the given dtype; \<open>None\<close> where the
  cell cannot occur in such a column or its text is outside the model.\<close>

fun astype_str :: "dtype \<Rightarrow> cell \<Rightarrow> string option" where
  "astype_str Float64 (CNum x) = float_repr x"
| "astype_str Float64 CNaN = Some ''nan''"
| "astype_str Int64 (CNum x) = (if of_int \<lfloor>x\<rfloor> = x then Some (int_repr \<lfloor>x\<rfloor>) else None)"
| "astype_str _ _ = None"

text \<open>The labels of a bar chart built with \<open>text=series.astype(str) + suffix\<close>.\<close>

definition series_labels :: "dtype \<Rightarrow> chart_text \<Rightarrow> string list option" where
  "series_labels dt t = (case t of TextSeries s suf \<Rightarrow> map_option (map (\<lambda>l. l @ suf)) (those (map (astype_str dt) s))
                                 | _ \<Rightarrow> None)"

text \<open>Reading a label back: \<open>nan\<close>, or a decimal with an optional sign.\<close>

definition read_decimal :: "string \<Rightarrow> rat" where
  "read_decimal s =
     (let neg = (take 1 s = ''-''); body = (if neg then drop 1 s else s);
          ip = takeWhile (\<lambda>c. c \<noteq> CHR ''.'') body;
          fp = drop 1 (dropWhile (\<lambda>c. c \<noteq> CHR ''.'') body);
          v = of_nat (read_nat ip) + of_nat (read_nat fp) / 10 ^ length fp
      in if neg then - v else v)"

definition read_label :: "string \<Rightarrow> cell" where
  "read_label s = (if s = ''nan'' then CNaN else CNum (read_decimal s))"

subsection \<open>Reading the labels back\<close>

lemma read_nat_digit: "read_nat [digit_char a] = a" if "a < 10"
  using that read_nat_snoc [of "[]" "digit_char a"] by simp

lemma read_nat_digits2: "read_nat [digit_char a, digit_char b] = 10 * a + b" if "a < 10" "b < 10"
  using that read_nat_snoc [of "[digit_char a]" "digit_char b"] by (simp add: read_nat_digit)

lemma frac_digits_value:
  "b < 100 \<Longrightarrow> of_nat (read_nat (frac_digits b)) / 10 ^ length (frac_digits b) = (of_nat b / 100 :: rat)"
proof -
  assume b: "b < 100"
  then have d: "b div 10 < 10" "b mod 10 < (10::nat)" by simp_all
  have b10: "b = 10 * (b div 10) + b mod 10" by simp
  show ?thesis
  proof (cases "b mod 10 = 0")
    case True
    then have "of_nat b = (10 * of_nat (b div 10) :: rat)"
      using b10 by (metis add.right_neutral of_nat_mult of_nat_numeral)
    with True d show ?thesis by (simp add: frac_digits_def read_nat_digit)
  next
    case False
    have "(of_nat b :: rat) = of_nat (10 * (b div 10) + b mod 10)" using b10 by simp
    with False d show ?thesis by (simp add: frac_digits_def read_nat_digits2)
  qed
qed

lemma take1_show_nat: "take 1 (show_nat a @ s) \<noteq> ''-''"
proof -
  obtain c cs where sn: "show_nat a = c # cs" and c: "c \<noteq> CHR ''-''"
    by (metis show_nat_ne show_nat_no_sep(3) list.exhaust list.set_intros(1))
  then show ?thesis by simp
qed

lemma read_decimal_neg: "take 1 s \<noteq> ''-'' \<Longrightarrow> read_decimal (''-'' @ s) = - read_decimal s"
  by (simp add: read_decimal_def Let_def)

lemma read_decimal_unsigned:
  assumes "b < 100"
  shows "read_decimal (show_nat a @ ''.'' @ frac_digits b) = of_nat a + of_nat b / 100"
proof -
  let ?body = "show_nat a @ ''.'' @ frac_digits b"
  have tw: "takeWhile (\<lambda>c. c \<noteq> CHR ''.'') ?body = show_nat a"
    by (subst takeWhile_append2) auto
  have dw: "drop 1 (dropWhile (\<lambda>c. c \<noteq> CHR ''.'') ?body) = frac_digits b"
    by (subst dropWhile_append2) auto
  have t1: "(take 1 ?body = ''-'') = False" using take1_show_nat by simp
  show ?thesis
    unfolding read_decimal_def Let_def t1 if_False tw dw frac_digits_value [OF assms] read_nat_show_nat ..
qed

lemma read_decimal_signed:
  "b < 100 \<Longrightarrow> read_decimal ((if neg then ''-'' else '''') @ show_nat a @ ''.'' @ frac_digits b) =
     (if neg then - (of_nat a + of_nat b / 100) else of_nat a + of_nat b / 100)"
  using read_decimal_unsigned [of b a] read_decimal_neg [OF take1_show_nat] by (cases neg) simp_all

lemma repr_hundredths_read: "read_decimal (repr_hundredths k) = of_int k / 100"
proof -
  define n where "n = nat \<bar>k\<bar>"
  have v: "of_nat (n div 100) + of_nat (n mod 100) / 100 = (of_nat n / 100 :: rat)"
    using nat_div_mod_rat [of 100 n] by simp
  have n: "(of_nat n :: rat) = \<bar>of_int k\<bar>" unfolding n_def by simp
  have "n mod 100 < 100" by simp
  show ?thesis
    unfolding repr_hundredths_def Let_def n_def [symmetric] read_decimal_signed [OF \<open>n mod 100 < 100\<close>] v
    using n by (simp add: abs_if)
qed

lemma repr_hundredths_not_nan: "repr_hundredths k \<noteq> ''nan''"
proof
  assume "repr_hundredths k = ''nan''"
  then have "CHR ''.'' \<in> set ''nan''" by (metis repr_hundredths_def Un_iff list.set_intros(1) set_append)
  then show False by simp
qed

lemma float_repr_round:
  assumes "\<bar>x\<bar> < 10 ^ 12"
  shows "float_repr (round_to 2 x) = Some (repr_hundredths (round_half_even (x * 100)))"
proof -
  define k where "k = round_half_even (x * 100)"
  have r: "round_to 2 x = of_int k / 100" by (simp add: round_to_def k_def)
  have "\<bar>of_int k - x * 100\<bar> \<le> 1 / 2" unfolding k_def by (rule round_half_even_bound)
  then have "\<bar>of_int k\<bar> < (10 ^ 15 :: rat)" using assms by (simp add: abs_if split: if_splits)
  then have "\<bar>k\<bar> < 10 ^ 15"
    by (metis of_int_abs of_int_less_iff of_int_numeral of_int_power)
  then show ?thesis by (simp add: float_repr_def r k_def [symmetric])
qed

lemma label_round_cell:
  assumes "\<bar>x\<bar> < 10 ^ 12"
  shows "\<exists>l. astype_str Float64 (round_cell 2 (CNum x)) = Some l \<and> read_label l = round_cell 2 (CNum x)"
  using float_repr_round [OF assms]
  by (simp add: read_label_def repr_hundredths_not_nan repr_hundredths_read round_to_def)

lemma labels_rounded:
  "\<not> list_ex is_text s \<Longrightarrow> list_all (\<lambda>x. \<bar>x\<bar> < 10 ^ 12) (nums s) \<Longrightarrow>
     \<exists>ls. those (map (astype_str Float64) (map (round_cell 2) s)) = Some ls \<and>
          map read_label ls = map (round_cell 2) s"
proof (induction s)
  case (Cons a s)
  then obtain ls where ls: "those (map (astype_str Float64) (map (round_cell 2) s)) = Some ls"
    "map read_label ls = map (round_cell 2) s"
    by (cases a) (auto simp: is_text_def)
  show ?case
  proof (cases a)
    case (CNum x)
    then obtain l where "astype_str Float64 (round_cell 2 (CNum x)) = Some l"
      "read_label l = round_cell 2 (CNum x)"
      using label_round_cell [of x] Cons.prems by auto
    with CNum ls show ?thesis by auto
  next
    case CNaN
    have "read_label ''nan'' = CNaN" by (simp add: read_label_def)
    with CNaN ls show ?thesis by simp
  next
    case (CStr t)
    with Cons.prems show ?thesis by (simp add: is_text_def)
  qed
qed simp

subsection \<open>What the bars say\<close>

text \<open>C32: The text on each bar of \<open>create_bar_chart\<close> reads back as the value the bar
  plots: for a float64 column whose values are below \<open>10^12\<close> in magnitude, every label
  is \<open>repr\<close> of the rounded value followed by a percent sign, and reading it back gives
  the rounded cell (\<open>nan\<close> for a NaN cell), in row order.\<close>

theorem bar_labels_roundtrip:
  assumes "create_bar_chart df c title = Inr fig" "length (cols df) = length (vals df)"
    and "get_column df c = Inr s" "list_all (\<lambda>x. \<bar>x\<bar> < 10 ^ 12) (nums s)"
  shows "\<exists>ls. series_labels Float64 (chart_text fig) = Some ls \<and> list_all (\<lambda>l. last l = CHR ''%'') ls \<and>
           map (\<lambda>l. read_label (butlast l)) ls = map (round_cell 2) s"
proof -
  obtain df' s' where r: "round_column c df = Inr df'" and g: "get_column df' c = Inr s'"
    and p: "px_bar df' ''Price change'' c (Some ''StrategyBoxName'') (TextSeries s' ''%'') title = Inr fig"
    using assms(1) by (auto simp: create_bar_chart_def)
  have nt: "\<not> list_ex is_text s" and s': "s' = map (round_cell 2) s"
    using r g assms(2,3) by (auto simp: round_column_eq_Inr get_column_set_column_same)
  have t: "chart_text fig = TextSeries (map (round_cell 2) s) ''%''"
    using p s' by (auto simp: px_bar_def split: option.splits)
  obtain ls where "those (map (astype_str Float64) (map (round_cell 2) s)) = Some ls"
    "map read_label ls = map (round_cell 2) s"
    using labels_rounded [OF nt assms(4)] by blast
  then show ?thesis
    by (intro exI [of _ "map (\<lambda>l. l @ ''%'') ls"]) (simp add: t series_labels_def list_all_iff comp_def)
qed

end
