(* ===== verification/Spec2Isabelle.thy ===== *)
theory Spec2Isabelle
  imports Conformance RoundingLoop Labels
begin

text \<open>
  \<^bold>\<open>A verification model of the price-experiment dashboard.\<close>

  The repository is one Streamlit script, \<open>src/app.py\<close>. Streamlit runs it top to
  bottom on every interaction. It has five parts, and this development models them in
  this order:
  \<^item> the \<^emph>\<open>page setup\<close> (lines 6--47): \<open>st.set_page_config\<close> and a style sheet;
  \<^item> the \<^emph>\<open>Aggregate Loader\<close> (\<open>load_data\<close>, lines 50--71): reads three measure
    tables and a per-product table with \<open>pd.read_csv\<close>, renames the abbreviated year
    labels of the measure tables, and is memoised by \<open>@st.cache_data\<close>;
  \<^item> the \<^emph>\<open>Metric Comparator\<close> (lines 73--98): the module-level computation of the
    aggregate Test change \<open>compute_percentage_change\<close>, the in-place rounding of the
    per-row change columns, the performance difference against the mean Control
    change, and its verdict \<open>performance_arrow\<close>;
  \<^item> the \<^emph>\<open>navigation and pages\<close> (lines 100--288): the sidebar radio, the Home page,
    the three measure pages with \<open>create_bar_chart\<close>, and the per-product page with its
    metric select box, the lookup \<open>column_map[selected_metric]\<close> and
    \<open>product_df.nlargest(10, ...)\<close>;
  \<^item> the Streamlit runtime around them: each user action reruns the script, widget
    values survive between runs, and \<open>load_data\<close>'s cache lives as long as the server.

  \<^bold>\<open>Theories.\<close>
  \<^item> \<open>Prelude\<close>: the Python exceptions the program can raise (\<open>py_error\<close>), the
    result type \<open>py_error + 'a\<close> and its bind \<open>ebind\<close>, which models exception
    propagation through straight-line code.
  \<^item> \<open>PyFloat\<close>: NumPy float64 values as \<open>Fin r | PosInf | NegInf | NaN\<close> with exact
    rational \<open>r\<close>, IEEE rules for \<open>-\<close>, \<open>*\<close>, \<open>/\<close> and comparison, round half to even
    (\<open>round_half_even\<close>) and NumPy's \<open>round(x, d)\<close> (\<open>np_round\<close>, \<open>round_to\<close>). Lemmas:
    rounding error at most half a unit of the last decimal, monotonicity,
    idempotence, symmetry.
  \<^item> \<open>Format\<close>: Python's \<open>f"{x:.2f}"\<close>, \<open>f"{x:,.2f}"\<close> and \<open>f"{x:,.0f}"\<close>
    (\<open>fmt_fixed\<close>) and a strict reader for their output (\<open>value_of_fixed\<close>, which
    scales the fraction by the number of digits printed); the roundtrip theorem says
    the text shown is exactly the value rounded by \<open>round_to\<close>.
  \<^item> \<open>Frame\<close>: a pandas \<open>DataFrame\<close> as a record of labels and columns of cells
    (number, NaN or text), with \<open>df[c]\<close>, \<open>df[c] = s\<close>, \<open>sum\<close>, \<open>mean\<close>, \<open>round\<close>,
    \<open>rename\<close> and \<open>read_csv\<close> over a file system given as a map from paths to frames.
    A column without rows has pandas' dtype \<open>object\<close>: its sum is the Python \<open>int\<close> 0
    (\<open>int_sum\<close>) and \<open>nlargest\<close> refuses it (\<open>object_column\<close>).
  \<^item> \<open>Loader\<close>: \<open>load_data\<close>, the rename map \<open>rename_cols\<close> and the cache as state
    threaded through reruns (\<open>cached_load_data\<close>, \<open>rerun_loads\<close>).
  \<^item> \<open>Comparator\<close>: \<open>compute_percentage_change\<close>, \<open>round_change_columns\<close>,
    \<open>performance_difference\<close>, \<open>performance_arrow\<close>, \<open>analyse\<close> (lines 74--89 on
    loaded tables) and \<open>startup\<close> (load, then analyse) over the record \<open>dashboard\<close> of
    module-level variables.
  \<^item> \<open>Products\<close>: the metric options, \<open>column_map\<close>, and pandas' \<open>nlargest\<close>
    with \<open>keep="first"\<close>: the numeric rows by decreasing value in a stable sort,
    then the NaN rows, cut after \<open>n\<close>. Lemmas: the ranking is sorted by value and, for
    equal values, by row (\<open>sorted_ranked\<close>, from the stability of \<open>sort_key\<close>).
  \<^item> \<open>Streamlit\<close>: page elements, a run as the elements written plus a result
    (\<open>'a st\<close>, sequenced by \<open>sbind\<close>: an exception stops the run and keeps what was
    written before it), widget state, and plotly's \<open>px.bar\<close> and \<open>px.scatter\<close>, which
    raise \<open>ValueError\<close> for an argument naming no column. The rule collection
    \<open>run_elems\<close> reduces a property of every element of a run to its parts, and
    \<open>completes_intros\<close> reduces the completion of a run (\<open>completes\<close>: no exception)
    to the completion of its parts, \<open>ends_intros\<close> what a completed run ends with
    (\<open>ends_with\<close>). \<open>st.image\<close> opens its file when called: \<open>run_images\<close> cuts a run
    at the first image whose file is missing, with \<open>MediaFileStorageError\<close>.
    \<open>kept_widgets\<close> is the widget state Streamlit keeps after a run: only the widgets
    the run rendered after a run that completed, the earlier state updated by them after
    a run that raised (the clean-up of stale widgets is skipped then).
  \<^item> \<open>Pages\<close>: \<open>page_setup\<close>, \<open>sidebar\<close>, \<open>create_bar_chart\<close>, \<open>home_page\<close>,
    \<open>detail_page\<close>, \<open>product_page\<close>, the dispatch \<open>render_page\<close> and one run
    \<open>app_run\<close>.
  \<^item> \<open>Session\<close>: the files on disk (\<open>disk\<close>: the CSV files and the image files),
    the session record, \<open>script_run\<close> (one rerun: the cached load, \<open>app_run\<close>, the
    images, the kept widget state), and the user's actions as the inductive step relation
    \<open>ui_step\<close> (choose an option of a widget the last run showed, rerun, reload the tab)
    with the reachable sessions \<open>reachable\<close>; by rule induction, the widget-state
    invariant and that a remembered sidebar radio means analysed tables in the cache.
  \<^item> \<open>RoundingLoop\<close>: the loop of lines 82--84 as written, over an explicit store of
    DataFrame objects (the names of line 71 refer to objects, the loop assigns into
    them), run by \<open>while_option\<close>; it stops on every input (\<open>rounding_loop_round_all\<close>)
    and refines \<open>analyse\<close>'s straight-line rounding.
  \<^item> \<open>Conformance\<close>: the data model of the specification (section 3) as predicates on
    the loaded tables (\<open>conforming_tables\<close>: every numeric column present once, with
    rows and no text), and the lemmas that every operation the pages call succeeds on such
    tables, composed with \<open>completes_intros\<close>.
  \<^item> \<open>Labels\<close>: the bar labels \<open>df[column].astype(str) + '%'\<close> (line 109): the
    column's dtype (\<open>dtype\<close>), \<open>str\<close> of an int64 value, \<open>repr\<close> of a float64 value
    with at most two decimals, \<open>astype_str\<close> per cell and \<open>series_labels\<close> per chart,
    with a reader of the labels for the roundtrip theorem.
  \<^item> this theory: example inputs, the witnesses of the component theorems, and the
    specification's scenarios evaluated through the whole startup and the per-product
    page.

  \<^bold>\<open>Correspondence.\<close> Each Python function is one HOL definition of the same name
  (\<open>name\<close> stands for the code's variable \<open>measure\<close>, a HOL constant). Statements
  run in sequence are nested \<open>ebind\<close>s (computations) or \<open>sbind\<close>s (statements that
  write to the page) in the order of the code, so that the first exception raised is the
  one the model returns, with the elements written before it. The in-place mutations of
  lines 63--65 and 82--84 return the updated frame; \<open>analyse\<close> keeps the updated frames
  in its result, as the module-level names do after line 84. \<open>with col:\<close> nests the
  body's elements in an \<open>InColumn\<close> element. A session is a record of the widget state,
  the cache, and the last run's elements and outcome; \<open>script_run\<close> is one rerun over
  the disk of that moment.

  \<^bold>\<open>What is proved.\<close> The aggregate Test change is the rounded percentage change of
  the column totals (C1); a zero 2024 total yields \<open>inf\<close> or \<open>nan\<close> on a table with
  rows, while a table without rows raises \<open>ZeroDivisionError\<close>, its sums being the
  Python \<open>int\<close> 0 (C2); a NaN difference is displayed as "No difference from Control"
  (C3); the performance difference is taken over the already rounded Control column
  (C4); exactly which inputs make the comparator raise (C5); the digits printed by the
  three format specifications read back as the rounded value (C6); the loader's result
  and its first-missing-file error (C7), the totality of the rename (C8), and the
  load-once behaviour of the cache (C9). For the per-product page: \<open>nlargest\<close> keeps
  the largest values with ties to the earlier row (C10), returns \<open>min n rows\<close> rows
  (C11), in decreasing order (C12), and fills with NaN rows when there are too few
  numbers (C13). For the sessions: the \<open>column_map\<close> lookup never raises (C14), every
  run renders exactly the page body the radio names (C15), the measure pages select
  their own table (C16), the user can always navigate to any page (C17), a cached table
  set that fails the analysis makes every later run fail (C18) while a failed load is not
  cached (C19); \<open>create_bar_chart\<close> plots the rounded column (C20) or raises
  \<open>ValueError\<close> without the \<open>Price change\<close> column (C21); the page configuration
  comes first in every run (C22); the metric choice is reset by a completed visit to
  another page (C23) and kept after a run that raised (C24). The rounding loop over the
  shared objects computes what \<open>analyse\<close> computes (C25). On data conforming to the
  specification's model the per-product page (C26) and every next run of every
  reachable session (C27) end without an exception when \<open>logo.png\<close> is on disk, and
  every such run raises \<open>st.image\<close>'s error when it is not (C28); a product table
  missing a metric column is not caught at load time but stops the per-product page
  with \<open>KeyError\<close> after its first elements (C29); the Quantity totals are shown with
  no decimals on the Home page but two on the Quantity page (C30). A zero Test 2024
  total reaches the Home page as the Test change \<open>inf%\<close> and the verdict "inf% better
  than Control" (C31). Every bar label of \<open>create_bar_chart\<close> reads back as the
  rounded value its bar plots (C32). The end of this theory evaluates the
  specification's scenarios: the measure table through the whole startup, a Control
  column whose rounding changes the verdict, and the fifteen-product page.

  \<^bold>\<open>Modelling choices.\<close> Float64 values are exact rationals: binary rounding error
  is not modelled, so results are those of exact arithmetic followed by the code's
  explicit roundings. The sign of zero is not modelled (column sums are positive
  zeros). CSV parsing is not modelled: a file is given as the frame \<open>pd.read_csv\<close>
  would produce, with a text cell standing for a column pandas reads as \<open>object\<close>.
  A label held by two columns is reported as \<open>AmbiguousLabel\<close>, where pandas would
  return a sub-frame that fails later. Strings are UTF-8 bytes, so \<open>str.split()\<close>
  splits on ASCII whitespace only (no label contains other whitespace). For
  \<open>nlargest\<close> the model lists equal values in row order; pandas does so when \<open>n\<close> is
  smaller than the number of rows (a selection followed by a stable sort), while for
  \<open>n\<close> at least the number of rows it sorts with NumPy's default sort, whose order
  among equal values is not specified. Frame row labels (the index) are not modelled. The script has no
  unbounded loop, so no fuel is needed: the one loop, over a three-element list, is
  run by \<open>while_option\<close> and proved to return on every input
  (\<open>rounding_loop_round_all\<close>, by induction on the list of references); every definition is total and executable, and
  the examples are evaluated by \<open>simp\<close> and \<open>code_simp\<close>. The user's interaction
  never ends by design, so it is a step relation and not a function. Of the file
  system, a run sees the CSV frames and which image files can be opened; the image
  bytes are not modelled.

  \<^bold>\<open>Not modelled.\<close> What Plotly draws and how the browser applies the style
  sheet; the statistics of \<open>df.describe()\<close> (the view receives the frame); and the
  row index shown by \<open>st.dataframe\<close>. These are library behaviour with no logic of
  the program. The dtype of a column is not part of a frame: \<open>pd.read_csv\<close> chooses it
  from the file's text (int64 when every cell is an integer literal), which the model does
  not keep, so \<open>astype(str)\<close> takes it as a parameter (\<open>10\<close> for int64, \<open>10.0\<close> for
  float64). \<open>repr\<close> of a float64 value is modelled where it is exact for the rounded
  columns, values of at most two decimals and fifteen digits; beyond that range, and for
  the sign of a negative zero (\<open>-0.0\<close>), the label is outside the model.
\<close>

subsection \<open>Example inputs\<close>

text \<open>The spec's scenario: Test 2024 = [100, 100], Test 2025 = [110, 130], Control change
  column [5.0, 15.0]; \<open>ex_raw\<close> is the same table as read from the CSV file, with the
  abbreviated labels.\<close>

definition ex_frame :: frame where
  "ex_frame = \<lparr>cols = [''Price change'', ''StrategyBoxName'', ''Test 2025'', ''Test 2024'',
                       ''Control 2025'', ''Control 2024'', ''%Change Test'', ''%Change Control''],
     vals = [[CStr ''-5%'', CStr ''+5%''], [CStr ''A'', CStr ''B''], [CNum 110, CNum 130],
             [CNum 100, CNum 100], [CNum 105, CNum 115], [CNum 100, CNum 100],
             [CNum 10, CNum 30], [CNum 5, CNum 15]]\<rparr>"

definition ex_zero_frame :: frame where
  "ex_zero_frame = \<lparr>cols = [''Test 2025'', ''Test 2024''], vals = [[CNum 7, CNaN], [CNum 0, CNaN]]\<rparr>"

text \<open>The two year columns of a CSV file that holds only its header.\<close>

definition ex_header_frame :: frame where
  "ex_header_frame = \<lparr>cols = [''Test 2025'', ''Test 2024''], vals = [[], []]\<rparr>"

definition ex_raw :: frame where
  "ex_raw = \<lparr>cols = [''Price change'', ''StrategyBoxName'', ''Test 25'', ''Test 24'',
                     ''Control 25'', ''Control 24'', ''%Change Test'', ''%Change Control''],
     vals = vals ex_frame\<rparr>"

definition ex_product :: frame where
  "ex_product = \<lparr>cols = [''ProductId'', ''StrategyBoxName'', ''Total Revenue Test 25''],
     vals = [[CStr ''P1''], [CStr ''A''], [CNum 12]]\<rparr>"

definition ex_files :: files where
  "ex_files = [revenue_csv \<mapsto> ex_raw, margin_csv \<mapsto> ex_raw, quantity_csv \<mapsto> ex_raw,
               product_csv \<mapsto> ex_product]"

definition ex_rounded :: frame where
  "ex_rounded = set_column (set_column ex_frame ''%Change Test'' [CNum 10, CNum 30])
                  ''%Change Control'' [CNum 5, CNum 15]"

definition ex_tables :: tables where
  "ex_tables = \<lparr>revenue_df = rename_columns rename_cols ex_raw,
                 margin_df = rename_columns rename_cols ex_raw,
                 quantity_df = rename_columns rename_cols ex_raw, product_df = ex_product\<rparr>"

text \<open>A Control column whose values round up: [0.006, 0.006, 0] with a Test change of 0.\<close>

definition ex_files_rounding :: files where
  "ex_files_rounding =
     (let f = \<lparr>cols = [''Test 25'', ''Test 24'', ''%Change Test'', ''%Change Control''],
               vals = [[CNum 100, CNum 100, CNum 100], [CNum 100, CNum 100, CNum 100],
                       [CNum 0, CNum 0, CNum 0], [CNum (3/500), CNum (3/500), CNum 0]]\<rparr>
      in [revenue_csv \<mapsto> f, margin_csv \<mapsto> f, quantity_csv \<mapsto> f, product_csv \<mapsto> f])"

text \<open>The per-product scenario of the specification: fifteen products, ranked by their
  Quantity; the tenth and eleventh largest values tie at 5 (rows 8 and 13).\<close>

definition ex_quantities :: "cell list" where
  "ex_quantities = map CNum [5, 9, 3, 9, 1, 7, 2, 9, 5, 6, 8, 0, 7, 5, 9]"

definition ex_products :: frame where
  "ex_products = \<lparr>cols = [''ProductId'', ''StrategyBoxName'', ''Total Revenue Test 25'',
                           ''Total Margin Test 25'', ''Quantity Test 25''],
     vals = [map (\<lambda>i. CStr (''P'' @ show_nat i)) [0..<15], replicate 15 (CStr ''A''),
             replicate 15 (CNum 1), replicate 15 (CNum 1), ex_quantities]\<rparr>"

definition ex_product_tables :: tables where
  "ex_product_tables = ex_tables\<lparr>product_df := ex_products\<rparr>"

text \<open>The select box set to Quantity.\<close>

definition ex_quantity_widgets :: widget_state where
  "ex_quantity_widgets = [metric_label \<mapsto> (metric_options, ''Quantity'')]"

text \<open>Measure files that load but hold a text cell in a Test column.\<close>

definition ex_files_text :: files where
  "ex_files_text = ex_files(revenue_csv \<mapsto> ex_raw\<lparr>vals := (vals ex_raw)[2 := [CStr ''n/a'', CNum 130]]\<rparr>)"

text \<open>A disk holding the given CSV files and the logo.\<close>

definition on_disk :: "files \<Rightarrow> disk" where
  "on_disk fs = \<lparr>csv_files = fs, image_files = {''logo.png''}\<rparr>"

definition ex_session :: session where
  "ex_session = script_run (on_disk ex_files) new_session"

text \<open>Files holding the spec's measure table three times and the fifteen products.\<close>

definition ex_files_products :: files where
  "ex_files_products = ex_files(product_csv \<mapsto> ex_products)"

text \<open>The spec's measure table with a zero Test 2024 column, as the revenue table.\<close>

definition ex_zero_tables :: tables where
  "ex_zero_tables = ex_product_tables\<lparr>revenue_df := ex_frame\<lparr>vals := (vals ex_frame)[3 := [CNum 0, CNum 0]]\<rparr>\<rparr>"

text \<open>The module-level variables after loading those files; the scalars are the analysis
  of the spec's measure table.\<close>

definition ex_dashboard :: dashboard where
  "ex_dashboard = \<lparr>data = ex_product_tables, revenue_test_pct = Fin 20, margin_test_pct = Fin 20,
     quantity_test_pct = Fin 20, revenue_perf_diff = Fin 10, margin_perf_diff = Fin 10,
     quantity_perf_diff = Fin 10\<rparr>"

text \<open>A session on the Home page that remembers Quantity in the select box of the
  per-product page, and has nothing cached yet.\<close>

definition ex_home_session :: session where
  "ex_home_session = \<lparr>widgets = [''Go to'' \<mapsto> (page_options, home_label),
                                   metric_label \<mapsto> (metric_options, ''Quantity'')],
                       cache = None, shown = [], outcome = Inr ()\<rparr>"

lemmas ex_defs = ex_frame_def ex_zero_frame_def ex_raw_def ex_product_def ex_rounded_def

subsection \<open>Evaluation facts about the examples\<close>

lemma ex_frame_len: "length (cols ex_frame) = length (vals ex_frame)"
  by (simp add: ex_frame_def)

lemma ex_round_change: "round_change_columns ex_frame = Inr ex_rounded"
  by (simp add: round_change_columns_def round_column_def series_round_def ex_defs get_column_def
                set_column_def is_text_def round_to_def round_half_even_def)

lemma ex_load: "load_data ex_files = Inr ex_tables"
  by (simp add: load_data_def ex_files_def ex_tables_def revenue_csv_def margin_csv_def
                quantity_csv_def product_csv_def)

lemma ex_top10: "nlargest_index 10 ex_quantities = [1, 3, 7, 14, 10, 5, 12, 9, 0, 8]"
  by code_simp

lemma ex_products_wf: "wf_frame ex_products"
  by (simp add: ex_products_def ex_quantities_def wf_frame_def)

lemma ex_products_nlargest:
  "nlargest 10 ''Quantity Test 25'' ex_products = Inr (take_rows [1, 3, 7, 14, 10, 5, 12, 9, 0, 8] ex_products)"
proof -
  have "get_column ex_products ''Quantity Test 25'' = Inr ex_quantities"
    by (simp add: ex_products_def get_column_def)
  moreover have "\<not> list_ex is_text ex_quantities" "ex_quantities \<noteq> []"
    by (simp_all add: ex_quantities_def is_text_def)
  ultimately show ?thesis by (simp add: nlargest_def object_column_def ex_top10)
qed

lemma ex_analyse: "\<exists>d. analyse ex_tables = Inr d"
proof -
  have "\<not> isl (analyse ex_tables)" by code_simp
  then show ?thesis by (cases "analyse ex_tables") auto
qed

lemma ex_load_products: "load_data ex_files_products = Inr ex_product_tables"
  by (simp add: load_data_def ex_files_products_def ex_files_def ex_product_tables_def ex_tables_def
                revenue_csv_def margin_csv_def quantity_csv_def product_csv_def)

lemma ex_product_tables_conforming: "conforming_tables ex_product_tables"
  by code_simp

lemma ex_session_reachable: "reachable ex_session"
  unfolding ex_session_def by (rule reachable.start)

lemma ex_session_radio: "widgets ex_session ''Go to'' \<noteq> None"
proof -
  obtain d where d: "analyse ex_tables = Inr d" using ex_analyse by blast
  have ld: "fst (cached_load_data (cache new_session) (csv_files (on_disk ex_files))) = Inr ex_tables"
    by (simp add: new_session_def cached_load_data_def on_disk_def ex_load)
  have "widgets_of (shown ex_session) ''Go to'' =
          Some (page_options, widget_value (widgets new_session) ''Go to'' page_options)"
    unfolding ex_session_def script_run_analysed(1) [OF ld d]
    by (simp add: widgets_of_append sidebar_def page_setup_def map_add_def)
  then show ?thesis unfolding ex_session_def by (auto dest: script_run_shown_widgets)
qed

lemma ex_products_completes:
  assumes "widget_inv ws"
  shows "snd (run_images {''logo.png''} (app_run ws (Inr ex_product_tables))) = Inr ()"
proof -
  have "list_all (image_ok {''logo.png''}) (fst (app_run ws (Inr ex_product_tables)))"
    by (rule logo_image_ok) (simp_all add: app_run_logo_only)
  then show ?thesis
    using app_run_completes [OF assms ex_product_tables_conforming] by (simp add: run_images_id)
qed

lemma ex_load_fails: "load_data Map.empty = Inl (FileNotFoundError revenue_csv)"
  by (simp add: load_data_def)

subsection \<open>Witnesses of the component theorems\<close>

theorem compute_percentage_change_value_witness:
  "get_column ex_frame ''Test 2025'' = Inr [CNum 110, CNum 130] \<and>
   get_column ex_frame ''Test 2024'' = Inr [CNum 100, CNum 100] \<and>
   compute_percentage_change ex_frame ''Test 2025'' ''Test 2024'' = Inr (Fin 20)"
proof -
  have h1: "get_column ex_frame ''Test 2025'' = Inr [CNum 110, CNum 130]"
    by (simp add: ex_frame_def get_column_def)
  have h2: "get_column ex_frame ''Test 2024'' = Inr [CNum 100, CNum 100]"
    by (simp add: ex_frame_def get_column_def)
  have "compute_percentage_change ex_frame ''Test 2025'' ''Test 2024'' =
          Inr (Fin (round_to 2 ((240 - 200) / 200 * 100)))"
    using compute_percentage_change_value [OF h1 h2] by (simp add: is_text_def)
  moreover have "round_to 2 ((240 - 200) / 200 * 100) = 20"
    by (simp add: round_to_def round_half_even_def)
  ultimately show ?thesis using h1 h2 by simp
qed

theorem compute_percentage_change_zero_base_witness:
  "compute_percentage_change ex_zero_frame ''Test 2025'' ''Test 2024'' = Inr PosInf \<and>
   compute_percentage_change ex_header_frame ''Test 2025'' ''Test 2024'' = Inl (ZeroDivisionError ''division by zero'')"
proof -
  have h1: "get_column ex_zero_frame ''Test 2025'' = Inr [CNum 7, CNaN]"
    by (simp add: ex_zero_frame_def get_column_def)
  have h2: "get_column ex_zero_frame ''Test 2024'' = Inr [CNum 0, CNaN]"
    by (simp add: ex_zero_frame_def get_column_def)
  have e1: "get_column ex_header_frame ''Test 2025'' = Inr []"
    by (simp add: ex_header_frame_def get_column_def)
  have e2: "get_column ex_header_frame ''Test 2024'' = Inr []"
    by (simp add: ex_header_frame_def get_column_def)
  show ?thesis
    using compute_percentage_change_zero_base [OF h1 h2] compute_percentage_change_zero_base [OF e1 e2]
    by (simp add: is_text_def)
qed

theorem performance_arrow_no_difference_iff_witness:
  "performance_arrow NaN = balance_icon @ '' No difference from Control''"
  using performance_arrow_no_difference_iff [of NaN] by simp

theorem performance_difference_after_rounding_witness:
  "round_change_columns ex_frame = Inr ex_rounded \<and>
   performance_difference ex_rounded (Fin 20) = Inr (Fin 10)"
proof -
  have h: "get_column ex_frame ''%Change Control'' = Inr [CNum 5, CNum 15]"
    by (simp add: ex_frame_def get_column_def)
  have "performance_difference ex_rounded (Fin 20) =
          Inr (np_round 2 (fsub (Fin 20) (mean_of (map (round_to 2) [5, 15]))))"
    using performance_difference_after_rounding [OF ex_round_change ex_frame_len h]
    by (simp add: is_text_def)
  then show ?thesis
    by (simp add: ex_round_change mean_of_def round_to_def round_half_even_def)
qed

theorem compute_percentage_change_fails_iff_witness:
  "distinct (cols ex_frame) \<and> length (cols ex_frame) = length (vals ex_frame) \<and>
   (\<exists>e. compute_percentage_change ex_frame ''Price change'' ''Test 2024'' = Inl e) \<and>
   \<not> (\<exists>e. compute_percentage_change ex_frame ''Test 2025'' ''Test 2024'' = Inl e)"
proof -
  have h: "distinct (cols ex_frame)" "length (cols ex_frame) = length (vals ex_frame)"
    by (simp_all add: ex_frame_def)
  show ?thesis
    using compute_percentage_change_fails_iff [OF h, of "''Price change''" "''Test 2024''"]
          compute_percentage_change_fails_iff [OF h, of "''Test 2025''" "''Test 2024''"] h
    by (simp add: ex_frame_def get_column_def is_text_def)
qed

theorem load_data_labels_witness:
  "load_data ex_files = Inr ex_tables \<and> set (cols (revenue_df ex_tables)) \<inter> dom rename_cols = {}"
  using load_data_labels [OF ex_load, of "revenue_df ex_tables"] by (simp add: ex_load)

theorem cache_loads_once_witness:
  "rerun_loads None [ex_files, Map.empty, Map.empty] = [Inr ex_tables, Inr ex_tables, Inr ex_tables]"
  using cache_loads_once [OF ex_load, of "[Map.empty, Map.empty]"] by simp

subsection \<open>Witnesses of the per-product, page and session theorems\<close>

theorem nlargest_index_top_witness:
  "8 \<in> set (nlargest_index 10 ex_quantities) \<and> 13 < length ex_quantities \<and>
   13 \<notin> set (nlargest_index 10 ex_quantities) \<and> ex_quantities ! 13 = CNum 5 \<and>
   (\<exists>x. ex_quantities ! 8 = CNum x \<and> (5 < x \<or> 5 = x \<and> (8::nat) < 13))"
proof -
  have h1: "8 \<in> set (nlargest_index 10 ex_quantities)" "13 \<notin> set (nlargest_index 10 ex_quantities)"
    by (simp_all add: ex_top10)
  have h2: "13 < length ex_quantities" "ex_quantities ! 13 = CNum 5"
    by (simp_all add: ex_quantities_def)
  show ?thesis using h1 h2 nlargest_index_top [OF h1(1) h2(1) h1(2) h2(2)] by blast
qed

theorem nlargest_nrows_witness:
  "wf_frame ex_products \<and>
   nlargest 10 ''Quantity Test 25'' ex_products = Inr (take_rows [1, 3, 7, 14, 10, 5, 12, 9, 0, 8] ex_products) \<and>
   nrows (take_rows [1, 3, 7, 14, 10, 5, 12, 9, 0, 8] ex_products) = min 10 (nrows ex_products)"
  using nlargest_nrows [OF ex_products_wf ex_products_nlargest] ex_products_wf ex_products_nlargest
  by simp

theorem nlargest_sorted_witness:
  "nlargest 10 ''Quantity Test 25'' ex_products = Inr (take_rows [1, 3, 7, 14, 10, 5, 12, 9, 0, 8] ex_products) \<and>
   (\<exists>s'. get_column (take_rows [1, 3, 7, 14, 10, 5, 12, 9, 0, 8] ex_products) ''Quantity Test 25'' = Inr s' \<and>
         sorted_wrt cell_geq s')"
  using nlargest_sorted [OF ex_products_nlargest] ex_products_nlargest by simp

theorem nlargest_index_nan_witness:
  "\<not> list_ex is_text [CNum 3, CNaN, CNum 5, CNaN] \<and> length (nums [CNum 3, CNaN, CNum 5, CNaN]) < 3 \<and>
   3 \<le> length [CNum 3, CNaN, CNum 5, CNaN] \<and>
   (\<exists>i\<in>set (nlargest_index 3 [CNum 3, CNaN, CNum 5, CNaN]). [CNum 3, CNaN, CNum 5, CNaN] ! i = CNaN)"
  using nlargest_index_nan [of "[CNum 3, CNaN, CNum 5, CNaN]" 3] by (simp add: is_text_def)

theorem metric_lookup_safe_witness:
  "reachable ex_session \<and>
   (\<exists>col. dict_get column_map (widget_value (widgets ex_session) metric_label metric_options) = Inr col)"
  using metric_lookup_safe [OF ex_session_reachable] ex_session_reachable by blast

theorem reachable_page_dispatch_witness:
  "reachable ex_session \<and>
   (let p = widget_value (widgets ex_session) ''Go to'' page_options in
      render_page (widgets ex_session) p ex_dashboard =
        (if p = home_label then home_page ex_dashboard
         else if p \<in> set measure_pages then detail_page p ex_dashboard
         else product_page (widgets ex_session) (data ex_dashboard)))"
  using reachable_page_dispatch [OF ex_session_reachable] ex_session_reachable by blast

theorem navigation_live_witness:
  "reachable ex_session \<and> widgets ex_session ''Go to'' \<noteq> None \<and> product_label \<in> set page_options \<and>
   (\<exists>s'. ui_step ex_session s' \<and> Radio ''Go to'' page_options product_label \<in> set (shown s'))"
proof -
  have p: "product_label \<in> set page_options" by (simp add: page_options_def)
  show ?thesis
    using navigation_live [OF ex_session_reachable ex_session_radio p] ex_session_reachable
          ex_session_radio p by blast
qed

theorem cached_error_persists_witness:
  "\<exists>t. cache (script_run (on_disk ex_files_text) new_session) = Some t \<and> analyse t = Inl (TypeError ''Test 2025'') \<and>
     ui_step\<^sup>+\<^sup>+ (script_run (on_disk ex_files_text) new_session)
       (script_run (on_disk ex_files) (script_run (on_disk ex_files_text) new_session)) \<and>
     outcome (script_run (on_disk ex_files) (script_run (on_disk ex_files_text) new_session)) =
       Inl (TypeError ''Test 2025'')"
proof -
  have "ebind (load_data ex_files_text) (\<lambda>t. Inr (analyse t)) = Inr (Inl (TypeError ''Test 2025''))"
    by code_simp
  then obtain t where t: "load_data ex_files_text = Inr t" and e: "analyse t = Inl (TypeError ''Test 2025'')"
    by auto
  have c: "cache (script_run (on_disk ex_files_text) new_session) = Some t"
    by (simp add: model_simps new_session_def on_disk_def t)
  have st: "ui_step\<^sup>+\<^sup>+ (script_run (on_disk ex_files_text) new_session)
              (script_run (on_disk ex_files) (script_run (on_disk ex_files_text) new_session))"
    by (rule tranclp.r_into_trancl) (rule ui_step.rerun)
  show ?thesis using cached_error_persists [OF c e st] c e st by blast
qed

theorem create_bar_chart_rounded_witness:
  "length (cols ex_frame) = length (vals ex_frame) \<and>
   get_column ex_frame ''%Change Test'' = Inr [CNum 10, CNum 30] \<and> \<not> list_ex is_text [CNum 10, CNum 30] \<and>
   ''Price change'' \<in> set (cols ex_frame) \<and> ''StrategyBoxName'' \<in> set (cols ex_frame) \<and>
   (\<exists>fig. create_bar_chart ex_frame ''%Change Test'' ''Revenue Test % Change'' = Inr fig \<and>
      chart_y fig = ''%Change Test'' \<and>
      get_column (chart_frame fig) ''%Change Test'' = Inr (map (round_cell 2) [CNum 10, CNum 30]) \<and>
      chart_text fig = TextSeries (map (round_cell 2) [CNum 10, CNum 30]) ''%'')"
proof -
  have h: "length (cols ex_frame) = length (vals ex_frame)"
    "get_column ex_frame ''%Change Test'' = Inr [CNum 10, CNum 30]" "\<not> list_ex is_text [CNum 10, CNum 30]"
    "''Price change'' \<in> set (cols ex_frame)" "''StrategyBoxName'' \<in> set (cols ex_frame)"
    by (simp_all add: ex_frame_def get_column_def is_text_def)
  show ?thesis using create_bar_chart_rounded [OF h] h by blast
qed

theorem create_bar_chart_no_price_change_witness:
  "length (cols ex_zero_frame) = length (vals ex_zero_frame) \<and>
   get_column ex_zero_frame ''Test 2025'' = Inr [CNum 7, CNaN] \<and> \<not> list_ex is_text [CNum 7, CNaN] \<and>
   ''Price change'' \<notin> set (cols ex_zero_frame) \<and>
   create_bar_chart ex_zero_frame ''Test 2025'' ''Revenue Test % Change'' = Inl (ValueError ''Price change'')"
proof -
  have h: "length (cols ex_zero_frame) = length (vals ex_zero_frame)"
    "get_column ex_zero_frame ''Test 2025'' = Inr [CNum 7, CNaN]" "\<not> list_ex is_text [CNum 7, CNaN]"
    "''Price change'' \<notin> set (cols ex_zero_frame)"
    by (simp_all add: ex_zero_frame_def get_column_def is_text_def)
  show ?thesis using create_bar_chart_no_price_change [OF h] h by blast
qed

theorem page_config_first_witness:
  "reachable ex_session \<and>
   (\<exists>rest. shown ex_session = PageConfig ''wide'' ''Price Sensitivity Dashboard'' # rest \<and>
      list_all (\<lambda>e. \<forall>l t. e \<noteq> PageConfig l t) rest)"
  using page_config_first [OF ex_session_reachable] ex_session_reachable by blast

theorem metric_selection_reset_witness:
  "widget_value (widgets new_session) ''Go to'' page_options \<noteq> product_label \<and>
   outcome (script_run (on_disk ex_files_products) new_session) = Inr () \<and>
   widget_value (widgets (script_run (on_disk ex_files_products) new_session)) metric_label metric_options =
     ''Total Revenue''"
proof -
  have h: "widget_value (widgets new_session) ''Go to'' page_options \<noteq> product_label"
    by (simp add: new_session_def widget_value_def page_options_def home_label_def product_label_def
                  house_def bar_chart_def)
  have o: "outcome (script_run (on_disk ex_files_products) new_session) = Inr ()"
    using ex_products_completes [of "widgets new_session"]
    by (simp add: script_run_fields new_session_def on_disk_def cached_load_data_def ex_load_products)
  show ?thesis using metric_selection_reset [OF h o] h o by blast
qed


theorem product_page_completes_witness:
  "widget_inv ex_quantity_widgets \<and> conforming_product (product_df ex_product_tables) \<and>
   ''logo.png'' \<in> {''logo.png''} \<and>
   snd (run_images {''logo.png''} (product_page ex_quantity_widgets ex_product_tables)) = Inr ()"
proof -
  have h: "widget_inv ex_quantity_widgets" "conforming_product (product_df ex_product_tables)"
    "''logo.png'' \<in> {''logo.png''}"
    using ex_product_tables_conforming
    by (simp_all add: ex_quantity_widgets_def widget_inv_def metric_options_def conforming_tables_def)
  show ?thesis using Conformance.product_page_completes [OF h] h by blast
qed

theorem conforming_session_completes_witness:
  "reachable (script_run (on_disk ex_files_products) new_session) \<and>
   cache (script_run (on_disk ex_files_products) new_session) = Some ex_product_tables \<and>
   conforming_tables ex_product_tables \<and> ''logo.png'' \<in> image_files (on_disk ex_files) \<and>
   outcome (script_run (on_disk ex_files) (script_run (on_disk ex_files_products) new_session)) = Inr ()"
proof -
  have r: "reachable (script_run (on_disk ex_files_products) new_session)" by (rule reachable.start)
  have c: "cache (script_run (on_disk ex_files_products) new_session) = Some ex_product_tables"
    by (simp add: model_simps new_session_def on_disk_def ex_load_products)
  have i: "''logo.png'' \<in> image_files (on_disk ex_files)" by (simp add: on_disk_def)
  show ?thesis
    using conforming_session_completes [OF r c ex_product_tables_conforming i] r c ex_product_tables_conforming i
    by blast
qed

theorem load_error_not_cached_witness:
  "cache new_session = None \<and> load_data (csv_files (on_disk Map.empty)) = Inl (FileNotFoundError revenue_csv) \<and>
   outcome (script_run (on_disk Map.empty) new_session) = Inl (FileNotFoundError revenue_csv) \<and>
   shown (script_run (on_disk Map.empty) new_session) = page_setup \<and>
   cache (script_run (on_disk Map.empty) new_session) = None"
proof -
  have h: "cache new_session = None" "load_data (csv_files (on_disk Map.empty)) = Inl (FileNotFoundError revenue_csv)"
    by (simp_all add: new_session_def on_disk_def ex_load_fails)
  show ?thesis using load_error_not_cached [OF h] h by blast
qed

theorem missing_logo_fails_witness:
  "reachable (script_run (on_disk ex_files_products) new_session) \<and>
   cache (script_run (on_disk ex_files_products) new_session) = Some ex_product_tables \<and>
   conforming_tables ex_product_tables \<and>
   ''logo.png'' \<notin> image_files \<lparr>csv_files = ex_files_products, image_files = {}\<rparr> \<and>
   outcome (script_run \<lparr>csv_files = ex_files_products, image_files = {}\<rparr>
     (script_run (on_disk ex_files_products) new_session)) = Inl (MediaFileStorageError ''logo.png'')"
proof -
  have r: "reachable (script_run (on_disk ex_files_products) new_session)" by (rule reachable.start)
  have c: "cache (script_run (on_disk ex_files_products) new_session) = Some ex_product_tables"
    by (simp add: model_simps new_session_def on_disk_def ex_load_products)
  have i: "''logo.png'' \<notin> image_files \<lparr>csv_files = ex_files_products, image_files = {}\<rparr>" by simp
  show ?thesis using missing_logo_fails [OF r c ex_product_tables_conforming i] r c ex_product_tables_conforming i
    by blast
qed

theorem product_page_missing_column_witness:
  "dict_get column_map (widget_value ex_quantity_widgets metric_label metric_options) = Inr ''Quantity Test 25'' \<and>
   ''Quantity Test 25'' \<notin> set (cols (product_df ex_tables)) \<and> cols (product_df ex_tables) \<noteq> [] \<and>
   snd (product_page ex_quantity_widgets ex_tables) = Inl (KeyError ''Quantity Test 25'')"
proof -
  have h: "dict_get column_map (widget_value ex_quantity_widgets metric_label metric_options) = Inr ''Quantity Test 25''"
    "''Quantity Test 25'' \<notin> set (cols (product_df ex_tables))" "cols (product_df ex_tables) \<noteq> []"
    by (simp_all add: ex_quantity_widgets_def widget_value_def column_map_def dict_get_def
                      ex_tables_def ex_product_def)
  show ?thesis using Pages.product_page_missing_column [OF h] h by simp
qed

theorem quantity_precision_witness:
  "conforming_tables (data ex_dashboard) \<and>
   column_total (quantity_df (data ex_dashboard)) ''Test 2025'' = Inr 240 \<and>
   column_total (quantity_df (data ex_dashboard)) ''Test 2024'' = Inr 200 \<and>
   (\<exists>es. InColumn 2 es \<in> set (fst (home_page ex_dashboard)) \<and> Subheader (''Test 2025: 240'') \<in> set es) \<and>
   InColumn 0 [Html (centered ''h3'' ''Quantity (Test)''), Html (centered ''h2'' ''240.00''),
               Html (centered ''h4'' ''2024: 200.00'')] \<in> set (fst (detail_page quantity_label ex_dashboard))"
proof -
  have h: "conforming_tables (data ex_dashboard)"
    "column_total (quantity_df (data ex_dashboard)) ''Test 2025'' = Inr 240"
    "column_total (quantity_df (data ex_dashboard)) ''Test 2024'' = Inr 200"
    using ex_product_tables_conforming by (simp_all add: ex_dashboard_def) code_simp+
  have f: "fmt_fixed True 0 (Fin 240) = ''240''" "fmt_fixed True 2 (Fin 240) = ''240.00''"
    "fmt_fixed True 2 (Fin 200) = ''200.00''"
    by (simp_all add: fmt_eval)
  show ?thesis using Conformance.quantity_precision [OF h] h by (simp only: f append.simps)
qed

theorem zero_base_home_display_witness:
  "conforming_tables ex_zero_tables \<and>
   get_column (revenue_df ex_zero_tables) ''Test 2025'' = Inr [CNum 110, CNum 130] \<and>
   0 < sum_list (nums [CNum 110, CNum 130]) \<and>
   get_column (revenue_df ex_zero_tables) ''Test 2024'' = Inr [CNum 0, CNum 0] \<and>
   sum_list (nums [CNum 0, CNum 0]) = 0 \<and>
   get_column (revenue_df ex_zero_tables) ''%Change Control'' = Inr [CNum 5, CNum 15] \<and>
   nums [CNum 5, CNum 15] \<noteq> [] \<and>
   (\<exists>d. analyse ex_zero_tables = Inr d \<and>
      (\<exists>es. InColumn 0 es \<in> set (fst (home_page d)) \<and> Metric ''Test % Change'' ''inf%'' \<in> set es \<and>
         Markdown (''**'' @ better_icon @ ''inf% better than Control**'') \<in> set es))"
proof -
  have c: "conforming_tables ex_zero_tables" by code_simp
  have g: "get_column (revenue_df ex_zero_tables) ''Test 2025'' = Inr [CNum 110, CNum 130]"
    "get_column (revenue_df ex_zero_tables) ''Test 2024'' = Inr [CNum 0, CNum 0]"
    "get_column (revenue_df ex_zero_tables) ''%Change Control'' = Inr [CNum 5, CNum 15]"
    by (simp_all add: ex_zero_tables_def ex_product_tables_def ex_frame_def get_column_def)
  have n: "0 < sum_list (nums [CNum 110, CNum 130])" "sum_list (nums [CNum 0, CNum 0]) = 0"
    "nums [CNum 5, CNum 15] \<noteq> []"
    by simp_all
  show ?thesis using Conformance.zero_base_home_display [OF c g(1) n(1) g(2) n(2) g(3) n(3)] c g n
    by blast
qed

theorem bar_labels_roundtrip_witness:
  "\<exists>fig. create_bar_chart ex_frame ''%Change Test'' ''Revenue Test % Change'' = Inr fig \<and>
     length (cols ex_frame) = length (vals ex_frame) \<and>
     get_column ex_frame ''%Change Test'' = Inr [CNum 10, CNum 30] \<and>
     list_all (\<lambda>x. \<bar>x\<bar> < 10 ^ 12) (nums [CNum 10, CNum 30]) \<and>
     (\<exists>ls. series_labels Float64 (chart_text fig) = Some ls \<and> list_all (\<lambda>l. last l = CHR ''%'') ls \<and>
        map (\<lambda>l. read_label (butlast l)) ls = map (round_cell 2) [CNum 10, CNum 30]) \<and>
     series_labels Float64 (chart_text fig) = Some [''10.0%'', ''30.0%''] \<and>
     series_labels Int64 (chart_text fig) = Some [''10%'', ''30%'']"
proof -
  have "\<not> isl (create_bar_chart ex_frame ''%Change Test'' ''Revenue Test % Change'')" by code_simp
  then obtain fig where f: "create_bar_chart ex_frame ''%Change Test'' ''Revenue Test % Change'' = Inr fig"
    by (cases "create_bar_chart ex_frame ''%Change Test'' ''Revenue Test % Change''") auto
  have h: "length (cols ex_frame) = length (vals ex_frame)"
    "get_column ex_frame ''%Change Test'' = Inr [CNum 10, CNum 30]"
    "list_all (\<lambda>x. \<bar>x\<bar> < 10 ^ 12) (nums [CNum 10, CNum 30])"
    by (simp_all add: ex_frame_def get_column_def)
  have "map_sum id (\<lambda>fig. (series_labels Float64 (chart_text fig), series_labels Int64 (chart_text fig)))
          (create_bar_chart ex_frame ''%Change Test'' ''Revenue Test % Change'') =
        Inr (Some [''10.0%'', ''30.0%''], Some [''10%'', ''30%''])"
    by code_simp
  then have l: "series_labels Float64 (chart_text fig) = Some [''10.0%'', ''30.0%'']"
    "series_labels Int64 (chart_text fig) = Some [''10%'', ''30%'']"
    using f by simp_all
  show ?thesis using Labels.bar_labels_roundtrip [OF f h] f h l by blast
qed

subsection \<open>The specification's scenarios, evaluated\<close>

text \<open>The spec's scenario run through the whole startup: with Test 2024 = [100, 100],
  Test 2025 = [110, 130] and Control changes [5.0, 15.0] in the revenue file, the Test
  change is 20.00, the performance difference 10.00, and the page shows "10.00% better
  than Control".\<close>

theorem startup_spec_scenario:
  "emap (\<lambda>d. (revenue_test_pct d, revenue_perf_diff d, performance_arrow (revenue_perf_diff d)))
     (startup ex_files) = Inr (Fin 20, Fin 10, better_icon @ ''10.00% better than Control'')"
  by code_simp

text \<open>The order of the startup matters for the verdict: the Control column is rounded
  (lines 82--84) before its mean is taken (line 87). With Control changes
  [0.006, 0.006, 0] and a Test change of 0 the page says "0.01% worse than Control",
  while the mean of the unrounded column would have given no difference.\<close>

theorem startup_rounding_changes_verdict:
  "emap (\<lambda>d. performance_arrow (revenue_perf_diff d)) (startup ex_files_rounding) =
     Inr (worse_icon @ ''0.01% worse than Control'') \<and>
   performance_arrow (np_round 2 (fsub (Fin 0) (mean_of [3/500, 3/500, 0]))) =
     balance_icon @ '' No difference from Control''"
  by code_simp

text \<open>The specification's per-product scenario: with fifteen products and the
  select box on Quantity, the page runs to the end and its first chart shows exactly the
  ten products with the largest Quantity, largest first, the tie at 5 between rows 8 and
  13 going to the earlier row; the second chart (the scatter plot) shows all fifteen.\<close>

theorem product_page_spec_scenario:
  "snd (product_page ex_quantity_widgets ex_product_tables) = Inr () \<and>
   [get_column (chart_frame fig) ''ProductId''. PlotlyChart fig \<leftarrow> fst (product_page ex_quantity_widgets ex_product_tables)] =
     [Inr (map (\<lambda>i. CStr (''P'' @ show_nat i)) [1, 3, 7, 14, 10, 5, 12, 9, 0, 8]),
      Inr (map (\<lambda>i. CStr (''P'' @ show_nat i)) [0..<15])]"
  by code_simp

end
